theory Spec2Isabelle
  imports Complex_Main "HOL-Library.Word" "HOL-Library.AList"
begin

section \<open>Signaling hub (internal/signaling)\<close>

text \<open>
  The Go side is embedded with an explicit store. A \<open>*Client\<close> and a \<open>*Room\<close>
  are addresses; the records they point to live in \<open>client_heap\<close> and
  \<open>room_heap\<close> of the hub state, so that a room kept alive by a client's
  \<open>publicRoom\<close> pointer after leaving the hub's table is still the same object.
  A Go \<open>map[string]T\<close> is an association list with unique keys (\<open>map_of\<close> to
  read, \<open>AList.update\<close> to write, \<open>AList.delete\<close> to delete); \<open>range\<close> over a
  map visits the entries in an order Go leaves unspecified, the list order stands
  for one such order. Every function below is one run of the Go function with no
  other goroutine in between; where the source gives up a lock in the middle of a
  function that a claim depends on (\<open>CreatePublicRoom\<close>), the parts are separate
  definitions, so that a run with another connection's handler in between can be
  written down. A \<open>[]byte\<close> holding the JSON of a \<open>Message\<close> is the \<open>Message\<close>
  record itself; \<open>encoding/json\<close>, \<open>net\<close> and \<open>crypto/rand\<close> are libraries outside
  the repository and enter as parameters.
\<close>

subsection \<open>messages.go\<close>

record PeerInfo =
  ID :: string
  Name :: string
  Platform :: string

text \<open>
  \<open>Payload\<close> is a \<open>json.RawMessage\<close>. What a client sent is opaque JSON text
  (\<open>Raw\<close>); what the hub marshals itself is kept as the struct it marshalled.
\<close>

datatype payload =
    NoPayload
  | Raw string
  | PeersPayload "PeerInfo list"
  | PeerJoinedPayload PeerInfo
  | PeerLeftPayload string
  | RoomCodePayload string
  | RoomJoinedPayload string "PeerInfo list"
  | RoomErrorPayload string

record Message =
  Type :: string
  PeerID :: string
  TargetID :: string
  Payload :: payload

definition TypeJoin :: string where "TypeJoin = ''join''"
definition TypePeers :: string where "TypePeers = ''peers''"
definition TypePeerJoined :: string where "TypePeerJoined = ''peer-joined''"
definition TypePeerLeft :: string where "TypePeerLeft = ''peer-left''"
definition TypeOffer :: string where "TypeOffer = ''offer''"
definition TypeAnswer :: string where "TypeAnswer = ''answer''"
definition TypeIceCandidate :: string where "TypeIceCandidate = ''ice-candidate''"
definition TypeTransferRequest :: string where "TypeTransferRequest = ''transfer-request''"
definition TypeTransferResponse :: string where "TypeTransferResponse = ''transfer-response''"
definition TypePing :: string where "TypePing = ''ping''"
definition TypePong :: string where "TypePong = ''pong''"
definition TypeCreateRoom :: string where "TypeCreateRoom = ''create-room''"
definition TypeRoomCreated :: string where "TypeRoomCreated = ''room-created''"
definition TypeJoinRoom :: string where "TypeJoinRoom = ''join-room''"
definition TypeLeaveRoom :: string where "TypeLeaveRoom = ''leave-room''"
definition TypeRoomJoined :: string where "TypeRoomJoined = ''room-joined''"
definition TypeRoomLeft :: string where "TypeRoomLeft = ''room-left''"
definition TypeRoomError :: string where "TypeRoomError = ''room-error''"
definition TypeRelayChunk :: string where "TypeRelayChunk = ''relay-chunk''"

definition mkMessage :: "string \<Rightarrow> payload \<Rightarrow> Message" where
  "mkMessage t p = \<lparr>Type = t, PeerID = [], TargetID = [], Payload = p\<rparr>"

definition NewPeersMessage :: "PeerInfo list \<Rightarrow> Message" where
  "NewPeersMessage peers = mkMessage TypePeers (PeersPayload peers)"

definition NewPeerJoinedMessage :: "PeerInfo \<Rightarrow> Message" where
  "NewPeerJoinedMessage peer = mkMessage TypePeerJoined (PeerJoinedPayload peer)"

definition NewPeerLeftMessage :: "string \<Rightarrow> Message" where
  "NewPeerLeftMessage peerID = mkMessage TypePeerLeft (PeerLeftPayload peerID)"

definition NewRoomCreatedMessage :: "string \<Rightarrow> Message" where
  "NewRoomCreatedMessage code = mkMessage TypeRoomCreated (RoomCodePayload code)"

definition NewRoomJoinedMessage :: "string \<Rightarrow> PeerInfo list \<Rightarrow> Message" where
  "NewRoomJoinedMessage code peers = mkMessage TypeRoomJoined (RoomJoinedPayload code peers)"

definition NewRoomErrorMessage :: "string \<Rightarrow> Message" where
  "NewRoomErrorMessage err = mkMessage TypeRoomError (RoomErrorPayload err)"

definition NewPongMessage :: Message where
  "NewPongMessage = mkMessage TypePong NoPayload"

subsection \<open>The store: clients, rooms, the hub\<close>

type_synonym caddr = nat
type_synonym raddr = nat

text \<open>
  \<open>client_send\<close> is the buffered channel \<open>send\<close> (capacity 256), oldest message
  first, and \<open>send_closed\<close> tells whether \<open>close\<close> has been called on it. The
  fields \<open>conn\<close>, \<open>hub\<close> and \<open>logger\<close> carry no state of their own here: there is
  one hub, and what is logged is appended to \<open>hub_log\<close>.

  A send on a closed channel panics, and so does closing a channel a second time.
  Nothing in the package recovers from a panic, so the hub process ends there;
  \<open>panicked\<close> records that this has happened. A state with \<open>panicked\<close> set
  stands for the terminated process, whatever its other fields hold. The hub's
  map \<open>clients\<close>, which only \<open>Stats\<close> reads, is not part of the state.
\<close>

record Client =
  client_id :: string
  client_send :: "Message list"
  send_closed :: bool
  ipRoom :: "raddr option"
  publicRoom :: "raddr option"
  client_name :: string
  client_platform :: string
  client_ip :: string

record Room =
  room_id :: string
  isPublic :: bool
  room_clients :: "(string \<times> caddr) list"

datatype log_level = Debug | Info | Warn

datatype log_entry = Log log_level string "(string \<times> string) list"

record Hub =
  ipRooms :: "(string \<times> raddr) list"
  publicRooms :: "(string \<times> raddr) list"
  client_heap :: "caddr \<Rightarrow> Client"
  room_heap :: "raddr \<Rightarrow> Room"
  next_room :: raddr
  hub_log :: "log_entry list"
  panicked :: bool

definition send_capacity :: nat where
  "send_capacity = 256"

subsection \<open>client.go: PeerInfo and Send\<close>

definition PeerInfo_of :: "Client \<Rightarrow> PeerInfo" where
  "PeerInfo_of c = \<lparr>ID = client_id c, Name = client_name c, Platform = client_platform c\<rparr>"

text \<open>
  \<open>Send\<close>: the \<open>select\<close> enqueues when the channel has room and otherwise takes
  the \<open>default\<close> branch, which drops the message and logs a warning. On a closed
  channel the send case of the \<open>select\<close> is chosen and panics, full or not.
\<close>

definition Send :: "caddr \<Rightarrow> Message \<Rightarrow> Hub \<Rightarrow> Hub" where
  "Send a msg h =
     (let c = client_heap h a in
      if send_closed c then h\<lparr>panicked := True\<rparr>
      else if length (client_send c) < send_capacity
      then h\<lparr>client_heap := (client_heap h)(a := c\<lparr>client_send := client_send c @ [msg]\<rparr>)\<rparr>
      else h\<lparr>hub_log := hub_log h @
             [Log Warn ''client send buffer full'' [(''clientID'', client_id c)]]\<rparr>)"

subsection \<open>room.go\<close>

definition NewRoom :: "string \<Rightarrow> bool \<Rightarrow> Room" where
  "NewRoom rid pub = \<lparr>room_id = rid, isPublic = pub, room_clients = []\<rparr>"

text \<open>Allocation of a new room object: the next unused address.\<close>

definition alloc_room :: "Room \<Rightarrow> Hub \<Rightarrow> raddr \<times> Hub" where
  "alloc_room r h =
     (next_room h, h\<lparr>room_heap := (room_heap h)(next_room h := r), next_room := Suc (next_room h)\<rparr>)"

definition AddClient :: "raddr \<Rightarrow> caddr \<Rightarrow> Hub \<Rightarrow> Hub" where
  "AddClient r a h =
     (let room = room_heap h r in
      h\<lparr>room_heap := (room_heap h)
          (r := room\<lparr>room_clients := AList.update (client_id (client_heap h a)) a (room_clients room)\<rparr>)\<rparr>)"

definition RemoveClient :: "raddr \<Rightarrow> string \<Rightarrow> Hub \<Rightarrow> Hub" where
  "RemoveClient r clientID h =
     (let room = room_heap h r in
      h\<lparr>room_heap := (room_heap h)
          (r := room\<lparr>room_clients := AList.delete clientID (room_clients room)\<rparr>)\<rparr>)"

definition GetPeerInfos :: "raddr \<Rightarrow> string \<Rightarrow> Hub \<Rightarrow> PeerInfo list" where
  "GetPeerInfos r excludeID h =
     map (\<lambda>(k, a). PeerInfo_of (client_heap h a))
       (filter (\<lambda>(k, a). client_id (client_heap h a) \<noteq> excludeID) (room_clients (room_heap h r)))"

fun Broadcast_loop :: "(string \<times> caddr) list \<Rightarrow> Message \<Rightarrow> string \<Rightarrow> Hub \<Rightarrow> Hub" where
  "Broadcast_loop [] msg excludeID h = h"
| "Broadcast_loop ((k, a) # rest) msg excludeID h =
     Broadcast_loop rest msg excludeID
       (if client_id (client_heap h a) \<noteq> excludeID then Send a msg h else h)"

definition Broadcast :: "raddr \<Rightarrow> Message \<Rightarrow> string \<Rightarrow> Hub \<Rightarrow> Hub" where
  "Broadcast r msg excludeID h = Broadcast_loop (room_clients (room_heap h r)) msg excludeID h"

definition RelayTo :: "raddr \<Rightarrow> string \<Rightarrow> Message \<Rightarrow> Hub \<Rightarrow> bool \<times> Hub" where
  "RelayTo r targetID msg h =
     (case map_of (room_clients (room_heap h r)) targetID of
        Some a \<Rightarrow> (True, Send a msg h)
      | None \<Rightarrow> (False, h))"

definition IsEmpty :: "raddr \<Rightarrow> Hub \<Rightarrow> bool" where
  "IsEmpty r h = (room_clients (room_heap h r) = [])"

definition charset :: string where
  "charset = ''ABCDEFGHJKLMNPQRSTUVWXYZ23456789''"

text \<open>
  \<open>GenerateRoomCode\<close>: \<open>rnd i\<close> is the byte \<open>rand.Read\<close> left in \<open>b[i]\<close> of the
  5-byte buffer; each is replaced by \<open>charset[int(b[i]) % len(charset)]\<close>.
\<close>

definition GenerateRoomCode :: "(nat \<Rightarrow> 8 word) \<Rightarrow> string" where
  "GenerateRoomCode rnd = map (\<lambda>i. charset ! (unat (rnd i) mod length charset)) [0..<5]"

subsection \<open>Libraries the hub calls\<close>

text \<open>
  \<open>unmarshalJoin\<close> and \<open>unmarshalRoomCode\<close> stand for \<open>json.Unmarshal\<close> of a
  payload into a \<open>JoinPayload\<close> (name, platform) and a \<open>RoomCodePayload\<close> (code),
  \<open>None\<close> when it returns an error. \<open>ExtractIPRoomID\<close> is the function of
  room.go; its result is computed by \<open>net.SplitHostPort\<close> and \<open>net.ParseIP\<close>.
  \<open>marshalRaw\<close> is what \<open>json.Marshal\<close> writes for a \<open>json.RawMessage\<close> that holds
  valid JSON: the same JSON value as compact text, without insignificant white
  space and with \<open><\<close>, \<open>>\<close> and \<open>&\<close> escaped.
\<close>

record Env =
  unmarshalJoin :: "payload \<Rightarrow> (string \<times> string) option"
  unmarshalRoomCode :: "payload \<Rightarrow> string option"
  ExtractIPRoomID :: "string \<Rightarrow> string \<Rightarrow> string"
  marshalRaw :: "string \<Rightarrow> string"

subsection \<open>hub.go\<close>

definition set_ipRoom :: "caddr \<Rightarrow> raddr option \<Rightarrow> Hub \<Rightarrow> Hub" where
  "set_ipRoom a r h = h\<lparr>client_heap := (client_heap h)(a := (client_heap h a)\<lparr>ipRoom := r\<rparr>)\<rparr>"

definition set_publicRoom :: "caddr \<Rightarrow> raddr option \<Rightarrow> Hub \<Rightarrow> Hub" where
  "set_publicRoom a r h = h\<lparr>client_heap := (client_heap h)(a := (client_heap h a)\<lparr>publicRoom := r\<rparr>)\<rparr>"

definition hub_logf :: "log_entry \<Rightarrow> Hub \<Rightarrow> Hub" where
  "hub_logf e h = h\<lparr>hub_log := hub_log h @ [e]\<rparr>"

definition JoinIPRoom :: "Env \<Rightarrow> caddr \<Rightarrow> Hub \<Rightarrow> Hub" where
  "JoinIPRoom env a h =
     (let roomID = ExtractIPRoomID env (client_ip (client_heap h a)) [];
          (room, h1) =
            (case map_of (ipRooms h) roomID of
               Some r \<Rightarrow> (r, h)
             | None \<Rightarrow>
                 (let (r, h') = alloc_room (NewRoom roomID False) h
                  in (r, h'\<lparr>ipRooms := AList.update roomID r (ipRooms h')\<rparr>)));
          h2 = AddClient room a h1;
          h3 = set_ipRoom a (Some room) h2;
          peers = GetPeerInfos room (client_id (client_heap h3 a)) h3;
          h4 = Send a (NewPeersMessage peers) h3
      in Broadcast room (NewPeerJoinedMessage (PeerInfo_of (client_heap h4 a)))
           (client_id (client_heap h4 a)) h4)"

text \<open>
  The loop of \<open>CreatePublicRoom\<close> draws codes until one is not a key of
  \<open>publicRooms\<close>. Each element of \<open>draws\<close> is one result of \<open>rand.Read\<close>; the
  loop that never finds a free code among them has not returned (\<open>None\<close>). The
  loop looks the code up under the read lock and gives the lock up;
  \<open>CreatePublicRoom_insert\<close> is the rest of the function, which stores the room
  under the write lock it takes afterwards. \<open>CreatePublicRoom\<close> is the run in
  which no other connection's handler comes between the two.
\<close>

fun CreatePublicRoom_loop :: "(nat \<Rightarrow> 8 word) list \<Rightarrow> Hub \<Rightarrow> string option" where
  "CreatePublicRoom_loop [] h = None"
| "CreatePublicRoom_loop (rnd # rest) h =
     (let code = GenerateRoomCode rnd
      in if map_of (publicRooms h) code = None then Some code
         else CreatePublicRoom_loop rest h)"

definition CreatePublicRoom_insert :: "string \<Rightarrow> caddr \<Rightarrow> Hub \<Rightarrow> Hub" where
  "CreatePublicRoom_insert code a h =
     (let (room, h1) = alloc_room (NewRoom code True) h;
          h2 = AddClient room a h1;
          h3 = h2\<lparr>publicRooms := AList.update code room (publicRooms h2)\<rparr>
      in set_publicRoom a (Some room) h3)"

definition CreatePublicRoom :: "(nat \<Rightarrow> 8 word) list \<Rightarrow> caddr \<Rightarrow> Hub \<Rightarrow> (string \<times> Hub) option" where
  "CreatePublicRoom draws a h =
     (case CreatePublicRoom_loop draws h of
        None \<Rightarrow> None
      | Some code \<Rightarrow> Some (code, CreatePublicRoom_insert code a h))"

definition LeavePublicRoom :: "caddr \<Rightarrow> Hub \<Rightarrow> Hub" where
  "LeavePublicRoom a h =
     (case publicRoom (client_heap h a) of
        None \<Rightarrow> h
      | Some room \<Rightarrow>
          (let h1 = RemoveClient room (client_id (client_heap h a)) h;
               h2 = Broadcast room (NewPeerLeftMessage (client_id (client_heap h1 a)))
                      (client_id (client_heap h1 a)) h1;
               h3 = (if IsEmpty room h2
                     then h2\<lparr>publicRooms := AList.delete (room_id (room_heap h2 room)) (publicRooms h2)\<rparr>
                     else h2)
           in set_publicRoom a None h3))"

definition JoinPublicRoom :: "caddr \<Rightarrow> string \<Rightarrow> Hub \<Rightarrow> string + Hub" where
  "JoinPublicRoom a code h =
     (case map_of (publicRooms h) code of
        None \<Rightarrow> Inl ''room not found''
      | Some room \<Rightarrow>
          (let h1 = (if publicRoom (client_heap h a) \<noteq> None then LeavePublicRoom a h else h);
               h2 = AddClient room a h1;
               h3 = set_publicRoom a (Some room) h2;
               peers = GetPeerInfos room (client_id (client_heap h3 a)) h3;
               h4 = Send a (NewRoomJoinedMessage code peers) h3
           in Inr (Broadcast room (NewPeerJoinedMessage (PeerInfo_of (client_heap h4 a)))
                    (client_id (client_heap h4 a)) h4)))"

definition cleanupEmptyRooms :: "Hub \<Rightarrow> Hub" where
  "cleanupEmptyRooms h =
     (let h1 = h\<lparr>ipRooms := filter (\<lambda>(k, room). \<not> IsEmpty room h) (ipRooms h)\<rparr>
      in h1\<lparr>publicRooms := filter (\<lambda>(k, room). \<not> IsEmpty room h1) (publicRooms h1)\<rparr>)"

text \<open>
  \<open>Unregister\<close> runs when the read loop of a connection ends. It takes the
  client out of the rooms its two pointers name, and out of no other room, and
  closes its channel; the pointers themselves are left as they are.
\<close>

definition Unregister :: "caddr \<Rightarrow> Hub \<Rightarrow> Hub" where
  "Unregister a h =
     (let h1 = (case ipRoom (client_heap h a) of
                  None \<Rightarrow> h
                | Some room \<Rightarrow>
                    (let g1 = RemoveClient room (client_id (client_heap h a)) h;
                         g2 = Broadcast room (NewPeerLeftMessage (client_id (client_heap g1 a)))
                                (client_id (client_heap g1 a)) g1
                     in if IsEmpty room g2
                        then g2\<lparr>ipRooms := AList.delete (room_id (room_heap g2 room)) (ipRooms g2)\<rparr>
                        else g2));
          h2 = (case publicRoom (client_heap h1 a) of
                  None \<Rightarrow> h1
                | Some room \<Rightarrow>
                    (let g1 = RemoveClient room (client_id (client_heap h1 a)) h1;
                         g2 = Broadcast room (NewPeerLeftMessage (client_id (client_heap g1 a)))
                                (client_id (client_heap g1 a)) g1
                     in if IsEmpty room g2
                        then g2\<lparr>publicRooms := AList.delete (room_id (room_heap g2 room)) (publicRooms g2)\<rparr>
                        else g2));
          c = client_heap h2 a;
          h3 = (if send_closed c then h2\<lparr>panicked := True\<rparr>
                else h2\<lparr>client_heap := (client_heap h2)(a := c\<lparr>send_closed := True\<rparr>)\<rparr>)
      in hub_logf (Log Info ''client disconnected'' [(''id'', client_id (client_heap h3 a))]) h3)"

subsection \<open>client.go: the handlers of the inbound pump\<close>

definition handleJoin :: "Env \<Rightarrow> caddr \<Rightarrow> payload \<Rightarrow> Hub \<Rightarrow> Hub" where
  "handleJoin env a p h =
     (case unmarshalJoin env p of
        None \<Rightarrow> hub_logf (Log Warn ''failed to unmarshal join payload'' []) h
      | Some (n, pl) \<Rightarrow>
          (let h1 = h\<lparr>client_heap := (client_heap h)
                       (a := (client_heap h a)\<lparr>client_name := n, client_platform := pl\<rparr>)\<rparr>;
               h2 = JoinIPRoom env a h1;
               c = client_heap h2 a
           in hub_logf (Log Info ''client joined''
                 [(''id'', client_id c), (''name'', client_name c), (''platform'', client_platform c),
                  (''ipRoom'', case ipRoom c of Some r \<Rightarrow> room_id (room_heap h2 r) | None \<Rightarrow> [])]) h2))"

definition handleCreateRoom :: "(nat \<Rightarrow> 8 word) list \<Rightarrow> caddr \<Rightarrow> Hub \<Rightarrow> Hub option" where
  "handleCreateRoom draws a h =
     (case CreatePublicRoom draws a h of
        None \<Rightarrow> None
      | Some (code, h1) \<Rightarrow>
          Some (hub_logf (Log Info ''public room created''
                  [(''code'', code), (''creator'', client_id (client_heap h1 a))])
                 (Send a (NewRoomCreatedMessage code) h1)))"

definition handleJoinRoom :: "Env \<Rightarrow> caddr \<Rightarrow> payload \<Rightarrow> Hub \<Rightarrow> Hub" where
  "handleJoinRoom env a p h =
     (case unmarshalRoomCode env p of
        None \<Rightarrow> hub_logf (Log Warn ''failed to unmarshal room code payload'' []) h
      | Some code \<Rightarrow>
          (case JoinPublicRoom a code h of
             Inl err \<Rightarrow> Send a (NewRoomErrorMessage err) h
           | Inr h1 \<Rightarrow>
               hub_logf (Log Info ''client joined public room''
                 [(''code'', code), (''clientID'', client_id (client_heap h1 a))]) h1))"

definition handleLeaveRoom :: "caddr \<Rightarrow> Hub \<Rightarrow> Hub" where
  "handleLeaveRoom a h =
     (if publicRoom (client_heap h a) \<noteq> None
      then (let h1 = LeavePublicRoom a h
            in hub_logf (Log Info ''client left public room''
                 [(''clientID'', client_id (client_heap h1 a))]) h1)
      else h)"

text \<open>
  \<open>relayToTarget\<close>: the sender's id is stamped on the message, which is
  marshalled again and then offered to the sender's IP room and, when that room
  is absent or has no such member, to its public room. Marshalling writes the
  payload, a raw message, as \<open>marshalRaw\<close> gives it; the bytes the sender sent
  (\<open>rawData\<close>) are not used.
\<close>

definition marshalPayload :: "Env \<Rightarrow> payload \<Rightarrow> payload" where
  "marshalPayload env p = (case p of Raw s \<Rightarrow> Raw (marshalRaw env s) | _ \<Rightarrow> p)"

definition relayToTarget :: "Env \<Rightarrow> caddr \<Rightarrow> Message \<Rightarrow> Hub \<Rightarrow> Hub" where
  "relayToTarget env a msg h =
     (if TargetID msg = [] then h
      else
        (let data = msg\<lparr>PeerID := client_id (client_heap h a),
                       Payload := marshalPayload env (Payload msg)\<rparr>;
             (ok1, h1) = (case ipRoom (client_heap h a) of
                            None \<Rightarrow> (False, h)
                          | Some r \<Rightarrow> RelayTo r (TargetID data) data h)
         in if ok1 then h1
            else
              (let (ok2, h2) = (case publicRoom (client_heap h1 a) of
                                  None \<Rightarrow> (False, h1)
                                | Some r \<Rightarrow> RelayTo r (TargetID data) data h1)
               in if ok2 then h2
                  else hub_logf (Log Debug ''relay target not found''
                         [(''targetID'', TargetID data)]) h2)))"

text \<open>
  \<open>handleMessage\<close>: \<open>None\<close> as the message is a frame that \<open>json.Unmarshal\<close>
  rejected. The result is \<open>None\<close> only when \<open>CreatePublicRoom\<close> has not returned.
\<close>

definition handleMessage :: "Env \<Rightarrow> (nat \<Rightarrow> 8 word) list \<Rightarrow> caddr \<Rightarrow> Message option \<Rightarrow> Hub \<Rightarrow> Hub option" where
  "handleMessage env draws a m h =
     (case m of
        None \<Rightarrow> Some (hub_logf (Log Warn ''failed to unmarshal message'' []) h)
      | Some msg \<Rightarrow>
          (if Type msg = TypeJoin then Some (handleJoin env a (Payload msg) h)
           else if Type msg = TypeOffer \<or> Type msg = TypeAnswer \<or> Type msg = TypeIceCandidate
             then Some (relayToTarget env a msg h)
           else if Type msg = TypeTransferRequest \<or> Type msg = TypeTransferResponse
             then Some (relayToTarget env a msg h)
           else if Type msg = TypeRelayChunk then Some (relayToTarget env a msg h)
           else if Type msg = TypeCreateRoom then handleCreateRoom draws a h
           else if Type msg = TypeJoinRoom then Some (handleJoinRoom env a (Payload msg) h)
           else if Type msg = TypeLeaveRoom then Some (handleLeaveRoom a h)
           else if Type msg = TypePing then Some (Send a NewPongMessage h)
           else Some h))"

section \<open>Peer side (web/static/js)\<close>

text \<open>
  The browser side is event driven: every handler runs to completion before the
  next event is taken, and the model runs an \<open>async\<close> function in one piece (no
  other event is interleaved at its \<open>await\<close>s, and the timed waits \<open>sleep\<close> and
  the back-pressure poll leave no trace in the state). A JavaScript \<open>Map\<close> is an
  association list in insertion order. What a handler does to the outside world
  is appended to a list of the state: frames given to \<open>channel.send\<close>, messages
  given to \<open>ws.send\<close>, timers started, events dispatched, blobs handed to
  \<open>downloadBlob\<close>. An exception that leaves a handler is recorded in
  \<open>uncaught\<close> and ends the handler there.
\<close>

subsection \<open>websocket.js\<close>

type_synonym bytes = "8 word list"

record FileInfo =
  fi_name :: string
  fi_size :: nat
  fi_type :: string

text \<open>
  The payload objects the page sends. The \<open>data\<close> of a relay chunk is the
  base64 text of the chunk; \<open>atob\<close> undoes \<open>btoa\<close>, so the model carries the
  bytes themselves.
\<close>

datatype js_payload =
    JoinP string string
  | RoomCodeP string
  | SignalP string
  | TransferRequestP string "FileInfo list" nat
  | TransferResponseP string bool
  | RelayChunkP string nat nat bytes bool

record ws_message =
  msg_type :: string
  msg_payload :: "js_payload option"
  msg_targetId :: "string option"

datatype readyState = CONNECTING | OPEN | CLOSING | CLOSED

text \<open>
  \<open>ws\<close> is the ready state of the current socket (\<open>None\<close>: no socket yet),
  \<open>pingInterval\<close> whether the ping timer runs. \<open>reconnectDelay\<close> is a JavaScript
  number; every value it takes from 1000 on (1000 times a power of 1.5 below the
  cap, or 30000) is a dyadic rational that a double holds exactly, so the
  arithmetic is that of the rationals. \<open>timers\<close> holds the delay of each
  \<open>setTimeout\<close> of \<open>onclose\<close> that has not fired, oldest first.
\<close>

record WebSocketManager =
  ws :: "readyState option"
  reconnectAttempts :: nat
  maxReconnectAttempts :: nat
  reconnectDelay :: rat
  messageQueue :: "ws_message list"
  isConnected :: bool
  pingInterval :: bool
  ws_sent :: "ws_message list"
  timers :: "rat list"
  ws_events :: "string list"

definition WebSocketManager_new :: WebSocketManager where
  "WebSocketManager_new =
     \<lparr>ws = None, reconnectAttempts = 0, maxReconnectAttempts = 10, reconnectDelay = 1000,
      messageQueue = [], isConnected = False, pingInterval = False,
      ws_sent = [], timers = [], ws_events = []\<rparr>"

definition ws_connect :: "WebSocketManager \<Rightarrow> WebSocketManager" where
  "ws_connect w = w\<lparr>ws := Some CONNECTING\<rparr>"

definition ws_onopen :: "WebSocketManager \<Rightarrow> WebSocketManager" where
  "ws_onopen w =
     w\<lparr>ws := Some OPEN, isConnected := True, reconnectAttempts := 0, reconnectDelay := 1000,
       ws_sent := ws_sent w @ messageQueue w, messageQueue := [],
       pingInterval := True, ws_events := ws_events w @ [''open'']\<rparr>"

definition ws_onclose :: "WebSocketManager \<Rightarrow> WebSocketManager" where
  "ws_onclose w =
     (let w1 = w\<lparr>ws := Some CLOSED, isConnected := False, pingInterval := False,
                 ws_events := ws_events w @ [''close'']\<rparr>
      in if reconnectAttempts w1 < maxReconnectAttempts w1
         then w1\<lparr>timers := timers w1 @ [reconnectDelay w1],
                 reconnectDelay := min (reconnectDelay w1 * (3 / 2)) 30000\<rparr>
         else w1)"

text \<open>The callback of the timer that \<open>onclose\<close> started: count the attempt, connect.\<close>

definition ws_reconnect_timer :: "WebSocketManager \<Rightarrow> WebSocketManager" where
  "ws_reconnect_timer w =
     ws_connect (w\<lparr>timers := tl (timers w), reconnectAttempts := reconnectAttempts w + 1\<rparr>)"

definition ws_send :: "string \<Rightarrow> js_payload option \<Rightarrow> string \<Rightarrow> WebSocketManager \<Rightarrow> WebSocketManager" where
  "ws_send t payload targetId w =
     (let msg = \<lparr>msg_type = t, msg_payload = payload,
                 msg_targetId = (if targetId = [] then None else Some targetId)\<rparr>
      in if isConnected w \<and> ws w = Some OPEN
         then w\<lparr>ws_sent := ws_sent w @ [msg]\<rparr>
         else w\<lparr>messageQueue := messageQueue w @ [msg]\<rparr>)"

definition ws_disconnect :: "WebSocketManager \<Rightarrow> WebSocketManager" where
  "ws_disconnect w =
     (let w1 = w\<lparr>maxReconnectAttempts := 0, pingInterval := False\<rparr>
      in case ws w1 of None \<Rightarrow> w1 | Some _ \<Rightarrow> w1\<lparr>ws := Some CLOSING\<rparr>)"

definition sendTransferRequest :: "string \<Rightarrow> string \<Rightarrow> FileInfo list \<Rightarrow> WebSocketManager \<Rightarrow> WebSocketManager" where
  "sendTransferRequest targetId transferId files w =
     ws_send ''transfer-request''
       (Some (TransferRequestP transferId
          (map (\<lambda>f. f\<lparr>fi_type := (if fi_type f = [] then ''application/octet-stream'' else fi_type f)\<rparr>) files)
          (sum_list (map fi_size files))))
       targetId w"

definition sendTransferResponse :: "string \<Rightarrow> string \<Rightarrow> bool \<Rightarrow> WebSocketManager \<Rightarrow> WebSocketManager" where
  "sendTransferResponse targetId transferId accepted w =
     ws_send ''transfer-response'' (Some (TransferResponseP transferId accepted)) targetId w"

definition sendRelayChunk ::
  "string \<Rightarrow> string \<Rightarrow> nat \<Rightarrow> nat \<Rightarrow> bytes \<Rightarrow> bool \<Rightarrow> WebSocketManager \<Rightarrow> WebSocketManager" where
  "sendRelayChunk targetId transferId fileIndex chunkIndex dat isLast w =
     ws_send ''relay-chunk'' (Some (RelayChunkP transferId fileIndex chunkIndex dat isLast)) targetId w"

text \<open>
  A run of failed reconnects: each round is the close of the current socket
  followed by the firing of the timer that the close started.
\<close>

fun failed_attempts :: "nat \<Rightarrow> WebSocketManager \<Rightarrow> WebSocketManager" where
  "failed_attempts 0 w = w"
| "failed_attempts (Suc k) w = ws_reconnect_timer (ws_onclose (failed_attempts k w))"

subsection \<open>file-transfer.js: data\<close>

record File =
  file_name :: string
  file_type :: string
  file_data :: bytes

definition file_size :: "File \<Rightarrow> nat" where
  "file_size f = length (file_data f)"

definition file_info :: "File \<Rightarrow> FileInfo" where
  "file_info f = \<lparr>fi_name = file_name f, fi_size = file_size f, fi_type = file_type f\<rparr>"

text \<open>\<open>Blob.slice(start, end)\<close>, with both ends clamped to the size.\<close>

definition blob_slice :: "bytes \<Rightarrow> nat \<Rightarrow> nat \<Rightarrow> bytes" where
  "blob_slice b start end = take (end - start) (drop start b)"

definition CHUNK_SIZE :: nat where
  "CHUNK_SIZE = 64 * 1024"

text \<open>
  \<open>Math.ceil(size / CHUNK_SIZE)\<close>: the quotient by a power of two is exact in a
  double for every size a file can have, so this is the ceiling of the exact
  quotient.
\<close>

definition ceil_div :: "nat \<Rightarrow> nat \<Rightarrow> nat" where
  "ceil_div a b = (a + b - 1) div b"

record metadata =
  md_transferId :: string
  md_fileIndex :: nat
  md_name :: string
  md_size :: nat
  md_type :: string
  md_totalChunks :: nat

text \<open>
  The three binary messages of the data channel, by tag (\<open>MSG_METADATA\<close> 1,
  \<open>MSG_CHUNK\<close> 2, \<open>MSG_COMPLETE\<close> 3), as the fields \<open>handleBinaryMessage\<close> reads
  back from the bytes: the metadata object behind its JSON text, the file index
  as written by \<open>setUint16\<close> and the chunk index as written by \<open>setUint32\<close>, the
  id cut to the length written by \<open>setUint8\<close>.
\<close>

datatype frame =
    MetadataFrame metadata
  | ChunkFrame nat nat bytes
  | CompleteFrame string

definition createMetadataMessage :: "metadata \<Rightarrow> frame" where
  "createMetadataMessage md = MetadataFrame md"

definition createChunkMessage :: "nat \<Rightarrow> nat \<Rightarrow> bytes \<Rightarrow> frame" where
  "createChunkMessage fileIndex chunkIndex dat =
     ChunkFrame (fileIndex mod 2 ^ 16) (chunkIndex mod 2 ^ 32) dat"

definition createCompleteMessage :: "string \<Rightarrow> frame" where
  "createCompleteMessage transferId = CompleteFrame (take (length transferId mod 2 ^ 8) transferId)"

record out_transfer =
  ot_id :: string
  ot_peerId :: string
  ot_files :: "File list"
  ot_currentFileIndex :: nat
  ot_currentChunkIndex :: nat
  ot_bytesSent :: nat
  ot_totalBytes :: nat
  ot_status :: string
  ot_useRelay :: bool

text \<open>
  A JavaScript array with holes is a list of options, \<open>None\<close> a hole.
  \<open>fileChunks\<close> is absent until the first relay chunk, then an array whose
  entries are arrays of chunks.
\<close>

record in_transfer =
  it_id :: string
  it_peerId :: string
  it_files :: "FileInfo list"
  it_totalSize :: nat
  it_receivedFiles :: "(string \<times> bytes) list"
  it_currentFileData :: "bytes list"
  it_currentFileIndex :: nat
  it_bytesReceived :: nat
  it_status :: string
  it_currentFileMetadata :: "metadata option"
  it_fileChunks :: "bytes option list option list option"

datatype ft_event =
    Ev string string
  | Progress string string nat nat

record FileTransferManager =
  wsManager :: WebSocketManager
  outgoingTransfers :: "(string \<times> out_transfer) list"
  incomingTransfers :: "(string \<times> in_transfer) list"
  channel_sent :: "(string \<times> frame) list"
  events :: "ft_event list"
  downloads :: "(bytes \<times> string) list"
  uncaught :: "string list"

text \<open>
  What the WebRTC manager answers during \<open>handleTransferResponse\<close>:
  \<open>hasOpenChannel\<close> before anything is tried, whether \<open>connect\<close> followed by
  \<open>waitForDataChannel\<close> resolves (rather than rejects or times out), and whether
  \<open>getDataChannel\<close> then gives a channel in state \<open>open\<close>.
\<close>

record WebRTC =
  hasOpenChannel :: "string \<Rightarrow> bool"
  connect_resolves :: "string \<Rightarrow> bool"
  channel_open :: "string \<Rightarrow> bool"

definition dispatchEvent :: "ft_event \<Rightarrow> FileTransferManager \<Rightarrow> FileTransferManager" where
  "dispatchEvent e s = s\<lparr>events := events s @ [e]\<rparr>"

definition channel_send :: "string \<Rightarrow> frame \<Rightarrow> FileTransferManager \<Rightarrow> FileTransferManager" where
  "channel_send peer f s = s\<lparr>channel_sent := channel_sent s @ [(peer, f)]\<rparr>"

definition js_get :: "'a option list \<Rightarrow> nat \<Rightarrow> 'a option" where
  "js_get xs i = (if i < length xs then xs ! i else None)"

definition js_set :: "'a option list \<Rightarrow> nat \<Rightarrow> 'a \<Rightarrow> 'a option list" where
  "js_set xs i v =
     (if i < length xs then xs[i := Some v]
      else xs @ replicate (i - length xs) None @ [Some v])"

text \<open>
  \<open>new Blob(parts)\<close>: the parts in order; a hole reads as \<open>undefined\<close>, which the
  constructor turns into the text \<open>undefined\<close>.
\<close>

definition undefined_text :: bytes where
  "undefined_text = [117, 110, 100, 101, 102, 105, 110, 101, 100]"

definition Blob :: "bytes option list \<Rightarrow> bytes" where
  "Blob parts = concat (map (\<lambda>p. case p of Some b \<Rightarrow> b | None \<Rightarrow> undefined_text) parts)"

subsection \<open>file-transfer.js: the sending side\<close>

definition sendFiles :: "string \<Rightarrow> string \<Rightarrow> File list \<Rightarrow> FileTransferManager \<Rightarrow> FileTransferManager" where
  "sendFiles transferId peerId files s =
     (let transfer = \<lparr>ot_id = transferId, ot_peerId = peerId, ot_files = files,
                      ot_currentFileIndex = 0, ot_currentChunkIndex = 0, ot_bytesSent = 0,
                      ot_totalBytes = sum_list (map file_size files),
                      ot_status = ''pending'', ot_useRelay = False\<rparr>;
          s1 = s\<lparr>outgoingTransfers := AList.update transferId transfer (outgoingTransfers s)\<rparr>;
          s2 = s1\<lparr>wsManager := sendTransferRequest peerId transferId (map file_info files) (wsManager s1)\<rparr>
      in dispatchEvent (Ev ''send-pending'' transferId) s2)"

function sendViaDataChannel_chunks ::
  "File \<Rightarrow> nat \<Rightarrow> nat \<Rightarrow> nat \<Rightarrow> out_transfer \<times> FileTransferManager \<Rightarrow> out_transfer \<times> FileTransferManager" where
  "sendViaDataChannel_chunks file fileIndex offset chunkIndex (t, s) =
     (if offset < file_size file then
        (let chunk = blob_slice (file_data file) offset (offset + CHUNK_SIZE);
             s1 = channel_send (ot_peerId t) (createChunkMessage fileIndex chunkIndex chunk) s;
             t1 = t\<lparr>ot_currentChunkIndex := chunkIndex + 1, ot_bytesSent := ot_bytesSent t + length chunk\<rparr>;
             s2 = dispatchEvent (Progress ''send-progress'' (ot_id t1) (ot_bytesSent t1) (ot_totalBytes t1)) s1
         in sendViaDataChannel_chunks file fileIndex (offset + CHUNK_SIZE) (chunkIndex + 1) (t1, s2))
      else (t, s))"
  by pat_completeness auto
termination
  by (relation "measure (\<lambda>(file, fileIndex, offset, chunkIndex, ts). file_size file - offset)")
     (auto simp: CHUNK_SIZE_def)

text \<open>The loop over \<open>transfer.files\<close>, which nothing changes while it runs.\<close>

function sendViaDataChannel_files ::
  "File list \<Rightarrow> nat \<Rightarrow> out_transfer \<times> FileTransferManager \<Rightarrow> out_transfer \<times> FileTransferManager" where
  "sendViaDataChannel_files files fileIndex (t, s) =
     (if fileIndex < length files then
        (let file = files ! fileIndex;
             t1 = t\<lparr>ot_currentFileIndex := fileIndex\<rparr>;
             md = \<lparr>md_transferId = ot_id t1, md_fileIndex = fileIndex, md_name = file_name file,
                   md_size = file_size file, md_type = file_type file,
                   md_totalChunks = ceil_div (file_size file) CHUNK_SIZE\<rparr>;
             s1 = channel_send (ot_peerId t1) (createMetadataMessage md) s
         in sendViaDataChannel_files files (fileIndex + 1)
              (sendViaDataChannel_chunks file fileIndex 0 0 (t1, s1)))
      else (t, s))"
  by pat_completeness auto
termination
  by (relation "measure (\<lambda>(files, fileIndex, ts). length files - fileIndex)") auto

text \<open>
  \<open>sendViaDataChannel\<close> throws when there is no open channel; otherwise the
  channel stays usable until the last frame is handed over.
\<close>

definition sendViaDataChannel :: "WebRTC \<Rightarrow> out_transfer \<Rightarrow> FileTransferManager \<Rightarrow> string + FileTransferManager" where
  "sendViaDataChannel rtc transfer s =
     (if \<not> channel_open rtc (ot_peerId transfer) then Inl ''Data channel not available''
      else
        (let t1 = transfer\<lparr>ot_status := ''transferring''\<rparr>;
             (t2, s2) = sendViaDataChannel_files (ot_files t1) 0 (t1, s);
             s3 = channel_send (ot_peerId t2) (createCompleteMessage (ot_id t2)) s2;
             t3 = t2\<lparr>ot_status := ''completed''\<rparr>;
             s4 = dispatchEvent (Ev ''send-complete'' (ot_id t3)) s3
         in Inr (s4\<lparr>outgoingTransfers := AList.delete (ot_id t3) (outgoingTransfers s4)\<rparr>)))"

function sendViaRelay_chunks ::
  "File list \<Rightarrow> File \<Rightarrow> nat \<Rightarrow> nat \<Rightarrow> nat \<Rightarrow> out_transfer \<times> FileTransferManager \<Rightarrow> out_transfer \<times> FileTransferManager" where
  "sendViaRelay_chunks files file fileIndex offset chunkIndex (t, s) =
     (if offset < file_size file then
        (let chunk = blob_slice (file_data file) offset (offset + CHUNK_SIZE);
             isLast = (fileIndex = length files - 1 \<and> offset + CHUNK_SIZE \<ge> file_size file);
             s1 = s\<lparr>wsManager := sendRelayChunk (ot_peerId t) (ot_id t) fileIndex chunkIndex chunk isLast
                                   (wsManager s)\<rparr>;
             t1 = t\<lparr>ot_bytesSent := ot_bytesSent t + length chunk\<rparr>;
             s2 = dispatchEvent (Progress ''send-progress'' (ot_id t1) (ot_bytesSent t1) (ot_totalBytes t1)) s1
         in sendViaRelay_chunks files file fileIndex (offset + CHUNK_SIZE) (chunkIndex + 1) (t1, s2))
      else (t, s))"
  by pat_completeness auto
termination
  by (relation "measure (\<lambda>(files, file, fileIndex, offset, chunkIndex, ts). file_size file - offset)")
     (auto simp: CHUNK_SIZE_def)

function sendViaRelay_files ::
  "File list \<Rightarrow> nat \<Rightarrow> out_transfer \<times> FileTransferManager \<Rightarrow> out_transfer \<times> FileTransferManager" where
  "sendViaRelay_files files fileIndex (t, s) =
     (if fileIndex < length files then
        (let file = files ! fileIndex;
             t1 = t\<lparr>ot_currentFileIndex := fileIndex\<rparr>
         in sendViaRelay_files files (fileIndex + 1)
              (sendViaRelay_chunks files file fileIndex 0 0 (t1, s)))
      else (t, s))"
  by pat_completeness auto
termination
  by (relation "measure (\<lambda>(files, fileIndex, ts). length files - fileIndex)") auto

definition sendViaRelay :: "out_transfer \<Rightarrow> FileTransferManager \<Rightarrow> FileTransferManager" where
  "sendViaRelay transfer s =
     (let t1 = transfer\<lparr>ot_status := ''transferring''\<rparr>;
          (t2, s2) = sendViaRelay_files (ot_files t1) 0 (t1, s);
          t3 = t2\<lparr>ot_status := ''completed''\<rparr>;
          s3 = dispatchEvent (Ev ''send-complete'' (ot_id t3)) s2
      in s3\<lparr>outgoingTransfers := AList.delete (ot_id t3) (outgoingTransfers s3)\<rparr>)"

text \<open>
  The transfer objects are the ones stored in the maps: what a handler assigns
  to one is written to its entry, until the entry is deleted. The sending
  loops work on the object they were given; its entry is deleted when they end.
\<close>

definition handleTransferResponse ::
  "WebRTC \<Rightarrow> string \<Rightarrow> string \<Rightarrow> bool \<Rightarrow> FileTransferManager \<Rightarrow> FileTransferManager" where
  "handleTransferResponse rtc peerId transferId accepted s =
     (case map_of (outgoingTransfers s) transferId of
        None \<Rightarrow> s
      | Some transfer \<Rightarrow>
          (if \<not> accepted then
             (let t1 = transfer\<lparr>ot_status := ''rejected''\<rparr>;
                  s1 = dispatchEvent (Ev ''send-rejected'' transferId)
                         (s\<lparr>outgoingTransfers := AList.update transferId t1 (outgoingTransfers s)\<rparr>)
              in s1\<lparr>outgoingTransfers := AList.delete transferId (outgoingTransfers s1)\<rparr>)
           else
             (let t1 = transfer\<lparr>ot_status := ''accepted''\<rparr>;
                  s1 = dispatchEvent (Ev ''send-accepted'' transferId)
                         (s\<lparr>outgoingTransfers := AList.update transferId t1 (outgoingTransfers s)\<rparr>);
                  t2 = t1\<lparr>ot_useRelay := True\<rparr>;
                  s2 = s1\<lparr>outgoingTransfers := AList.update transferId t2 (outgoingTransfers s1)\<rparr>
              in if hasOpenChannel rtc peerId \<or> connect_resolves rtc peerId
                 then (case sendViaDataChannel rtc t1 s1 of
                         Inr s' \<Rightarrow> s'
                       | Inl err \<Rightarrow> sendViaRelay t2 s2)
                 else sendViaRelay t2 s2)))"

subsection \<open>file-transfer.js: the receiving side\<close>

definition handleTransferRequest ::
  "string \<Rightarrow> string \<Rightarrow> FileInfo list \<Rightarrow> nat \<Rightarrow> FileTransferManager \<Rightarrow> FileTransferManager" where
  "handleTransferRequest peerId transferId files totalSize s =
     (let transfer = \<lparr>it_id = transferId, it_peerId = peerId, it_files = files,
                      it_totalSize = totalSize, it_receivedFiles = [], it_currentFileData = [],
                      it_currentFileIndex = 0, it_bytesReceived = 0, it_status = ''pending'',
                      it_currentFileMetadata = None, it_fileChunks = None\<rparr>
      in dispatchEvent (Ev ''receive-request'' transferId)
           (s\<lparr>incomingTransfers := AList.update transferId transfer (incomingTransfers s)\<rparr>))"

definition acceptTransfer :: "string \<Rightarrow> FileTransferManager \<Rightarrow> FileTransferManager" where
  "acceptTransfer transferId s =
     (case map_of (incomingTransfers s) transferId of
        None \<Rightarrow> s
      | Some transfer \<Rightarrow>
          (let s1 = s\<lparr>incomingTransfers :=
                       AList.update transferId (transfer\<lparr>it_status := ''accepted''\<rparr>) (incomingTransfers s)\<rparr>;
               s2 = s1\<lparr>wsManager := sendTransferResponse (it_peerId transfer) transferId True (wsManager s1)\<rparr>
           in dispatchEvent (Ev ''receive-accepted'' transferId) s2))"

definition rejectTransfer :: "string \<Rightarrow> FileTransferManager \<Rightarrow> FileTransferManager" where
  "rejectTransfer transferId s =
     (case map_of (incomingTransfers s) transferId of
        None \<Rightarrow> s
      | Some transfer \<Rightarrow>
          (let t1 = transfer\<lparr>it_status := ''rejected''\<rparr>;
               s0 = s\<lparr>incomingTransfers := AList.update transferId t1 (incomingTransfers s)\<rparr>;
               s1 = s0\<lparr>wsManager := sendTransferResponse (it_peerId t1) transferId False (wsManager s0)\<rparr>;
               s2 = s1\<lparr>incomingTransfers := AList.delete transferId (incomingTransfers s1)\<rparr>
           in dispatchEvent (Ev ''receive-rejected'' transferId) s2))"

definition findTransferByPeer :: "string \<Rightarrow> FileTransferManager \<Rightarrow> (string \<times> in_transfer) option" where
  "findTransferByPeer peerId s =
     find (\<lambda>(k, t). it_peerId t = peerId \<and> it_status t \<noteq> ''completed'') (incomingTransfers s)"

definition handleMetadata :: "string \<Rightarrow> metadata \<Rightarrow> FileTransferManager \<Rightarrow> FileTransferManager" where
  "handleMetadata peerId md s =
     (case findTransferByPeer peerId s of
        None \<Rightarrow> s
      | Some (k, transfer) \<Rightarrow>
          s\<lparr>incomingTransfers := AList.update k
               (transfer\<lparr>it_currentFileIndex := md_fileIndex md, it_currentFileData := [],
                         it_currentFileMetadata := Some md, it_status := ''transferring''\<rparr>)
               (incomingTransfers s)\<rparr>)"

text \<open>
  \<open>saveReceivedFile\<close> reads \<open>metadata.type\<close> first: with no current metadata
  that is a \<open>TypeError\<close>.
\<close>

definition saveReceivedFile :: "string \<Rightarrow> in_transfer \<Rightarrow> FileTransferManager \<Rightarrow> FileTransferManager" where
  "saveReceivedFile k transfer s =
     (case it_currentFileMetadata transfer of
        None \<Rightarrow> s\<lparr>uncaught := uncaught s @ [''TypeError'']\<rparr>
      | Some md \<Rightarrow>
          (let blob = Blob (map Some (it_currentFileData transfer));
               t1 = transfer\<lparr>it_receivedFiles := it_receivedFiles transfer @ [(md_name md, blob)]\<rparr>;
               s1 = s\<lparr>downloads := downloads s @ [(blob, md_name md)]\<rparr>
           in s1\<lparr>incomingTransfers := AList.update k
                  (t1\<lparr>it_currentFileData := [], it_currentFileMetadata := None\<rparr>)
                  (incomingTransfers s1)\<rparr>))"

definition handleChunk :: "string \<Rightarrow> nat \<Rightarrow> nat \<Rightarrow> bytes \<Rightarrow> FileTransferManager \<Rightarrow> FileTransferManager" where
  "handleChunk peerId fileIndex chunkIndex chunkData s =
     (case findTransferByPeer peerId s of
        None \<Rightarrow> s
      | Some (k, transfer) \<Rightarrow>
          (let t1 = transfer\<lparr>it_currentFileData := it_currentFileData transfer @ [chunkData],
                            it_bytesReceived := it_bytesReceived transfer + length chunkData\<rparr>;
               s1 = dispatchEvent (Progress ''receive-progress'' (it_id t1) (it_bytesReceived t1) (it_totalSize t1))
                      (s\<lparr>incomingTransfers := AList.update k t1 (incomingTransfers s)\<rparr>);
               expectedChunks = (case it_currentFileMetadata t1 of None \<Rightarrow> 0 | Some md \<Rightarrow> md_totalChunks md)
           in if length (it_currentFileData t1) \<ge> expectedChunks
              then saveReceivedFile k t1 s1 else s1))"

definition handleComplete :: "string \<Rightarrow> FileTransferManager \<Rightarrow> FileTransferManager" where
  "handleComplete transferId s =
     (case map_of (incomingTransfers s) transferId of
        None \<Rightarrow> s
      | Some transfer \<Rightarrow>
          (let t1 = transfer\<lparr>it_status := ''completed''\<rparr>;
               s1 = dispatchEvent (Ev ''receive-complete'' transferId)
                      (s\<lparr>incomingTransfers := AList.update transferId t1 (incomingTransfers s)\<rparr>)
           in s1\<lparr>incomingTransfers := AList.delete transferId (incomingTransfers s1)\<rparr>))"

definition handleBinaryMessage :: "string \<Rightarrow> frame \<Rightarrow> FileTransferManager \<Rightarrow> FileTransferManager" where
  "handleBinaryMessage peerId f s =
     (case f of
        MetadataFrame md \<Rightarrow> handleMetadata peerId md s
      | ChunkFrame fileIndex chunkIndex chunkData \<Rightarrow> handleChunk peerId fileIndex chunkIndex chunkData s
      | CompleteFrame transferId \<Rightarrow> handleComplete transferId s)"

text \<open>
  \<open>saveAllRelayedFiles\<close>: one blob per announced file, from
  \<open>fileChunks[i] || []\<close>; \<open>k\<close> is the key under which the transfer object is
  stored. With \<open>fileChunks\<close> absent the first \<open>fileChunks[i]\<close> is a
  \<open>TypeError\<close>.
\<close>

definition saveAllRelayedFiles :: "string \<Rightarrow> in_transfer \<Rightarrow> FileTransferManager \<Rightarrow> FileTransferManager" where
  "saveAllRelayedFiles k transfer s =
     (let fileChunks = it_fileChunks transfer;
          t1 = transfer\<lparr>it_status := ''completed''\<rparr>
      in if fileChunks = None \<and> it_files transfer \<noteq> []
         then s\<lparr>uncaught := uncaught s @ [''TypeError'']\<rparr>
         else
           (let blobs = map (\<lambda>i. (Blob (case js_get (case fileChunks of None \<Rightarrow> [] | Some fc \<Rightarrow> fc) i of
                                           None \<Rightarrow> [] | Some chunks \<Rightarrow> chunks),
                                  fi_name (it_files transfer ! i)))
                          [0..<length (it_files transfer)];
                s1 = s\<lparr>downloads := downloads s @ blobs\<rparr>;
                s2 = dispatchEvent (Ev ''receive-complete'' (it_id t1))
                       (s1\<lparr>incomingTransfers := AList.update k t1 (incomingTransfers s1)\<rparr>)
            in s2\<lparr>incomingTransfers := AList.delete (it_id t1) (incomingTransfers s2)\<rparr>))"

definition handleRelayChunk ::
  "string \<Rightarrow> string \<Rightarrow> nat \<Rightarrow> nat \<Rightarrow> bytes \<Rightarrow> bool \<Rightarrow> FileTransferManager \<Rightarrow> FileTransferManager" where
  "handleRelayChunk peerId transferId fileIndex chunkIndex chunkData isLast s =
     (case map_of (incomingTransfers s) transferId of
        None \<Rightarrow> s
      | Some transfer \<Rightarrow>
          (let fc0 = (case it_fileChunks transfer of None \<Rightarrow> [] | Some fc \<Rightarrow> fc);
               inner = (case js_get fc0 fileIndex of None \<Rightarrow> [] | Some chunks \<Rightarrow> chunks);
               fc1 = js_set fc0 fileIndex (js_set inner chunkIndex chunkData);
               t1 = transfer\<lparr>it_fileChunks := Some fc1,
                            it_bytesReceived := it_bytesReceived transfer + length chunkData,
                            it_status := ''transferring''\<rparr>;
               s1 = dispatchEvent (Progress ''receive-progress'' (it_id t1) (it_bytesReceived t1) (it_totalSize t1))
                      (s\<lparr>incomingTransfers := AList.update transferId t1 (incomingTransfers s)\<rparr>)
           in if isLast then saveAllRelayedFiles transferId t1 s1 else s1))"

text \<open>
  The \<open>relay-chunk\<close> listener: the event's payload goes to \<open>handleRelayChunk\<close>;
  a message that is no relay chunk does not reach it.
\<close>

definition on_relay_chunk :: "string \<Rightarrow> ws_message \<Rightarrow> FileTransferManager \<Rightarrow> FileTransferManager" where
  "on_relay_chunk peerId m s =
     (case msg_payload m of
        Some (RelayChunkP transferId fileIndex chunkIndex dat isLast) \<Rightarrow>
          (if msg_type m = ''relay-chunk''
           then handleRelayChunk peerId transferId fileIndex chunkIndex dat isLast s else s)
      | _ \<Rightarrow> s)"

definition receive_relay :: "string \<Rightarrow> ws_message list \<Rightarrow> FileTransferManager \<Rightarrow> FileTransferManager" where
  "receive_relay peerId ms s = foldl (\<lambda>s m. on_relay_chunk peerId m s) s ms"

definition receive_frames :: "string \<Rightarrow> frame list \<Rightarrow> FileTransferManager \<Rightarrow> FileTransferManager" where
  "receive_frames peerId fs s = foldl (\<lambda>s f. handleBinaryMessage peerId f s) s fs"

section \<open>Specification predicates\<close>

text \<open>
  The table of coded rooms is well formed when no key occurs twice, every entry
  points to an allocated room, and that room's id is the code it is stored under.
  A coded room that has members need not be an entry of the table.
\<close>

definition coded_rooms_wf :: "Hub \<Rightarrow> bool" where
  "coded_rooms_wf h \<longleftrightarrow>
     distinct (map fst (publicRooms h)) \<and>
     (\<forall>k r. map_of (publicRooms h) k = Some r \<longrightarrow>
        r < next_room h \<and> room_id (room_heap h r) = k)"

text \<open>
  The member a directed relay from session \<open>a\<close> to the id \<open>T\<close> goes to, in the
  words of the specification: the member with that id of \<open>a\<close>'s auto-scope room
  if there is one, else the member with that id of \<open>a\<close>'s coded room.
\<close>

definition member_of :: "raddr option \<Rightarrow> string \<Rightarrow> Hub \<Rightarrow> caddr option" where
  "member_of room T h =
     (case room of None \<Rightarrow> None | Some r \<Rightarrow> map_of (room_clients (room_heap h r)) T)"

definition relay_target :: "caddr \<Rightarrow> string \<Rightarrow> Hub \<Rightarrow> caddr option" where
  "relay_target a T h =
     (case member_of (ipRoom (client_heap h a)) T h of
        Some t \<Rightarrow> Some t
      | None \<Rightarrow> member_of (publicRoom (client_heap h a)) T h)"

definition relayable :: "string \<Rightarrow> bool" where
  "relayable t \<longleftrightarrow>
     t = ''offer'' \<or> t = ''answer'' \<or> t = ''ice-candidate'' \<or>
     t = ''transfer-request'' \<or> t = ''transfer-response'' \<or> t = ''relay-chunk''"

text \<open>Every member of a room is stored under its own id.\<close>

definition room_keys_wf :: "Hub \<Rightarrow> bool" where
  "room_keys_wf h \<longleftrightarrow>
     (\<forall>r k t. map_of (room_clients (room_heap h r)) k = Some t \<longrightarrow> client_id (client_heap h t) = k)"

text \<open>
  The same hub state with other network addresses: every client's \<open>ip\<close> field is
  replaced, by \<open>f\<close> of its address in the store, and nothing else differs.
\<close>

definition set_ips :: "(caddr \<Rightarrow> string) \<Rightarrow> Hub \<Rightarrow> Hub" where
  "set_ips f h = h\<lparr>client_heap := (\<lambda>b. (client_heap h b)\<lparr>client_ip := f b\<rparr>)\<rparr>"

text \<open>
  What a page has handed to its signaling channel, in order, as long as the
  channel does not change between connected and disconnected: the messages
  transmitted when it is connected, the queue when it is not.
\<close>

definition ws_handed :: "WebSocketManager \<Rightarrow> ws_message list" where
  "ws_handed w = (if isConnected w \<and> ws w = Some OPEN then ws_sent w else messageQueue w)"

text \<open>
  The chunks of a file in the words of the specification: \<open>ceil (size / chunkSize)\<close>
  chunks, the \<open>i\<close>-th being the bytes from \<open>i * chunkSize\<close> up to the next
  multiple of the chunk size or the end of the file.
\<close>

definition chunk_count :: "File \<Rightarrow> nat" where
  "chunk_count f = ceil_div (file_size f) CHUNK_SIZE"

definition chunk_at :: "File \<Rightarrow> nat \<Rightarrow> bytes" where
  "chunk_at f i = blob_slice (file_data f) (i * CHUNK_SIZE) (i * CHUNK_SIZE + CHUNK_SIZE)"

text \<open>
  The \<open>relay-chunk\<close> envelopes of a transfer: file by file, chunk by chunk, the
  flag \<open>isLast\<close> on the last chunk of the last file.
\<close>

definition relay_envelope :: "string \<Rightarrow> string \<Rightarrow> File list \<Rightarrow> nat \<Rightarrow> nat \<Rightarrow> ws_message" where
  "relay_envelope peer tid files fi ci =
     \<lparr>msg_type = ''relay-chunk'',
      msg_payload = Some (RelayChunkP tid fi ci (chunk_at (files ! fi) ci)
                            (fi = length files - 1 \<and> Suc ci = chunk_count (files ! fi))),
      msg_targetId = (if peer = [] then None else Some peer)\<rparr>"

definition relay_envelopes :: "string \<Rightarrow> string \<Rightarrow> File list \<Rightarrow> ws_message list" where
  "relay_envelopes peer tid files =
     concat (map (\<lambda>fi. map (relay_envelope peer tid files fi) [0..<chunk_count (files ! fi)])
               [0..<length files])"

definition is_last_envelope :: "ws_message \<Rightarrow> bool" where
  "is_last_envelope m =
     (case msg_payload m of Some (RelayChunkP tid fi ci d isLast) \<Rightarrow> isLast | _ \<Rightarrow> False)"

text \<open>
  The chunk a receiving transfer holds for a file index and a chunk index, if
  any; and the arrays that assignments by index build: they never end in a hole.
\<close>

definition fc_get :: "in_transfer \<Rightarrow> nat \<Rightarrow> nat \<Rightarrow> bytes option" where
  "fc_get t fi ci =
     (case it_fileChunks t of
        None \<Rightarrow> None
      | Some fc \<Rightarrow> (case js_get fc fi of None \<Rightarrow> None | Some inner \<Rightarrow> js_get inner ci))"

definition tight :: "'a option list \<Rightarrow> bool" where
  "tight xs \<longleftrightarrow> xs = [] \<or> last xs \<noteq> None"

definition tight_chunks :: "in_transfer \<Rightarrow> bool" where
  "tight_chunks t \<longleftrightarrow>
     (case it_fileChunks t of
        None \<Rightarrow> True
      | Some fc \<Rightarrow> list_all (\<lambda>e. case e of None \<Rightarrow> True | Some inner \<Rightarrow> tight inner) fc)"

text \<open>The file index and chunk index a relay envelope carries.\<close>

definition envelope_key :: "ws_message \<Rightarrow> (nat \<times> nat) option" where
  "envelope_key m =
     (case msg_payload m of Some (RelayChunkP tid fi ci d isLast) \<Rightarrow> Some (fi, ci) | _ \<Rightarrow> None)"

text \<open>
  The frames of a direct-path transfer in the words of the specification: for
  each file one metadata frame that declares the number of chunks and then that
  many chunk frames, each with the next 65536 bytes of the file or what is left
  of it, and after the last file the complete frame. The indices and the id are
  what the binary encoding keeps of them.
\<close>

definition file_frames :: "string \<Rightarrow> File list \<Rightarrow> nat \<Rightarrow> frame list" where
  "file_frames tid files fi =
     MetadataFrame \<lparr>md_transferId = tid, md_fileIndex = fi, md_name = file_name (files ! fi),
                    md_size = file_size (files ! fi), md_type = file_type (files ! fi),
                    md_totalChunks = chunk_count (files ! fi)\<rparr> #
     map (\<lambda>ci. ChunkFrame (fi mod 2 ^ 16) (ci mod 2 ^ 32) (chunk_at (files ! fi) ci))
       [0..<chunk_count (files ! fi)]"

definition direct_frames :: "string \<Rightarrow> File list \<Rightarrow> frame list" where
  "direct_frames tid files =
     concat (map (file_frames tid files) [0..<length files]) @
     [CompleteFrame (take (length tid mod 2 ^ 8) tid)]"

section \<open>Example states\<close>

text \<open>
  A hub with no room and registered clients that have joined nothing yet: the
  client at address \<open>0\<close> has id \<open>c0\<close> and the one at address \<open>1\<close> has id
  \<open>c1\<close>. \<open>zero_draw\<close> is the result of \<open>rand.Read\<close> that is all zero bytes,
  \<open>ones_draw\<close> the one that is all bytes 1. In \<open>example_env\<close> the payload of a
  \<open>join\<close> is the name and that of a \<open>join-room\<close> is the code, the room id of an
  address is its first nine characters, and marshalling a raw payload removes
  its blanks, which is what compaction does to the payloads of the examples.
\<close>

definition example_client :: "string \<Rightarrow> string \<Rightarrow> Client" where
  "example_client i addr =
     \<lparr>client_id = i, client_send = [], send_closed = False, ipRoom = None, publicRoom = None,
      client_name = ''laptop'', client_platform = ''linux'', client_ip = addr\<rparr>"

definition hub0 :: Hub where
  "hub0 =
     \<lparr>ipRooms = [], publicRooms = [],
      client_heap = (\<lambda>_. example_client ''c0'' ''192.168.1.10:5000'')
                      (Suc 0 := example_client ''c1'' ''192.168.1.11:5000''),
      room_heap = (\<lambda>_. NewRoom [] False), next_room = 0, hub_log = [], panicked = False\<rparr>"

definition zero_draw :: "nat \<Rightarrow> 8 word" where
  "zero_draw = (\<lambda>_. 0)"

definition ones_draw :: "nat \<Rightarrow> 8 word" where
  "ones_draw = (\<lambda>_. 1)"

definition example_env :: Env where
  "example_env =
     \<lparr>unmarshalJoin = (\<lambda>p. case p of Raw s \<Rightarrow> Some (s, ''linux'') | _ \<Rightarrow> None),
      unmarshalRoomCode = (\<lambda>p. case p of Raw s \<Rightarrow> Some s | _ \<Rightarrow> None),
      ExtractIPRoomID = (\<lambda>remoteAddr xff. take 9 remoteAddr),
      marshalRaw = filter (\<lambda>c. c \<noteq> CHR '' '')\<rparr>"

text \<open>
  The two example clients after each has sent \<open>join\<close>: both addresses give the
  room id \<open>192.168.1\<close>, so they share one auto-scope room.
\<close>

definition join_msg :: Message where
  "join_msg = \<lparr>Type = ''join'', PeerID = [], TargetID = [], Payload = Raw ''laptop''\<rparr>"

definition hub_joined :: Hub where
  "hub_joined =
     the (handleMessage example_env [] 1 (Some join_msg)
            (the (handleMessage example_env [] 0 (Some join_msg) hub0)))"

definition offer_msg :: Message where
  "offer_msg = \<lparr>Type = ''offer'', PeerID = ''forged'', TargetID = ''c1'', Payload = Raw ''sdp''\<rparr>"

definition create_room_msg :: Message where
  "create_room_msg = \<lparr>Type = ''create-room'', PeerID = [], TargetID = [], Payload = NoPayload\<rparr>"

definition join_room_msg :: "string \<Rightarrow> Message" where
  "join_room_msg code = \<lparr>Type = ''join-room'', PeerID = [], TargetID = [], Payload = Raw code\<rparr>"

definition answer_msg :: Message where
  "answer_msg = \<lparr>Type = ''answer'', PeerID = [], TargetID = ''c0'', Payload = Raw ''[1, 2]''\<rparr>"

text \<open>
  States of two runs that start in \<open>hub0\<close>; the lemmas \<open>create_second\<close>,
  \<open>join_stale\<close>, \<open>unregister_c0\<close> and \<open>join_own_room\<close> show that the hub reaches
  them. In the first run \<open>c0\<close> creates the room \<open>AAAAA\<close> and then the room
  \<open>BBBBB\<close> (\<open>hub_two_rooms\<close>), \<open>c1\<close> joins \<open>AAAAA\<close> (\<open>hub_stale\<close>), and the
  connection of \<open>c0\<close> ends (\<open>hub_gone\<close>). In the second run \<open>c0\<close> creates the
  room \<open>AAAAA\<close> and then joins it (\<open>hub_orphan\<close>).
\<close>

definition hub_two_rooms :: Hub where
  "hub_two_rooms =
     \<lparr>ipRooms = [], publicRooms = [(''AAAAA'', 0), (''BBBBB'', Suc 0)],
       client_heap = (\<lambda>_. example_client ''c0'' ''192.168.1.10:5000'')
         (Suc 0 := example_client ''c1'' ''192.168.1.11:5000'',
          0 := (example_client ''c0'' ''192.168.1.10:5000'')
                 \<lparr>client_send := [NewRoomCreatedMessage ''AAAAA'', NewRoomCreatedMessage ''BBBBB''],
                  publicRoom := Some (Suc 0)\<rparr>),
       room_heap = (\<lambda>_. NewRoom [] False)
         (0 := \<lparr>room_id = ''AAAAA'', isPublic = True, room_clients = [(''c0'', 0)]\<rparr>,
          Suc 0 := \<lparr>room_id = ''BBBBB'', isPublic = True, room_clients = [(''c0'', 0)]\<rparr>),
       next_room = Suc (Suc 0),
       hub_log = [Log Info ''public room created'' [(''code'', ''AAAAA''), (''creator'', ''c0'')],
                  Log Info ''public room created'' [(''code'', ''BBBBB''), (''creator'', ''c0'')]],
       panicked = False\<rparr>"

definition hub_stale :: Hub where
  "hub_stale =
     \<lparr>ipRooms = [], publicRooms = [(''AAAAA'', 0), (''BBBBB'', Suc 0)],
       client_heap = (\<lambda>_. example_client ''c0'' ''192.168.1.10:5000'')
         (Suc 0 := (example_client ''c1'' ''192.168.1.11:5000'')
                 \<lparr>client_send := [NewRoomJoinedMessage ''AAAAA''
                                    [\<lparr>ID = ''c0'', Name = ''laptop'', Platform = ''linux''\<rparr>]],
                  publicRoom := Some 0\<rparr>,
          0 := (example_client ''c0'' ''192.168.1.10:5000'')
                 \<lparr>client_send := [NewRoomCreatedMessage ''AAAAA'', NewRoomCreatedMessage ''BBBBB'',
                     NewPeerJoinedMessage \<lparr>ID = ''c1'', Name = ''laptop'', Platform = ''linux''\<rparr>],
                  publicRoom := Some (Suc 0)\<rparr>),
       room_heap = (\<lambda>_. NewRoom [] False)
         (Suc 0 := \<lparr>room_id = ''BBBBB'', isPublic = True, room_clients = [(''c0'', 0)]\<rparr>,
          0 := \<lparr>room_id = ''AAAAA'', isPublic = True, room_clients = [(''c0'', 0), (''c1'', Suc 0)]\<rparr>),
       next_room = Suc (Suc 0),
       hub_log = [Log Info ''public room created'' [(''code'', ''AAAAA''), (''creator'', ''c0'')],
                  Log Info ''public room created'' [(''code'', ''BBBBB''), (''creator'', ''c0'')],
                  Log Info ''client joined public room'' [(''code'', ''AAAAA''), (''clientID'', ''c1'')]],
       panicked = False\<rparr>"

definition hub_gone :: Hub where
  "hub_gone =
     \<lparr>ipRooms = [], publicRooms = [(''AAAAA'', 0)],
       client_heap = (\<lambda>_. example_client ''c0'' ''192.168.1.10:5000'')
         (Suc 0 := (example_client ''c1'' ''192.168.1.11:5000'')
                 \<lparr>client_send := [NewRoomJoinedMessage ''AAAAA''
                                    [\<lparr>ID = ''c0'', Name = ''laptop'', Platform = ''linux''\<rparr>]],
                  publicRoom := Some 0\<rparr>,
          0 := (example_client ''c0'' ''192.168.1.10:5000'')
                 \<lparr>client_send := [NewRoomCreatedMessage ''AAAAA'', NewRoomCreatedMessage ''BBBBB'',
                     NewPeerJoinedMessage \<lparr>ID = ''c1'', Name = ''laptop'', Platform = ''linux''\<rparr>],
                  send_closed := True,
                  publicRoom := Some (Suc 0)\<rparr>),
       room_heap = (\<lambda>_. NewRoom [] False)
         (0 := \<lparr>room_id = ''AAAAA'', isPublic = True, room_clients = [(''c0'', 0), (''c1'', Suc 0)]\<rparr>,
          Suc 0 := \<lparr>room_id = ''BBBBB'', isPublic = True, room_clients = []\<rparr>),
       next_room = Suc (Suc 0),
       hub_log = [Log Info ''public room created'' [(''code'', ''AAAAA''), (''creator'', ''c0'')],
                  Log Info ''public room created'' [(''code'', ''BBBBB''), (''creator'', ''c0'')],
                  Log Info ''client joined public room'' [(''code'', ''AAAAA''), (''clientID'', ''c1'')],
                  Log Info ''client disconnected'' [(''id'', ''c0'')]],
       panicked = False\<rparr>"

definition hub_orphan :: Hub where
  "hub_orphan =
     \<lparr>ipRooms = [], publicRooms = [],
       client_heap = (\<lambda>_. example_client ''c0'' ''192.168.1.10:5000'')
         (Suc 0 := example_client ''c1'' ''192.168.1.11:5000'',
          0 := (example_client ''c0'' ''192.168.1.10:5000'')
                 \<lparr>client_send := [NewRoomCreatedMessage ''AAAAA'', NewRoomJoinedMessage ''AAAAA'' []],
                  publicRoom := Some 0\<rparr>),
       room_heap = (\<lambda>_. NewRoom [] False)
         (0 := \<lparr>room_id = ''AAAAA'', isPublic = True, room_clients = [(''c0'', 0)]\<rparr>),
       next_room = Suc 0,
       hub_log = [Log Info ''public room created'' [(''code'', ''AAAAA''), (''creator'', ''c0'')],
                  Log Info ''client joined public room'' [(''code'', ''AAAAA''), (''clientID'', ''c0'')]],
       panicked = False\<rparr>"

text \<open>
  A page whose signaling channel is connected and that has no transfer, a
  three-byte file, an empty file, and a WebRTC manager under which no direct
  channel can be had.
\<close>

definition ftm0 :: FileTransferManager where
  "ftm0 =
     \<lparr>wsManager = ws_onopen WebSocketManager_new, outgoingTransfers = [], incomingTransfers = [],
      channel_sent = [], events = [], downloads = [], uncaught = []\<rparr>"

definition small_file :: File where
  "small_file = \<lparr>file_name = ''a.txt'', file_type = ''text/plain'', file_data = [1, 2, 3]\<rparr>"

definition other_file :: File where
  "other_file = \<lparr>file_name = ''b.txt'', file_type = ''text/plain'', file_data = [4, 5]\<rparr>"

definition empty_file :: File where
  "empty_file = \<lparr>file_name = ''empty.txt'', file_type = ''text/plain'', file_data = []\<rparr>"

text \<open>A file of 200 KB, all bytes zero.\<close>

definition big_file :: File where
  "big_file = \<lparr>file_name = ''big.bin'', file_type = ''application/octet-stream'',
                file_data = replicate 204800 0\<rparr>"

definition no_rtc :: WebRTC where
  "no_rtc = \<lparr>hasOpenChannel = (\<lambda>_. False), connect_resolves = (\<lambda>_. False), channel_open = (\<lambda>_. False)\<rparr>"

definition open_rtc :: WebRTC where
  "open_rtc = \<lparr>hasOpenChannel = (\<lambda>_. True), connect_resolves = (\<lambda>_. True), channel_open = (\<lambda>_. True)\<rparr>"

text \<open>
  The transfer \<open>t1\<close> of some files, on the initiator once it has been accepted,
  and on the recipient once it has accepted the request.
\<close>

definition example_transfer :: "File list \<Rightarrow> out_transfer" where
  "example_transfer files =
     \<lparr>ot_id = ''t1'', ot_peerId = ''peerB'', ot_files = files, ot_currentFileIndex = 0,
      ot_currentChunkIndex = 0, ot_bytesSent = 0, ot_totalBytes = sum_list (map file_size files),
      ot_status = ''accepted'', ot_useRelay = False\<rparr>"

definition example_receiver :: "File list \<Rightarrow> FileTransferManager" where
  "example_receiver files =
     acceptTransfer ''t1''
       (handleTransferRequest ''peerA'' ''t1'' (map file_info files) (sum_list (map file_size files)) ftm0)"

section \<open>Properties of the hub\<close>

subsection \<open>What each primitive leaves unchanged\<close>

lemma Send_frame [simp]:
  "ipRooms (Send a m h) = ipRooms h"
  "publicRooms (Send a m h) = publicRooms h"
  "room_heap (Send a m h) = room_heap h"
  "next_room (Send a m h) = next_room h"
  by (simp_all add: Send_def Let_def)

lemma Send_client_fields [simp]:
  "client_id (client_heap (Send a m h) b) = client_id (client_heap h b)"
  "ipRoom (client_heap (Send a m h) b) = ipRoom (client_heap h b)"
  "publicRoom (client_heap (Send a m h) b) = publicRoom (client_heap h b)"
  "client_name (client_heap (Send a m h) b) = client_name (client_heap h b)"
  "client_platform (client_heap (Send a m h) b) = client_platform (client_heap h b)"
  "client_ip (client_heap (Send a m h) b) = client_ip (client_heap h b)"
  by (simp_all add: Send_def Let_def)

lemma Send_other: "b \<noteq> a \<Longrightarrow> client_heap (Send a m h) b = client_heap h b"
  by (simp add: Send_def Let_def)

lemma Send_queue:
  "client_send (client_heap (Send a m h) b) =
     (if b = a \<and> \<not> send_closed (client_heap h a) \<and>
         length (client_send (client_heap h a)) < send_capacity
      then client_send (client_heap h a) @ [m] else client_send (client_heap h b))"
  by (simp add: Send_def Let_def)

lemma Send_closed [simp]:
  "send_closed (client_heap (Send a m h) b) = send_closed (client_heap h b)"
  by (simp add: Send_def Let_def)

lemma Send_panicked: "panicked (Send a m h) = (panicked h \<or> send_closed (client_heap h a))"
  by (simp add: Send_def Let_def)

lemma PeerInfo_of_Send [simp]:
  "PeerInfo_of (client_heap (Send a m h) b) = PeerInfo_of (client_heap h b)"
  by (simp add: PeerInfo_of_def)

lemma Broadcast_loop_frame [simp]:
  "ipRooms (Broadcast_loop cs m ex h) = ipRooms h"
  "publicRooms (Broadcast_loop cs m ex h) = publicRooms h"
  "room_heap (Broadcast_loop cs m ex h) = room_heap h"
  "next_room (Broadcast_loop cs m ex h) = next_room h"
  by (induction cs m ex h rule: Broadcast_loop.induct; simp)+

lemma Broadcast_loop_client_fields [simp]:
  "client_id (client_heap (Broadcast_loop cs m ex h) b) = client_id (client_heap h b)"
  "ipRoom (client_heap (Broadcast_loop cs m ex h) b) = ipRoom (client_heap h b)"
  "publicRoom (client_heap (Broadcast_loop cs m ex h) b) = publicRoom (client_heap h b)"
  "client_name (client_heap (Broadcast_loop cs m ex h) b) = client_name (client_heap h b)"
  "client_platform (client_heap (Broadcast_loop cs m ex h) b) = client_platform (client_heap h b)"
  "client_ip (client_heap (Broadcast_loop cs m ex h) b) = client_ip (client_heap h b)"
  by (induction cs m ex h rule: Broadcast_loop.induct; simp)+

lemma Broadcast_frame [simp]:
  "ipRooms (Broadcast r m ex h) = ipRooms h"
  "publicRooms (Broadcast r m ex h) = publicRooms h"
  "room_heap (Broadcast r m ex h) = room_heap h"
  "next_room (Broadcast r m ex h) = next_room h"
  "client_id (client_heap (Broadcast r m ex h) b) = client_id (client_heap h b)"
  "ipRoom (client_heap (Broadcast r m ex h) b) = ipRoom (client_heap h b)"
  "publicRoom (client_heap (Broadcast r m ex h) b) = publicRoom (client_heap h b)"
  "client_name (client_heap (Broadcast r m ex h) b) = client_name (client_heap h b)"
  "client_platform (client_heap (Broadcast r m ex h) b) = client_platform (client_heap h b)"
  "client_ip (client_heap (Broadcast r m ex h) b) = client_ip (client_heap h b)"
  by (simp_all add: Broadcast_def)

lemma AddClient_frame [simp]:
  "ipRooms (AddClient r a h) = ipRooms h"
  "publicRooms (AddClient r a h) = publicRooms h"
  "client_heap (AddClient r a h) = client_heap h"
  "next_room (AddClient r a h) = next_room h"
  "room_id (room_heap (AddClient r a h) r') = room_id (room_heap h r')"
  "isPublic (room_heap (AddClient r a h) r') = isPublic (room_heap h r')"
  by (simp_all add: AddClient_def Let_def)

lemma AddClient_clients:
  "room_clients (room_heap (AddClient r a h) r') =
     (if r' = r then AList.update (client_id (client_heap h a)) a (room_clients (room_heap h r))
      else room_clients (room_heap h r'))"
  by (simp add: AddClient_def Let_def)

lemma RemoveClient_frame [simp]:
  "ipRooms (RemoveClient r k h) = ipRooms h"
  "publicRooms (RemoveClient r k h) = publicRooms h"
  "client_heap (RemoveClient r k h) = client_heap h"
  "next_room (RemoveClient r k h) = next_room h"
  "room_id (room_heap (RemoveClient r k h) r') = room_id (room_heap h r')"
  "isPublic (room_heap (RemoveClient r k h) r') = isPublic (room_heap h r')"
  by (simp_all add: RemoveClient_def Let_def)

lemma RemoveClient_clients:
  "room_clients (room_heap (RemoveClient r k h) r') =
     (if r' = r then AList.delete k (room_clients (room_heap h r))
      else room_clients (room_heap h r'))"
  by (simp add: RemoveClient_def Let_def)

lemma set_publicRoom_frame [simp]:
  "ipRooms (set_publicRoom a x h) = ipRooms h"
  "publicRooms (set_publicRoom a x h) = publicRooms h"
  "room_heap (set_publicRoom a x h) = room_heap h"
  "next_room (set_publicRoom a x h) = next_room h"
  "hub_log (set_publicRoom a x h) = hub_log h"
  "client_id (client_heap (set_publicRoom a x h) b) = client_id (client_heap h b)"
  "ipRoom (client_heap (set_publicRoom a x h) b) = ipRoom (client_heap h b)"
  "client_name (client_heap (set_publicRoom a x h) b) = client_name (client_heap h b)"
  "client_platform (client_heap (set_publicRoom a x h) b) = client_platform (client_heap h b)"
  "client_ip (client_heap (set_publicRoom a x h) b) = client_ip (client_heap h b)"
  "client_send (client_heap (set_publicRoom a x h) b) = client_send (client_heap h b)"
  "publicRoom (client_heap (set_publicRoom a x h) b) = (if b = a then x else publicRoom (client_heap h b))"
  by (simp_all add: set_publicRoom_def)

lemma set_ipRoom_frame [simp]:
  "ipRooms (set_ipRoom a x h) = ipRooms h"
  "publicRooms (set_ipRoom a x h) = publicRooms h"
  "room_heap (set_ipRoom a x h) = room_heap h"
  "next_room (set_ipRoom a x h) = next_room h"
  "hub_log (set_ipRoom a x h) = hub_log h"
  "client_id (client_heap (set_ipRoom a x h) b) = client_id (client_heap h b)"
  "publicRoom (client_heap (set_ipRoom a x h) b) = publicRoom (client_heap h b)"
  "client_name (client_heap (set_ipRoom a x h) b) = client_name (client_heap h b)"
  "client_platform (client_heap (set_ipRoom a x h) b) = client_platform (client_heap h b)"
  "client_ip (client_heap (set_ipRoom a x h) b) = client_ip (client_heap h b)"
  "client_send (client_heap (set_ipRoom a x h) b) = client_send (client_heap h b)"
  "ipRoom (client_heap (set_ipRoom a x h) b) = (if b = a then x else ipRoom (client_heap h b))"
  by (simp_all add: set_ipRoom_def)

lemma hub_logf_frame [simp]:
  "ipRooms (hub_logf e h) = ipRooms h"
  "publicRooms (hub_logf e h) = publicRooms h"
  "room_heap (hub_logf e h) = room_heap h"
  "client_heap (hub_logf e h) = client_heap h"
  "next_room (hub_logf e h) = next_room h"
  "hub_log (hub_logf e h) = hub_log h @ [e]"
  by (simp_all add: hub_logf_def)

subsection \<open>Room codes\<close>

lemma charset_length: "length charset = 32"
  by (simp add: charset_def)

lemma GenerateRoomCode_length: "length (GenerateRoomCode rnd) = 5"
  by (simp add: GenerateRoomCode_def)

lemma GenerateRoomCode_chars: "set (GenerateRoomCode rnd) \<subseteq> set charset"
proof -
  have "charset ! (unat (rnd i) mod length charset) \<in> set charset" for i
    by (rule nth_mem) (simp add: charset_length)
  then show ?thesis
    unfolding GenerateRoomCode_def by auto
qed

lemma charset_unambiguous:
  "distinct charset \<and> set charset \<inter> set ''0OI1'' = {}"
  by (simp add: charset_def)

lemma CreatePublicRoom_loop_fresh:
  "CreatePublicRoom_loop draws h = Some code \<Longrightarrow>
     map_of (publicRooms h) code = None \<and> (\<exists>rnd \<in> set draws. code = GenerateRoomCode rnd)"
  by (induction draws) (auto simp: Let_def split: if_splits)

lemma CreatePublicRoom_loop_returns:
  "\<exists>rnd \<in> set draws. map_of (publicRooms h) (GenerateRoomCode rnd) = None \<Longrightarrow>
     \<exists>code. CreatePublicRoom_loop draws h = Some code"
  by (induction draws) (auto simp: Let_def)

lemma CreatePublicRoom_effect:
  assumes "CreatePublicRoom draws a h = Some (code, h')"
  shows "publicRooms h' = AList.update code (next_room h) (publicRooms h)"
    and "room_heap h' = (room_heap h)(next_room h :=
            \<lparr>room_id = code, isPublic = True, room_clients = [(client_id (client_heap h a), a)]\<rparr>)"
    and "publicRoom (client_heap h' a) = Some (next_room h)"
    and "next_room h' = Suc (next_room h)"
    and "ipRooms h' = ipRooms h"
    and "CreatePublicRoom_loop draws h = Some code"
  using assms
  by (auto simp: CreatePublicRoom_def CreatePublicRoom_insert_def alloc_room_def AddClient_def set_publicRoom_def
      NewRoom_def Let_def split: option.splits)

lemma wf_CreatePublicRoom:
  assumes wf: "coded_rooms_wf h" and cr: "CreatePublicRoom draws a h = Some (code, h')"
  shows "coded_rooms_wf h'"
proof -
  note e = CreatePublicRoom_effect [OF cr]
  have fresh: "map_of (publicRooms h) code = None"
    using CreatePublicRoom_loop_fresh [OF e(6)] by simp
  show ?thesis
    unfolding coded_rooms_wf_def
  proof (rule conjI, goal_cases)
    case 1
    show "distinct (map fst (publicRooms h'))"
      using wf by (simp add: e(1) coded_rooms_wf_def distinct_update)
  next
    case 2
    show ?case
    proof (intro allI impI)
    fix k r assume "map_of (publicRooms h') k = Some r"
    then have "(k = code \<and> r = next_room h) \<or> (k \<noteq> code \<and> map_of (publicRooms h) k = Some r)"
      by (auto simp: e(1) update_conv' split: if_splits)
    moreover have "\<And>k r. map_of (publicRooms h) k = Some r \<Longrightarrow>
        r < next_room h \<and> room_id (room_heap h r) = k"
      using wf unfolding coded_rooms_wf_def by blast
    ultimately show "r < next_room h' \<and> room_id (room_heap h' r) = k"
      by (fastforce simp: e(2) e(4))
    qed
  qed
qed

lemma wf_frame:
  assumes "coded_rooms_wf h"
    and "publicRooms h' = publicRooms h"
    and "next_room h \<le> next_room h'"
    and "\<And>r. r < next_room h \<Longrightarrow> room_id (room_heap h' r) = room_id (room_heap h r)"
  shows "coded_rooms_wf h'"
  using assms unfolding coded_rooms_wf_def by (metis order_less_le_trans)

lemma wf_delete:
  assumes "coded_rooms_wf h"
    and "publicRooms h' = AList.delete k (publicRooms h)"
    and "next_room h \<le> next_room h'"
    and "\<And>r. r < next_room h \<Longrightarrow> room_id (room_heap h' r) = room_id (room_heap h r)"
  shows "coded_rooms_wf h'"
proof -
  have old: "\<And>k r. map_of (publicRooms h) k = Some r \<Longrightarrow>
        r < next_room h \<and> room_id (room_heap h r) = k"
    using assms(1) unfolding coded_rooms_wf_def by blast
  show ?thesis
    unfolding coded_rooms_wf_def
  proof (rule conjI, goal_cases)
    case 1
    show "distinct (map fst (publicRooms h'))"
      using assms(1) by (simp add: assms(2) coded_rooms_wf_def distinct_delete)
  next
    case 2
    show ?case
    proof (intro allI impI)
    fix k' r assume "map_of (publicRooms h') k' = Some r"
    then have "map_of (publicRooms h) k' = Some r"
      by (simp add: assms(2) delete_conv' split: if_splits)
    from old [OF this] show "r < next_room h' \<and> room_id (room_heap h' r) = k'"
      using assms(3,4) by force
    qed
  qed
qed

lemma wf_LeavePublicRoom: "coded_rooms_wf h \<Longrightarrow> coded_rooms_wf (LeavePublicRoom a h)"
  apply (simp add: LeavePublicRoom_def Let_def split: option.splits)
  apply (intro conjI impI allI)
   apply (erule wf_delete [where k = "room_id (room_heap h _)"]; simp)
  apply (erule wf_frame; simp)
  done


lemma wf_JoinPublicRoom:
  assumes wf: "coded_rooms_wf h" and j: "JoinPublicRoom a code h = Inr h'"
  shows "coded_rooms_wf h'"
proof -
  define h1 where "h1 = (if publicRoom (client_heap h a) \<noteq> None then LeavePublicRoom a h else h)"
  have wf1: "coded_rooms_wf h1"
    using wf by (simp add: h1_def wf_LeavePublicRoom)
  obtain room where "map_of (publicRooms h) code = Some room"
    using j by (auto simp: JoinPublicRoom_def split: option.splits)
  with j have h': "h' = Broadcast room (NewPeerJoinedMessage (PeerInfo_of (client_heap
         (Send a (NewRoomJoinedMessage code (GetPeerInfos room (client_id (client_heap
            (set_publicRoom a (Some room) (AddClient room a h1)) a))
            (set_publicRoom a (Some room) (AddClient room a h1))))
         (set_publicRoom a (Some room) (AddClient room a h1))) a)))
       (client_id (client_heap h1 a))
       (Send a (NewRoomJoinedMessage code (GetPeerInfos room (client_id (client_heap
            (set_publicRoom a (Some room) (AddClient room a h1)) a))
            (set_publicRoom a (Some room) (AddClient room a h1))))
         (set_publicRoom a (Some room) (AddClient room a h1)))"
    by (simp add: JoinPublicRoom_def Let_def h1_def)
  show ?thesis
    by (rule wf_frame [OF wf1]) (simp_all add: h')
qed

lemma wf_JoinIPRoom:
  assumes wf: "coded_rooms_wf h"
  shows "coded_rooms_wf (JoinIPRoom env a h)"
proof (cases "map_of (ipRooms h) (ExtractIPRoomID env (client_ip (client_heap h a)) [])")
  case None
  show ?thesis
    by (rule wf_frame [OF wf]) (simp_all add: JoinIPRoom_def Let_def alloc_room_def None)
next
  case (Some r)
  show ?thesis
    by (rule wf_frame [OF wf]) (simp_all add: JoinIPRoom_def Let_def Some)
qed

lemma RelayTo_frame [simp]:
  "publicRooms (snd (RelayTo r t m h)) = publicRooms h"
  "next_room (snd (RelayTo r t m h)) = next_room h"
  "room_heap (snd (RelayTo r t m h)) = room_heap h"
  "ipRooms (snd (RelayTo r t m h)) = ipRooms h"
  by (simp_all add: RelayTo_def split: option.splits)

lemma relayToTarget_frame [simp]:
  "publicRooms (relayToTarget env a msg h) = publicRooms h"
  "next_room (relayToTarget env a msg h) = next_room h"
  "room_heap (relayToTarget env a msg h) = room_heap h"
  "ipRooms (relayToTarget env a msg h) = ipRooms h"
  by (simp_all add: relayToTarget_def Let_def split_beta split: option.splits)

lemma wf_relayToTarget: "coded_rooms_wf h \<Longrightarrow> coded_rooms_wf (relayToTarget env a msg h)"
  by (erule wf_frame) simp_all

lemma wf_upd_clients: "coded_rooms_wf h \<Longrightarrow> coded_rooms_wf (h\<lparr>client_heap := f\<rparr>)"
  by (erule wf_frame) simp_all

lemma wf_hub_logf: "coded_rooms_wf h \<Longrightarrow> coded_rooms_wf (hub_logf e h)"
  by (erule wf_frame) simp_all

lemma wf_Send: "coded_rooms_wf h \<Longrightarrow> coded_rooms_wf (Send a m h)"
  by (erule wf_frame) simp_all

lemma wf_handleJoin: "coded_rooms_wf h \<Longrightarrow> coded_rooms_wf (handleJoin env a p h)"
  unfolding handleJoin_def Let_def
  by (simp split: option.splits prod.splits add: wf_hub_logf wf_JoinIPRoom wf_upd_clients)

lemma wf_handleCreateRoom:
  assumes wf: "coded_rooms_wf h" and c: "handleCreateRoom draws a h = Some h'"
  shows "coded_rooms_wf h'"
proof -
  obtain code h1 where cr: "CreatePublicRoom draws a h = Some (code, h1)"
    and h': "h' = hub_logf (Log Info ''public room created''
                  [(''code'', code), (''creator'', client_id (client_heap h1 a))])
                 (Send a (NewRoomCreatedMessage code) h1)"
    using c by (auto simp: handleCreateRoom_def split: option.splits)
  show ?thesis
    unfolding h' by (intro wf_hub_logf wf_Send wf_CreatePublicRoom [OF wf cr])
qed

lemma wf_handleJoinRoom:
  assumes wf: "coded_rooms_wf h"
  shows "coded_rooms_wf (handleJoinRoom env a p h)"
proof (cases "unmarshalRoomCode env p")
  case None
  then show ?thesis by (simp add: handleJoinRoom_def wf_hub_logf wf)
next
  case (Some code)
  show ?thesis
  proof (cases "JoinPublicRoom a code h")
    case (Inl err)
    then show ?thesis by (simp add: handleJoinRoom_def Some wf_Send wf)
  next
    case (Inr h1)
    then show ?thesis
      by (simp add: handleJoinRoom_def Some wf_hub_logf wf_JoinPublicRoom [OF wf Inr])
  qed
qed

lemma wf_handleLeaveRoom: "coded_rooms_wf h \<Longrightarrow> coded_rooms_wf (handleLeaveRoom a h)"
  unfolding handleLeaveRoom_def Let_def
  by (simp add: wf_hub_logf wf_LeavePublicRoom)

lemma wf_handleMessage:
  assumes wf: "coded_rooms_wf h" and hm: "handleMessage env draws a m h = Some h'"
  shows "coded_rooms_wf h'"
proof (cases m)
  case None
  with hm have "h' = hub_logf (Log Warn ''failed to unmarshal message'' []) h"
    by (simp add: handleMessage_def)
  then show ?thesis by (simp add: wf_hub_logf wf)
next
  case (Some msg)
  from hm wf show ?thesis
    unfolding handleMessage_def Some option.case
    by (auto split: if_splits simp: wf_relayToTarget wf_handleJoin wf_handleJoinRoom
          wf_handleLeaveRoom wf_Send intro: wf_handleCreateRoom)
qed

lemma map_of_filter_Some:
  "distinct (map fst al) \<Longrightarrow> map_of (filter P al) k = Some r \<Longrightarrow> map_of al k = Some r"
  by (induction al) (auto split: if_splits simp: rev_image_eqI dest!: map_of_SomeD)

lemma wf_cleanupEmptyRooms:
  assumes wf: "coded_rooms_wf h"
  shows "coded_rooms_wf (cleanupEmptyRooms h)"
proof -
  have old: "\<And>k r. map_of (publicRooms h) k = Some r \<Longrightarrow>
        r < next_room h \<and> room_id (room_heap h r) = k"
    and d: "distinct (map fst (publicRooms h))"
    using wf unfolding coded_rooms_wf_def by blast+
  show ?thesis
    unfolding coded_rooms_wf_def cleanupEmptyRooms_def Let_def
  proof (rule conjI, goal_cases)
    case 1
    show ?case using d by (simp add: distinct_map_filter)
  next
    case 2
    show ?case
    proof (intro allI impI)
      fix k r
      assume "map_of (publicRooms (h\<lparr>ipRooms := filter (\<lambda>(k, room). \<not> IsEmpty room h) (ipRooms h),
                publicRooms := filter (\<lambda>(k, room). \<not> IsEmpty room
                   (h\<lparr>ipRooms := filter (\<lambda>(k, room). \<not> IsEmpty room h) (ipRooms h)\<rparr>))
                 (publicRooms (h\<lparr>ipRooms := filter (\<lambda>(k, room). \<not> IsEmpty room h) (ipRooms h)\<rparr>))\<rparr>)) k = Some r"
      then have "map_of (publicRooms h) k = Some r"
        using map_of_filter_Some [OF d] by simp
      from old [OF this]
      show "r < next_room (h\<lparr>ipRooms := filter (\<lambda>(k, room). \<not> IsEmpty room h) (ipRooms h),
                publicRooms := filter (\<lambda>(k, room). \<not> IsEmpty room
                   (h\<lparr>ipRooms := filter (\<lambda>(k, room). \<not> IsEmpty room h) (ipRooms h)\<rparr>))
                 (publicRooms (h\<lparr>ipRooms := filter (\<lambda>(k, room). \<not> IsEmpty room h) (ipRooms h)\<rparr>))\<rparr>) \<and>
            room_id (room_heap (h\<lparr>ipRooms := filter (\<lambda>(k, room). \<not> IsEmpty room h) (ipRooms h),
                publicRooms := filter (\<lambda>(k, room). \<not> IsEmpty room
                   (h\<lparr>ipRooms := filter (\<lambda>(k, room). \<not> IsEmpty room h) (ipRooms h)\<rparr>))
                 (publicRooms (h\<lparr>ipRooms := filter (\<lambda>(k, room). \<not> IsEmpty room h) (ipRooms h)\<rparr>))\<rparr>) r) = k"
        by simp
    qed
  qed
qed


lemma GenerateRoomCode_zero: "GenerateRoomCode zero_draw = ''AAAAA''"
  by (simp add: GenerateRoomCode_def zero_draw_def charset_def upt_rec)

lemma wf_hub0: "coded_rooms_wf hub0"
  by (simp add: coded_rooms_wf_def hub0_def)

text \<open>
  What holds of room codes with respect to the table. \<open>GenerateRoomCode\<close> always
  returns 5 characters of the 32-character alphabet, which has no \<open>0\<close>, \<open>O\<close>,
  \<open>I\<close> or \<open>1\<close>. When \<open>CreatePublicRoom\<close> returns after a run with no other
  handler in between, its code is no key of the coded-room table at that moment,
  the new room is stored under it and every other entry is kept; it returns as
  soon as one of the draws is a free code. In a well-formed table two different
  entries have different codes, and every message handler and the periodic sweep
  keep the table well formed. None of this is about the coded rooms that are no
  entry of the table.
\<close>

lemma room_codes_in_table:
  assumes "coded_rooms_wf h"
  shows "length (GenerateRoomCode rnd) = 5 \<and> set (GenerateRoomCode rnd) \<subseteq> set charset \<and>
         length charset = 32 \<and> distinct charset \<and> set charset \<inter> set ''0OI1'' = {} \<and>
         (\<forall>code h'. CreatePublicRoom draws a h = Some (code, h') \<longrightarrow>
            length code = 5 \<and> set code \<subseteq> set charset \<and>
            map_of (publicRooms h) code = None \<and>
            map_of (publicRooms h') = (map_of (publicRooms h))(code \<mapsto> next_room h) \<and>
            room_id (room_heap h' (next_room h)) = code \<and>
            coded_rooms_wf h') \<and>
         ((\<exists>r \<in> set draws. map_of (publicRooms h) (GenerateRoomCode r) = None) \<longrightarrow>
            (\<exists>code h'. CreatePublicRoom draws a h = Some (code, h'))) \<and>
         (\<forall>k1 r1 k2 r2. map_of (publicRooms h) k1 = Some r1 \<and> map_of (publicRooms h) k2 = Some r2 \<and>
            r1 \<noteq> r2 \<longrightarrow> room_id (room_heap h r1) \<noteq> room_id (room_heap h r2)) \<and>
         (\<forall>env ds b m h'. handleMessage env ds b m h = Some h' \<longrightarrow> coded_rooms_wf h') \<and>
         coded_rooms_wf (cleanupEmptyRooms h)"
proof -
  have create: "length code = 5 \<and> set code \<subseteq> set charset \<and>
            map_of (publicRooms h) code = None \<and>
            map_of (publicRooms h') = (map_of (publicRooms h))(code \<mapsto> next_room h) \<and>
            room_id (room_heap h' (next_room h)) = code \<and>
            coded_rooms_wf h'"
    if cr: "CreatePublicRoom draws a h = Some (code, h')" for code h'
  proof -
    note e = CreatePublicRoom_effect [OF cr]
    from CreatePublicRoom_loop_fresh [OF e(6)] obtain r
      where "map_of (publicRooms h) code = None" and "code = GenerateRoomCode r"
      by blast
    then show ?thesis
      using wf_CreatePublicRoom [OF assms cr] GenerateRoomCode_chars [of r]
      by (simp add: e(1) e(2) update_conv' GenerateRoomCode_length)
  qed
  have returns: "\<exists>code h'. CreatePublicRoom draws a h = Some (code, h')"
    if "\<exists>r \<in> set draws. map_of (publicRooms h) (GenerateRoomCode r) = None"
    using CreatePublicRoom_loop_returns [OF that]
    by (auto simp: CreatePublicRoom_def CreatePublicRoom_insert_def Let_def split_beta)
  have unique: "room_id (room_heap h r1) \<noteq> room_id (room_heap h r2)"
    if "map_of (publicRooms h) k1 = Some r1" "map_of (publicRooms h) k2 = Some r2" "r1 \<noteq> r2"
    for k1 r1 k2 r2
    using assms that unfolding coded_rooms_wf_def by (metis option.inject)
  show ?thesis
    using create returns unique wf_handleMessage [OF assms] wf_cleanupEmptyRooms [OF assms]
      charset_unambiguous
    by (simp add: GenerateRoomCode_length GenerateRoomCode_chars charset_length) blast
qed

section \<open>Properties of the peer side\<close>

subsection \<open>Reconnecting with backoff\<close>

lemma backoff_step:
  "min (min (1000 * (3 / 2) ^ k) 30000 * (3 / 2)) 30000 = min (1000 * (3 / 2) ^ Suc k) (30000 :: rat)"
proof (cases "1000 * (3 / 2) ^ k \<le> (30000 :: rat)")
  case True
  then show ?thesis by (simp add: min_def)
next
  case False
  then have "(30000 :: rat) \<le> 1000 * (3 / 2) ^ k * (3 / 2)" by simp
  with False show ?thesis by (simp add: min_def)
qed

lemma failed_attempts_state:
  assumes "maxReconnectAttempts w = 10" and "timers w = []" and "k \<le> 10"
  shows "reconnectAttempts (failed_attempts k (ws_onopen w)) = k \<and>
         reconnectDelay (failed_attempts k (ws_onopen w)) = min (1000 * (3 / 2) ^ k) 30000 \<and>
         timers (failed_attempts k (ws_onopen w)) = [] \<and>
         maxReconnectAttempts (failed_attempts k (ws_onopen w)) = 10"
  using assms(3)
proof (induction k)
  case 0
  show ?case using assms(1,2) by (simp add: ws_onopen_def)
next
  case (Suc k)
  then have ih: "reconnectAttempts (failed_attempts k (ws_onopen w)) = k"
    "reconnectDelay (failed_attempts k (ws_onopen w)) = min (1000 * (3 / 2) ^ k) 30000"
    "timers (failed_attempts k (ws_onopen w)) = []"
    "maxReconnectAttempts (failed_attempts k (ws_onopen w)) = 10"
    and k: "k < 10"
    by simp_all
  show ?case
    using k by (simp add: ws_reconnect_timer_def ws_connect_def ws_onclose_def Let_def ih
        backoff_step [simplified])
qed

lemma backoff_mono: "j \<le> k \<Longrightarrow> min (1000 * (3 / 2) ^ j) 30000 \<le> min (1000 * (3 / 2) ^ k) (30000 :: rat)"
proof -
  assume "j \<le> k"
  then have "(3 / 2 :: rat) ^ j \<le> (3 / 2) ^ k"
    by (intro power_increasing) simp_all
  then have "1000 * (3 / 2 :: rat) ^ j \<le> 1000 * (3 / 2) ^ k"
    by simp
  then show ?thesis
    by (intro min.mono) simp_all
qed

text \<open>
  Claim C8. After a successful connect of a manager that was not told to
  disconnect (\<open>maxReconnectAttempts\<close> is 10) and has no reconnect timer pending,
  the close that follows \<open>k\<close> failed reconnect attempts in a row (\<open>k < 10\<close>)
  starts the timer of attempt \<open>k + 1\<close> with the delay
  \<open>min (1000 * 1.5 ^ k) 30000\<close> milliseconds; these delays never decrease and
  never exceed 30000. Once 10 attempts in a row have been made the next close
  starts no timer. Every \<open>onopen\<close> sets the delay back to 1000 and the attempt
  counter to 0.
\<close>

theorem C8_reconnect_backoff:
  assumes "maxReconnectAttempts w = 10" and "timers w = []"
  shows "(\<forall>k<10. timers (ws_onclose (failed_attempts k (ws_onopen w))) =
                    [min (1000 * (3 / 2) ^ k) 30000]) \<and>
         (\<forall>j k. j \<le> k \<and> k < 10 \<longrightarrow>
            hd (timers (ws_onclose (failed_attempts j (ws_onopen w)))) \<le>
            hd (timers (ws_onclose (failed_attempts k (ws_onopen w)))) \<and>
            hd (timers (ws_onclose (failed_attempts k (ws_onopen w)))) \<le> 30000) \<and>
         reconnectAttempts (failed_attempts 10 (ws_onopen w)) = 10 \<and>
         timers (ws_onclose (failed_attempts 10 (ws_onopen w))) = [] \<and>
         reconnectDelay (ws_onopen w') = 1000 \<and> reconnectAttempts (ws_onopen w') = 0"
proof -
  have sched: "timers (ws_onclose (failed_attempts k (ws_onopen w))) = [min (1000 * (3 / 2) ^ k) 30000]"
    if "k < 10" for k
    using failed_attempts_state [OF assms, of k] that
    by (simp add: ws_onclose_def Let_def)
  have stop: "timers (ws_onclose (failed_attempts 10 (ws_onopen w))) = []"
    using failed_attempts_state [OF assms, of 10]
    by (simp add: ws_onclose_def Let_def)
  have ten: "reconnectAttempts (failed_attempts 10 (ws_onopen w)) = 10"
    using failed_attempts_state [OF assms, of 10] by simp
  have mono: "hd (timers (ws_onclose (failed_attempts j (ws_onopen w)))) \<le>
            hd (timers (ws_onclose (failed_attempts k (ws_onopen w)))) \<and>
            hd (timers (ws_onclose (failed_attempts k (ws_onopen w)))) \<le> 30000"
    if "j \<le> k" "k < 10" for j k
    using that backoff_mono [OF that(1)] by (simp add: sched)
  show ?thesis
    using sched stop ten mono by (simp add: ws_onopen_def)
qed

theorem C8_reconnect_backoff_witness:
  "maxReconnectAttempts WebSocketManager_new = 10 \<and> timers WebSocketManager_new = [] \<and>
   timers (ws_onclose (failed_attempts 0 (ws_onopen WebSocketManager_new))) = [1000] \<and>
   timers (ws_onclose (failed_attempts 1 (ws_onopen WebSocketManager_new))) = [1500] \<and>
   timers (ws_onclose (failed_attempts 2 (ws_onopen WebSocketManager_new))) = [2250] \<and>
   timers (ws_onclose (failed_attempts 9 (ws_onopen WebSocketManager_new))) = [30000] \<and>
   timers (ws_onclose (failed_attempts 10 (ws_onopen WebSocketManager_new))) = []"
proof -
  have a: "maxReconnectAttempts WebSocketManager_new = 10" "timers WebSocketManager_new = []"
    by (simp_all add: WebSocketManager_new_def)
  note c = C8_reconnect_backoff [OF a, of WebSocketManager_new]
  from c have s: "timers (ws_onclose (failed_attempts k (ws_onopen WebSocketManager_new))) =
      [min (1000 * (3 / 2) ^ k) 30000]" if "k < 10" for k
    using that by blast
  have p9: "(3 / 2 :: rat) ^ 9 = 19683 / 512" by (simp add: power_divide)
  have "min (1000 * (3 / 2) ^ 0) (30000 :: rat) = 1000"
    "min (1000 * (3 / 2) ^ 1) (30000 :: rat) = 1500"
    "min (1000 * (3 / 2) ^ 2) (30000 :: rat) = 2250"
    "min (1000 * (3 / 2) ^ 9) (30000 :: rat) = 30000"
    by (simp_all add: min_def power2_eq_square p9)
  with s [of 0] s [of 1] s [of 2] s [of 9]
  have "timers (ws_onclose (failed_attempts 0 (ws_onopen WebSocketManager_new))) = [1000]"
    "timers (ws_onclose (failed_attempts 1 (ws_onopen WebSocketManager_new))) = [1500]"
    "timers (ws_onclose (failed_attempts 2 (ws_onopen WebSocketManager_new))) = [2250]"
    "timers (ws_onclose (failed_attempts 9 (ws_onopen WebSocketManager_new))) = [30000]"
    by (simp_all del: failed_attempts.simps)
  with c a show ?thesis by blast
qed

section \<open>Properties of the hub: joining, leaving, relaying\<close>

subsection \<open>Joining a coded room that does not exist\<close>

lemmas Type_defs =
  TypeJoin_def TypePeers_def TypePeerJoined_def TypePeerLeft_def TypeOffer_def
  TypeAnswer_def TypeIceCandidate_def TypeTransferRequest_def TypeTransferResponse_def
  TypePing_def TypePong_def TypeCreateRoom_def TypeRoomCreated_def TypeJoinRoom_def
  TypeLeaveRoom_def TypeRoomJoined_def TypeRoomLeft_def TypeRoomError_def
  TypeRelayChunk_def

lemmas New_defs =
  mkMessage_def NewPeersMessage_def NewPeerJoinedMessage_def NewPeerLeftMessage_def
  NewRoomCreatedMessage_def NewRoomJoinedMessage_def NewRoomErrorMessage_def
  NewPongMessage_def

lemma Send_only_queue:
  "client_heap (Send a m h) a = (client_heap h a)\<lparr>client_send := client_send (client_heap (Send a m h) a)\<rparr>"
  by (simp add: Send_def Let_def)

lemma Send_log:
  "hub_log (Send a m h) =
     (if send_closed (client_heap h a) \<or> length (client_send (client_heap h a)) < send_capacity
      then hub_log h
      else hub_log h @ [Log Warn ''client send buffer full'' [(''clientID'', client_id (client_heap h a))]])"
  by (simp add: Send_def Let_def)

lemma handleMessage_join_unknown:
  assumes "Type msg = TypeJoinRoom"
    and "unmarshalRoomCode env (Payload msg) = Some code"
    and "map_of (publicRooms h) code = None"
  shows "handleMessage env draws a (Some msg) h = Some (Send a (NewRoomErrorMessage ''room not found'') h)"
  using assms
  by (simp add: handleMessage_def handleJoinRoom_def JoinPublicRoom_def Type_defs)

text \<open>
  Claim C5. A \<open>join-room\<close> request of session \<open>a\<close> whose code is no key of the
  coded-room table makes \<open>JoinPublicRoom\<close> fail with \<open>room not found\<close>, and the
  hub does one thing only: it hands one \<open>room-error\<close> message to \<open>a\<close>'s \<open>Send\<close>.
  Both room tables, every room and the allocation counter are unchanged (no
  room is created), every other session is unchanged (none receives anything),
  and of \<open>a\<close> only the outbound queue can differ: it has the one message
  appended (\<open>Send\<close> drops a message, by design, only when 256 are already
  waiting). The channel of \<open>a\<close> is open while the hub handles a message of \<open>a\<close>,
  since \<open>Unregister\<close> closes it after the read loop of \<open>a\<close> has ended; the
  conclusion also says what \<open>Send\<close> does otherwise.
\<close>

theorem C5_join_unknown_code:
  assumes "Type msg = TypeJoinRoom"
    and "unmarshalRoomCode env (Payload msg) = Some code"
    and "map_of (publicRooms h) code = None"
  shows "\<exists>h'. handleMessage env draws a (Some msg) h = Some h' \<and>
           JoinPublicRoom a code h = Inl ''room not found'' \<and>
           h' = Send a (NewRoomErrorMessage ''room not found'') h \<and>
           Type (NewRoomErrorMessage ''room not found'') = ''room-error'' \<and>
           ipRooms h' = ipRooms h \<and> publicRooms h' = publicRooms h \<and>
           room_heap h' = room_heap h \<and> next_room h' = next_room h \<and>
           (\<forall>b. b \<noteq> a \<longrightarrow> client_heap h' b = client_heap h b) \<and>
           client_heap h' a = (client_heap h a)\<lparr>client_send := client_send (client_heap h' a)\<rparr> \<and>
           client_send (client_heap h' a) =
             (if send_closed (client_heap h a) then client_send (client_heap h a)
              else if length (client_send (client_heap h a)) < send_capacity
              then client_send (client_heap h a) @ [NewRoomErrorMessage ''room not found'']
              else client_send (client_heap h a)) \<and>
           panicked h' = (panicked h \<or> send_closed (client_heap h a))"
  unfolding handleMessage_join_unknown [OF assms]
  using assms(3)
  by (simp add: Send_other Send_queue Send_panicked Send_only_queue [symmetric] JoinPublicRoom_def
      New_defs Type_defs)

theorem C5_join_unknown_code_witness:
  "Type \<lparr>Type = ''join-room'', PeerID = [], TargetID = [], Payload = Raw ''ZZZZZ''\<rparr> = TypeJoinRoom \<and>
   unmarshalRoomCode example_env (Raw ''ZZZZZ'') = Some ''ZZZZZ'' \<and>
   map_of (publicRooms hub0) ''ZZZZZ'' = None \<and>
   (\<exists>h'. handleMessage example_env [] 0
            (Some \<lparr>Type = ''join-room'', PeerID = [], TargetID = [], Payload = Raw ''ZZZZZ''\<rparr>) hub0 = Some h' \<and>
          client_send (client_heap h' 0) = [NewRoomErrorMessage ''room not found''] \<and>
          client_send (client_heap h' 1) = [] \<and>
          publicRooms h' = [] \<and> ipRooms h' = [] \<and> next_room h' = 0)"
proof -
  let ?m = "\<lparr>Type = ''join-room'', PeerID = [], TargetID = [], Payload = Raw ''ZZZZZ''\<rparr>"
  have a: "Type ?m = TypeJoinRoom" "unmarshalRoomCode example_env (Payload ?m) = Some ''ZZZZZ''"
    "map_of (publicRooms hub0) ''ZZZZZ'' = None"
    by (simp_all add: TypeJoinRoom_def example_env_def hub0_def)
  from C5_join_unknown_code [OF a, of "[]" 0] a show ?thesis
    by (auto simp: hub0_def example_client_def send_capacity_def)
qed

subsection \<open>Directed relay\<close>

lemma relayToTarget_found:
  assumes "TargetID msg \<noteq> []" and "relay_target a (TargetID msg) h = Some t"
  shows "relayToTarget env a msg h =
           Send t (msg\<lparr>PeerID := client_id (client_heap h a),
                       Payload := marshalPayload env (Payload msg)\<rparr>) h"
  using assms
  by (auto simp: relayToTarget_def relay_target_def member_of_def RelayTo_def Let_def
      split: option.splits)

lemma relayToTarget_not_found:
  assumes "TargetID msg \<noteq> []" and "relay_target a (TargetID msg) h = None"
  shows "relayToTarget env a msg h =
           hub_logf (Log Debug ''relay target not found'' [(''targetID'', TargetID msg)]) h"
  using assms
  by (auto simp: relayToTarget_def relay_target_def member_of_def RelayTo_def Let_def
      split: option.splits)

lemma handleMessage_relayable:
  "relayable (Type msg) \<Longrightarrow> handleMessage env draws a (Some msg) h = Some (relayToTarget env a msg h)"
  by (auto simp: handleMessage_def relayable_def Type_defs)

lemma relay_target_id:
  "room_keys_wf h \<Longrightarrow> relay_target a T h = Some t \<Longrightarrow> client_id (client_heap h t) = T"
  unfolding room_keys_wf_def relay_target_def member_of_def
  by (auto split: option.splits)

lemma keys_wf_frame:
  assumes "room_keys_wf h"
    and "\<And>b. client_id (client_heap h' b) = client_id (client_heap h b)"
    and "\<And>r. room_clients (room_heap h' r) = room_clients (room_heap h r)"
  shows "room_keys_wf h'"
  using assms unfolding room_keys_wf_def by simp

lemma keys_wf_Send: "room_keys_wf h \<Longrightarrow> room_keys_wf (Send a m h)"
  by (erule keys_wf_frame) simp_all

lemma keys_wf_Broadcast: "room_keys_wf h \<Longrightarrow> room_keys_wf (Broadcast r m ex h)"
  by (erule keys_wf_frame) simp_all

lemma keys_wf_hub_logf: "room_keys_wf h \<Longrightarrow> room_keys_wf (hub_logf e h)"
  by (erule keys_wf_frame) simp_all

lemma keys_wf_set_publicRoom: "room_keys_wf h \<Longrightarrow> room_keys_wf (set_publicRoom a x h)"
  by (erule keys_wf_frame) simp_all

lemma keys_wf_set_ipRoom: "room_keys_wf h \<Longrightarrow> room_keys_wf (set_ipRoom a x h)"
  by (erule keys_wf_frame) simp_all

lemma keys_wf_tables:
  "room_keys_wf h \<Longrightarrow> room_keys_wf (h\<lparr>publicRooms := t\<rparr>)"
  "room_keys_wf h \<Longrightarrow> room_keys_wf (h\<lparr>ipRooms := t\<rparr>)"
  by (erule keys_wf_frame; simp)+

lemma keys_wf_AddClient: "room_keys_wf h \<Longrightarrow> room_keys_wf (AddClient r a h)"
  unfolding room_keys_wf_def
  by (auto simp: AddClient_clients update_conv' split: if_splits)

lemma keys_wf_RemoveClient: "room_keys_wf h \<Longrightarrow> room_keys_wf (RemoveClient r k h)"
  unfolding room_keys_wf_def
  by (auto simp: RemoveClient_clients delete_conv' split: if_splits)

lemma keys_wf_alloc: "room_keys_wf h \<Longrightarrow> room_keys_wf (snd (alloc_room (NewRoom i p) h))"
  unfolding room_keys_wf_def by (auto simp: alloc_room_def NewRoom_def)

lemma keys_wf_LeavePublicRoom: "room_keys_wf h \<Longrightarrow> room_keys_wf (LeavePublicRoom a h)"
  unfolding LeavePublicRoom_def Let_def
  by (auto split: option.splits
      intro!: keys_wf_set_publicRoom keys_wf_tables keys_wf_Broadcast keys_wf_RemoveClient)

lemma keys_wf_JoinPublicRoom:
  "room_keys_wf h \<Longrightarrow> JoinPublicRoom a code h = Inr h' \<Longrightarrow> room_keys_wf h'"
  unfolding JoinPublicRoom_def Let_def
  by (auto split: option.splits if_splits
      intro!: keys_wf_Broadcast keys_wf_Send keys_wf_set_publicRoom keys_wf_AddClient
        keys_wf_LeavePublicRoom)

lemma keys_wf_CreatePublicRoom:
  "room_keys_wf h \<Longrightarrow> CreatePublicRoom draws a h = Some (code, h') \<Longrightarrow> room_keys_wf h'"
  unfolding CreatePublicRoom_def CreatePublicRoom_insert_def Let_def
  using keys_wf_alloc [of h code True]
  by (auto split: option.splits prod.splits
      intro!: keys_wf_set_publicRoom keys_wf_tables keys_wf_AddClient)

lemma keys_wf_JoinIPRoom: "room_keys_wf h \<Longrightarrow> room_keys_wf (JoinIPRoom env a h)"
  unfolding JoinIPRoom_def Let_def
  using keys_wf_alloc [of h "ExtractIPRoomID env (client_ip (client_heap h a)) []" False]
  by (auto split: option.splits prod.splits
      intro!: keys_wf_Broadcast keys_wf_Send keys_wf_set_ipRoom keys_wf_AddClient keys_wf_tables)

lemma keys_wf_relayToTarget: "room_keys_wf h \<Longrightarrow> room_keys_wf (relayToTarget env a msg h)"
  unfolding relayToTarget_def RelayTo_def Let_def
  by (auto split: option.splits intro!: keys_wf_Send keys_wf_hub_logf)

lemma keys_wf_handleJoin: "room_keys_wf h \<Longrightarrow> room_keys_wf (handleJoin env a p h)"
proof -
  assume wf: "room_keys_wf h"
  have "room_keys_wf (h\<lparr>client_heap := (client_heap h)
           (a := (client_heap h a)\<lparr>client_name := n, client_platform := pl\<rparr>)\<rparr>)" for n pl
    by (rule keys_wf_frame [OF wf]) simp_all
  then show ?thesis
    unfolding handleJoin_def Let_def
    by (auto split: option.splits intro!: keys_wf_hub_logf keys_wf_JoinIPRoom wf)
qed

lemma keys_wf_handleMessage:
  assumes wf: "room_keys_wf h" and hm: "handleMessage env draws a m h = Some h'"
  shows "room_keys_wf h'"
  using hm wf
  unfolding handleMessage_def handleCreateRoom_def handleJoinRoom_def handleLeaveRoom_def Let_def
  by (auto split: option.splits if_splits sum.splits
      intro!: keys_wf_hub_logf keys_wf_Send keys_wf_relayToTarget keys_wf_handleJoin
        keys_wf_LeavePublicRoom
      intro: keys_wf_JoinPublicRoom keys_wf_CreatePublicRoom)

lemma keys_wf_hub0: "room_keys_wf hub0"
  by (simp add: room_keys_wf_def hub0_def NewRoom_def)

text \<open>
  What the directed relay does in every state. Session \<open>a\<close> sends a relayable
  message with a target id \<open>T\<close>. The envelope \<open>data\<close> is the message with \<open>a\<close>'s
  id as \<open>peerId\<close> (whatever the sender wrote there), the type and target it came
  with and the payload as \<open>json.Marshal\<close> writes it again. The hub looks \<open>T\<close> up
  in \<open>a\<close>'s auto-scope room first and in its coded room only if the first has no
  such member (\<open>relay_target\<close>). With a member \<open>t\<close> found, the whole effect is
  \<open>Send t data\<close> and every other session is exactly as before: on an open
  channel \<open>t\<close>'s queue gets the envelope appended (or the envelope is dropped,
  when 256 messages are waiting), on a closed channel the hub panics. With no
  member found, no session changes and one debug line is logged. Rooms and
  tables never change.
\<close>

lemma directed_relay_effect:
  assumes "relayable (Type msg)" and "TargetID msg \<noteq> []"
  shows "\<exists>h' data. handleMessage env draws a (Some msg) h = Some h' \<and>
           data = msg\<lparr>PeerID := client_id (client_heap h a),
                      Payload := marshalPayload env (Payload msg)\<rparr> \<and>
           PeerID data = client_id (client_heap h a) \<and>
           Payload data = marshalPayload env (Payload msg) \<and>
           Type data = Type msg \<and> TargetID data = TargetID msg \<and>
           ipRooms h' = ipRooms h \<and> publicRooms h' = publicRooms h \<and> room_heap h' = room_heap h \<and>
           (case relay_target a (TargetID msg) h of
              Some t \<Rightarrow>
                h' = Send t data h \<and>
                (room_keys_wf h \<longrightarrow> client_id (client_heap h t) = TargetID msg) \<and>
                (\<forall>b. b \<noteq> t \<longrightarrow> client_heap h' b = client_heap h b) \<and>
                panicked h' = (panicked h \<or> send_closed (client_heap h t)) \<and>
                client_send (client_heap h' t) =
                  (if send_closed (client_heap h t) then client_send (client_heap h t)
                   else if length (client_send (client_heap h t)) < send_capacity
                   then client_send (client_heap h t) @ [data]
                   else client_send (client_heap h t))
            | None \<Rightarrow>
                client_heap h' = client_heap h \<and> panicked h' = panicked h \<and>
                hub_log h' = hub_log h @
                  [Log Debug ''relay target not found'' [(''targetID'', TargetID msg)]])"
proof (cases "relay_target a (TargetID msg) h")
  case None
  show ?thesis
    unfolding handleMessage_relayable [OF assms(1)] relayToTarget_not_found [OF assms(2) None]
    by (simp add: None hub_logf_def)
next
  case (Some t)
  show ?thesis
    unfolding handleMessage_relayable [OF assms(1)] relayToTarget_found [OF assms(2) Some]
    using relay_target_id [OF _ Some]
    by (simp add: Some Send_other Send_queue Send_panicked)
qed


lemma Send_lit:
  "Send a m \<lparr>ipRooms = ir, publicRooms = pr, client_heap = ch, room_heap = rh, next_room = n,
             hub_log = l, panicked = x\<rparr> =
     (if send_closed (ch a)
      then \<lparr>ipRooms = ir, publicRooms = pr, client_heap = ch, room_heap = rh, next_room = n,
            hub_log = l, panicked = True\<rparr>
      else if length (client_send (ch a)) < 256
      then \<lparr>ipRooms = ir, publicRooms = pr,
            client_heap = ch(a := (ch a)\<lparr>client_send := client_send (ch a) @ [m]\<rparr>),
            room_heap = rh, next_room = n, hub_log = l, panicked = x\<rparr>
      else \<lparr>ipRooms = ir, publicRooms = pr, client_heap = ch, room_heap = rh, next_room = n,
            hub_log = l @ [Log Warn ''client send buffer full'' [(''clientID'', client_id (ch a))]],
            panicked = x\<rparr>)"
  by (simp add: Send_def send_capacity_def Let_def)

lemmas hub_eval =
  handleMessage_def handleJoin_def handleCreateRoom_def handleJoinRoom_def handleLeaveRoom_def
  relayToTarget_def RelayTo_def JoinIPRoom_def CreatePublicRoom_def CreatePublicRoom_insert_def JoinPublicRoom_def
  LeavePublicRoom_def alloc_room_def NewRoom_def AddClient_def RemoveClient_def IsEmpty_def
  set_ipRoom_def set_publicRoom_def GetPeerInfos_def PeerInfo_of_def Send_lit Broadcast_def
  hub_logf_def New_defs Type_defs Let_def example_env_def hub0_def example_client_def

lemma hub_joined_eval:
  "hub_joined =
    \<lparr>ipRooms = [(''192.168.1'', 0)], publicRooms = [],
      client_heap =
        (\<lambda>_. example_client ''c0'' ''192.168.1.10:5000'')
        (Suc 0 := (example_client ''c1'' ''192.168.1.11:5000'')
           \<lparr>client_send := [NewPeersMessage [\<lparr>ID = ''c0'', Name = ''laptop'', Platform = ''linux''\<rparr>]],
            ipRoom := Some 0\<rparr>,
         0 := (example_client ''c0'' ''192.168.1.10:5000'')
           \<lparr>client_send := [NewPeersMessage [],
               NewPeerJoinedMessage \<lparr>ID = ''c1'', Name = ''laptop'', Platform = ''linux''\<rparr>],
            ipRoom := Some 0\<rparr>),
      room_heap = (\<lambda>_. NewRoom [] False)
        (0 := \<lparr>room_id = ''192.168.1'', isPublic = False, room_clients = [(''c0'', 0), (''c1'', Suc 0)]\<rparr>),
      next_room = Suc 0,
      hub_log =
        [Log Info ''client joined''
           [(''id'', ''c0''), (''name'', ''laptop''), (''platform'', ''linux''), (''ipRoom'', ''192.168.1'')],
         Log Info ''client joined''
           [(''id'', ''c1''), (''name'', ''laptop''), (''platform'', ''linux''), (''ipRoom'', ''192.168.1'')]],
      panicked = False\<rparr>"
  by (simp add: hub_joined_def join_msg_def hub_eval)

lemma directed_relay_example:
  "relay_target 0 (TargetID offer_msg) hub_joined = Some (Suc 0) \<and>
   (\<exists>h'. handleMessage example_env [] 0 (Some offer_msg) hub_joined = Some h' \<and>
      client_send (client_heap h' (Suc 0)) =
        client_send (client_heap hub_joined (Suc 0)) @
          [\<lparr>Type = ''offer'', PeerID = ''c0'', TargetID = ''c1'', Payload = Raw ''sdp''\<rparr>] \<and>
      client_heap h' 0 = client_heap hub_joined 0 \<and>
      client_heap h' 2 = client_heap hub_joined 2)"
proof -
  have a: "relayable (Type offer_msg)" "TargetID offer_msg \<noteq> []"
    by (simp_all add: relayable_def offer_msg_def)
  have t: "relay_target 0 (TargetID offer_msg) hub_joined = Some (Suc 0)"
    by (simp add: relay_target_def member_of_def hub_joined_eval offer_msg_def)
  have q: "length (client_send (client_heap hub_joined (Suc 0))) < send_capacity"
    "client_id (client_heap hub_joined 0) = ''c0''"
    "\<not> send_closed (client_heap hub_joined (Suc 0))"
    "marshalPayload example_env (Payload offer_msg) = Raw ''sdp''"
    by (simp_all add: hub_joined_eval send_capacity_def example_client_def marshalPayload_def
        example_env_def offer_msg_def)
  from directed_relay_effect [OF a, of example_env "[]" 0 hub_joined]
  obtain h' where h': "handleMessage example_env [] 0 (Some offer_msg) hub_joined = Some h'"
    "\<forall>b. b \<noteq> Suc 0 \<longrightarrow> client_heap h' b = client_heap hub_joined b"
    "client_send (client_heap h' (Suc 0)) =
       client_send (client_heap hub_joined (Suc 0)) @
         [offer_msg\<lparr>PeerID := ''c0'', Payload := Raw ''sdp''\<rparr>]"
    unfolding t using q by auto
  from h'(2) have "client_heap h' 0 = client_heap hub_joined 0" "client_heap h' 2 = client_heap hub_joined 2"
    by simp_all
  with t h'(1,3) show ?thesis
    by (auto simp: offer_msg_def)
qed

subsection \<open>Membership in coded rooms\<close>

text \<open>
  Joining a coded room from a different one does leave the old room first: the
  session is no member of the old room afterwards, is a member of the new one,
  and an old room left empty is no longer in the table under its code.
\<close>

lemma GenerateRoomCode_ones: "GenerateRoomCode ones_draw = ''BBBBB''"
  by (simp add: GenerateRoomCode_def ones_draw_def charset_def upt_rec)

lemma create_first:
  "handleMessage example_env [zero_draw] 0 (Some create_room_msg) hub0 =
     Some \<lparr>ipRooms = [], publicRooms = [(''AAAAA'', 0)],
       client_heap = (\<lambda>_. example_client ''c0'' ''192.168.1.10:5000'')
         (Suc 0 := example_client ''c1'' ''192.168.1.11:5000'',
          0 := (example_client ''c0'' ''192.168.1.10:5000'')
                 \<lparr>client_send := [NewRoomCreatedMessage ''AAAAA''], publicRoom := Some 0\<rparr>),
       room_heap = (\<lambda>_. NewRoom [] False)
         (0 := \<lparr>room_id = ''AAAAA'', isPublic = True, room_clients = [(''c0'', 0)]\<rparr>),
       next_room = Suc 0,
       hub_log = [Log Info ''public room created'' [(''code'', ''AAAAA''), (''creator'', ''c0'')]],
       panicked = False\<rparr>"
  by (simp add: create_room_msg_def GenerateRoomCode_zero hub_eval)

lemma JoinPublicRoom_leaves_old_room:
  assumes old: "publicRoom (client_heap h a) = Some old"
    and new: "map_of (publicRooms h) code = Some room"
    and diff: "old \<noteq> room"
  shows "\<exists>h'. JoinPublicRoom a code h = Inr h' \<and>
           map_of (room_clients (room_heap h' old)) (client_id (client_heap h a)) = None \<and>
           map_of (room_clients (room_heap h' room)) (client_id (client_heap h a)) = Some a \<and>
           publicRoom (client_heap h' a) = Some room \<and>
           (room_clients (room_heap h' old) = [] \<longrightarrow>
              map_of (publicRooms h') (room_id (room_heap h old)) = None)"
  using assms
  by (simp add: JoinPublicRoom_def LeavePublicRoom_def Let_def IsEmpty_def
      AddClient_clients RemoveClient_clients update_conv' delete_conv')

text \<open>
  Claim C6, evaluated on two runs of one session (id \<open>c0\<close>) that first creates
  the coded room \<open>AAAAA\<close>. In the first run it then joins \<open>AAAAA\<close>, its own
  room: \<open>JoinPublicRoom\<close> looks the room up, \<open>LeavePublicRoom\<close> empties it and
  deletes it from the table, and the session is added back to the room object
  that is no longer in the table; the session references a coded room that the
  table does not hold. In the second run it creates another room (\<open>BBBBB\<close>):
  \<open>CreatePublicRoom\<close> does not leave the current room as \<open>JoinPublicRoom\<close> does,
  so the session stays a member of \<open>AAAAA\<close> and is a member of \<open>BBBBB\<close> too.
  Both states are reachable, and both contradict the invariant of the claim.
\<close>

theorem C6_coded_room_membership_broken:
  "\<exists>h1 h2 h2'.
     handleMessage example_env [zero_draw] 0 (Some create_room_msg) hub0 = Some h1 \<and>
     handleMessage example_env [] 0 (Some (join_room_msg ''AAAAA'')) h1 = Some h2 \<and>
     publicRoom (client_heap h2 0) = Some 0 \<and>
     room_id (room_heap h2 0) = ''AAAAA'' \<and>
     room_clients (room_heap h2 0) = [(''c0'', 0)] \<and>
     publicRooms h2 = [] \<and>
     handleMessage example_env [ones_draw] 0 (Some create_room_msg) h1 = Some h2' \<and>
     publicRooms h2' = [(''AAAAA'', 0), (''BBBBB'', Suc 0)] \<and>
     room_clients (room_heap h2' 0) = [(''c0'', 0)] \<and>
     room_clients (room_heap h2' (Suc 0)) = [(''c0'', 0)] \<and>
     publicRoom (client_heap h2' 0) = Some (Suc 0)"
  unfolding create_first
  by (simp add: create_room_msg_def join_room_msg_def GenerateRoomCode_ones hub_eval)

subsection \<open>Network addresses stay out of the messages\<close>

text \<open>
  Every operation of the hub commutes with replacing the clients' addresses:
  none reads \<open>client_ip\<close>, except \<open>JoinIPRoom\<close>, which reads the joiner's to
  choose the room.
\<close>

lemma set_ips_proj [simp]:
  "ipRooms (set_ips f h) = ipRooms h"
  "publicRooms (set_ips f h) = publicRooms h"
  "room_heap (set_ips f h) = room_heap h"
  "next_room (set_ips f h) = next_room h"
  "hub_log (set_ips f h) = hub_log h"
  "client_id (client_heap (set_ips f h) b) = client_id (client_heap h b)"
  "client_send (client_heap (set_ips f h) b) = client_send (client_heap h b)"
  "ipRoom (client_heap (set_ips f h) b) = ipRoom (client_heap h b)"
  "publicRoom (client_heap (set_ips f h) b) = publicRoom (client_heap h b)"
  "client_name (client_heap (set_ips f h) b) = client_name (client_heap h b)"
  "client_platform (client_heap (set_ips f h) b) = client_platform (client_heap h b)"
  "client_ip (client_heap (set_ips f h) b) = f b"
  "send_closed (client_heap (set_ips f h) b) = send_closed (client_heap h b)"
  "panicked (set_ips f h) = panicked h"
  "PeerInfo_of (client_heap (set_ips f h) b) = PeerInfo_of (client_heap h b)"
  by (simp_all add: set_ips_def PeerInfo_of_def)

lemma Send_set_ips: "Send a m (set_ips f h) = set_ips f (Send a m h)"
  by (auto simp: Send_def set_ips_def Let_def fun_eq_iff)

lemma Broadcast_loop_set_ips:
  "Broadcast_loop cs m ex (set_ips f h) = set_ips f (Broadcast_loop cs m ex h)"
  by (induction cs m ex h rule: Broadcast_loop.induct) (auto simp: Send_set_ips split: if_splits)

lemma Broadcast_set_ips: "Broadcast r m ex (set_ips f h) = set_ips f (Broadcast r m ex h)"
  by (simp add: Broadcast_def Broadcast_loop_set_ips)

lemma AddClient_set_ips: "AddClient r a (set_ips f h) = set_ips f (AddClient r a h)"
  by (simp add: AddClient_def set_ips_def Let_def)

lemma RemoveClient_set_ips: "RemoveClient r k (set_ips f h) = set_ips f (RemoveClient r k h)"
  by (simp add: RemoveClient_def set_ips_def Let_def)

lemma set_publicRoom_set_ips: "set_publicRoom a x (set_ips f h) = set_ips f (set_publicRoom a x h)"
  by (auto simp: set_publicRoom_def set_ips_def fun_eq_iff)

lemma set_ipRoom_set_ips: "set_ipRoom a x (set_ips f h) = set_ips f (set_ipRoom a x h)"
  by (auto simp: set_ipRoom_def set_ips_def fun_eq_iff)

lemma hub_logf_set_ips: "hub_logf e (set_ips f h) = set_ips f (hub_logf e h)"
  by (simp add: hub_logf_def set_ips_def)

lemma GetPeerInfos_set_ips: "GetPeerInfos r ex (set_ips f h) = GetPeerInfos r ex h"
  by (simp add: GetPeerInfos_def)

lemma IsEmpty_set_ips: "IsEmpty r (set_ips f h) = IsEmpty r h"
  by (simp add: IsEmpty_def)

lemma tables_set_ips:
  "(set_ips f h)\<lparr>publicRooms := t\<rparr> = set_ips f (h\<lparr>publicRooms := t\<rparr>)"
  "(set_ips f h)\<lparr>ipRooms := t\<rparr> = set_ips f (h\<lparr>ipRooms := t\<rparr>)"
  by (simp_all add: set_ips_def)

lemma alloc_room_set_ips:
  "alloc_room r (set_ips f h) = (fst (alloc_room r h), set_ips f (snd (alloc_room r h)))"
  by (simp add: alloc_room_def set_ips_def)

lemmas set_ips_commute =
  Send_set_ips Broadcast_set_ips AddClient_set_ips RemoveClient_set_ips set_publicRoom_set_ips
  set_ipRoom_set_ips hub_logf_set_ips GetPeerInfos_set_ips IsEmpty_set_ips tables_set_ips
  alloc_room_set_ips

lemma LeavePublicRoom_set_ips: "LeavePublicRoom a (set_ips f h) = set_ips f (LeavePublicRoom a h)"
  by (simp add: LeavePublicRoom_def Let_def set_ips_commute split: option.splits)

lemma JoinPublicRoom_set_ips:
  "JoinPublicRoom a code (set_ips f h) = map_sum id (set_ips f) (JoinPublicRoom a code h)"
  by (auto simp: JoinPublicRoom_def Let_def set_ips_commute LeavePublicRoom_set_ips
      split: option.splits)

lemma CreatePublicRoom_loop_set_ips:
  "CreatePublicRoom_loop draws (set_ips f h) = CreatePublicRoom_loop draws h"
  by (induction draws) (simp_all add: Let_def)

lemma CreatePublicRoom_set_ips:
  "CreatePublicRoom draws a (set_ips f h) =
     map_option (\<lambda>(code, h'). (code, set_ips f h')) (CreatePublicRoom draws a h)"
  by (simp add: CreatePublicRoom_def CreatePublicRoom_insert_def Let_def split_beta set_ips_commute CreatePublicRoom_loop_set_ips
      split: option.splits)

lemma JoinIPRoom_set_ips:
  assumes "ExtractIPRoomID env (f a) [] = ExtractIPRoomID env (client_ip (client_heap h a)) []"
  shows "JoinIPRoom env a (set_ips f h) = set_ips f (JoinIPRoom env a h)"
  using assms
  by (simp add: JoinIPRoom_def Let_def split_beta set_ips_commute split: option.splits)

lemma relayToTarget_set_ips: "relayToTarget env a msg (set_ips f h) = set_ips f (relayToTarget env a msg h)"
  by (simp add: relayToTarget_def RelayTo_def Let_def set_ips_commute split: option.splits)

lemma upd_names_set_ips:
  "(set_ips f h)\<lparr>client_heap := (client_heap (set_ips f h))
       (a := (client_heap (set_ips f h) a)\<lparr>client_name := n, client_platform := pl\<rparr>)\<rparr> =
   set_ips f (h\<lparr>client_heap := (client_heap h)(a := (client_heap h a)\<lparr>client_name := n, client_platform := pl\<rparr>)\<rparr>)"
  by (auto simp: set_ips_def fun_eq_iff)

lemma handleJoin_set_ips:
  assumes "ExtractIPRoomID env (f a) [] = ExtractIPRoomID env (client_ip (client_heap h a)) []"
  shows "handleJoin env a p (set_ips f h) = set_ips f (handleJoin env a p h)"
proof (cases "unmarshalJoin env p")
  case None
  then show ?thesis by (simp add: handleJoin_def hub_logf_set_ips)
next
  case (Some np)
  obtain n pl where np: "np = (n, pl)" by (cases np)
  let ?h1 = "h\<lparr>client_heap := (client_heap h)(a := (client_heap h a)\<lparr>client_name := n, client_platform := pl\<rparr>)\<rparr>"
  have "ExtractIPRoomID env (f a) [] = ExtractIPRoomID env (client_ip (client_heap ?h1 a)) []"
    using assms by simp
  from JoinIPRoom_set_ips [of env f a ?h1, OF this] show ?thesis
    by (simp add: handleJoin_def Some np upd_names_set_ips Let_def hub_logf_set_ips
        cong: option.case_cong)
qed

lemma handleMessage_set_ips:
  assumes "\<And>msg. m = Some msg \<Longrightarrow> Type msg = TypeJoin \<Longrightarrow>
     ExtractIPRoomID env (f a) [] = ExtractIPRoomID env (client_ip (client_heap h a)) []"
  shows "handleMessage env draws a m (set_ips f h) = map_option (set_ips f) (handleMessage env draws a m h)"
proof (cases m)
  case None
  then show ?thesis by (simp add: handleMessage_def hub_logf_set_ips)
next
  case (Some msg)
  show ?thesis
    using assms [OF Some]
    by (simp add: handleMessage_def Some handleJoin_set_ips relayToTarget_set_ips
        handleCreateRoom_def CreatePublicRoom_set_ips handleJoinRoom_def JoinPublicRoom_set_ips
        handleLeaveRoom_def LeavePublicRoom_set_ips Let_def set_ips_commute
        split: option.splits sum.splits)
qed


text \<open>
  Claim C9. \<open>PeerInfo\<close> of a client is its id, name and platform, the same for two
  clients that differ in their address only; so is the peer list of a room. For
  every inbound message, running the hub on a state whose clients have other
  addresses (\<open>set_ips f\<close>) gives the state with those other addresses and,
  session by session, the same outbound queue: every \<open>peers\<close>, \<open>peer-joined\<close> and
  \<open>room-joined\<close> message is the same, whatever the members' addresses are. The
  one use of an address is room scoping: for a \<open>join\<close> the joiner's two addresses
  have to fall into the same auto-scope room. The payloads of these messages
  are \<open>PeerInfo\<close> records, which have no address field.
\<close>

theorem C9_peer_info_hides_address:
  assumes "\<forall>msg. m = Some msg \<and> Type msg = TypeJoin \<longrightarrow>
     ExtractIPRoomID env (f a) [] = ExtractIPRoomID env (client_ip (client_heap h a)) []"
  shows "PeerInfo_of (c\<lparr>client_ip := x\<rparr>) = PeerInfo_of c \<and>
         PeerInfo_of c = \<lparr>ID = client_id c, Name = client_name c, Platform = client_platform c\<rparr> \<and>
         GetPeerInfos r ex (set_ips f h) = GetPeerInfos r ex h \<and>
         handleMessage env draws a m (set_ips f h) =
           map_option (set_ips f) (handleMessage env draws a m h) \<and>
         (\<forall>h'. handleMessage env draws a m h = Some h' \<longrightarrow>
            (\<exists>h''. handleMessage env draws a m (set_ips f h) = Some h'' \<and>
               (\<forall>b. client_send (client_heap h'' b) = client_send (client_heap h' b))))"
proof -
  have comm: "handleMessage env draws a m (set_ips f h) =
           map_option (set_ips f) (handleMessage env draws a m h)"
    by (rule handleMessage_set_ips) (use assms in blast)
  then show ?thesis
    by (simp add: PeerInfo_of_def GetPeerInfos_def)
qed

theorem C9_peer_info_hides_address_witness:
  "ExtractIPRoomID example_env ''192.168.1.77:9'' [] =
     ExtractIPRoomID example_env (client_ip (client_heap hub_joined 0)) [] \<and>
   client_ip (client_heap hub_joined 0) \<noteq> ''192.168.1.77:9'' \<and>
   (\<exists>h' h''. handleMessage example_env [] 0 (Some join_msg) hub_joined = Some h' \<and>
      handleMessage example_env [] 0 (Some join_msg) (set_ips (\<lambda>_. ''192.168.1.77:9'') hub_joined) = Some h'' \<and>
      client_send (client_heap h'' 0) = client_send (client_heap h' 0) \<and>
      client_send (client_heap h'' (Suc 0)) = client_send (client_heap h' (Suc 0)) \<and>
      last (client_send (client_heap h' 0)) =
        NewPeersMessage [\<lparr>ID = ''c1'', Name = ''laptop'', Platform = ''linux''\<rparr>])"
proof -
  have e: "ExtractIPRoomID example_env ''192.168.1.77:9'' [] =
     ExtractIPRoomID example_env (client_ip (client_heap hub_joined 0)) []"
    "client_ip (client_heap hub_joined 0) \<noteq> ''192.168.1.77:9''"
    by (simp_all add: hub_joined_eval example_env_def example_client_def)
  obtain h' where h': "handleMessage example_env [] 0 (Some join_msg) hub_joined = Some h'"
    by (simp add: handleMessage_def join_msg_def Type_defs)
  have l: "last (client_send (client_heap h' 0)) =
        NewPeersMessage [\<lparr>ID = ''c1'', Name = ''laptop'', Platform = ''linux''\<rparr>]"
    using h' by (simp add: hub_joined_eval join_msg_def hub_eval) auto
  have "\<forall>msg. Some join_msg = Some msg \<and> Type msg = TypeJoin \<longrightarrow>
     ExtractIPRoomID example_env ((\<lambda>_. ''192.168.1.77:9'') (0::nat)) [] =
     ExtractIPRoomID example_env (client_ip (client_heap hub_joined 0)) []"
    using e by simp
  from C9_peer_info_hides_address [OF this] h' l e show ?thesis
    by blast
qed

subsection \<open>Two coded rooms with one code\<close>

lemma join_own_room:
  "handleMessage example_env [] 0 (Some (join_room_msg ''AAAAA''))
     (the (handleMessage example_env [zero_draw] 0 (Some create_room_msg) hub0)) = Some hub_orphan"
  unfolding create_first option.sel hub_orphan_def
  by (simp add: join_room_msg_def hub_eval)

lemma create_in_orphan:
  "handleMessage example_env [zero_draw] (Suc 0) (Some create_room_msg) hub_orphan =
     Some \<lparr>ipRooms = [], publicRooms = [(''AAAAA'', Suc 0)],
       client_heap = (\<lambda>_. example_client ''c0'' ''192.168.1.10:5000'')
         (0 := (example_client ''c0'' ''192.168.1.10:5000'')
                 \<lparr>client_send := [NewRoomCreatedMessage ''AAAAA'', NewRoomJoinedMessage ''AAAAA'' []],
                  publicRoom := Some 0\<rparr>,
          Suc 0 := (example_client ''c1'' ''192.168.1.11:5000'')
                 \<lparr>client_send := [NewRoomCreatedMessage ''AAAAA''], publicRoom := Some (Suc 0)\<rparr>),
       room_heap = (\<lambda>_. NewRoom [] False)
         (0 := \<lparr>room_id = ''AAAAA'', isPublic = True, room_clients = [(''c0'', 0)]\<rparr>,
          Suc 0 := \<lparr>room_id = ''AAAAA'', isPublic = True, room_clients = [(''c1'', Suc 0)]\<rparr>),
       next_room = Suc (Suc 0),
       hub_log = [Log Info ''public room created'' [(''code'', ''AAAAA''), (''creator'', ''c0'')],
                  Log Info ''client joined public room'' [(''code'', ''AAAAA''), (''clientID'', ''c0'')],
                  Log Info ''public room created'' [(''code'', ''AAAAA''), (''creator'', ''c1'')]],
       panicked = False\<rparr>"
  unfolding hub_orphan_def
  by (simp add: create_room_msg_def GenerateRoomCode_zero hub_eval)

lemma insert_twice:
  "CreatePublicRoom_insert ''AAAAA'' (Suc 0) (CreatePublicRoom_insert ''AAAAA'' 0 hub0) =
     \<lparr>ipRooms = [], publicRooms = [(''AAAAA'', Suc 0)],
       client_heap = (\<lambda>_. example_client ''c0'' ''192.168.1.10:5000'')
         (0 := (example_client ''c0'' ''192.168.1.10:5000'')\<lparr>publicRoom := Some 0\<rparr>,
          Suc 0 := (example_client ''c1'' ''192.168.1.11:5000'')\<lparr>publicRoom := Some (Suc 0)\<rparr>),
       room_heap = (\<lambda>_. NewRoom [] False)
         (0 := \<lparr>room_id = ''AAAAA'', isPublic = True, room_clients = [(''c0'', 0)]\<rparr>,
          Suc 0 := \<lparr>room_id = ''AAAAA'', isPublic = True, room_clients = [(''c1'', Suc 0)]\<rparr>),
       next_room = Suc (Suc 0), hub_log = [], panicked = False\<rparr>"
  by (simp add: hub_eval)

text \<open>
  Claim C4, evaluated on two runs. In the first, session \<open>c0\<close> creates the coded
  room \<open>AAAAA\<close> and then joins it: the room keeps \<open>c0\<close> as its member and \<open>c0\<close>
  keeps pointing to it, but it is no longer an entry of the table. Session \<open>c1\<close>
  then creates a room and \<open>rand.Read\<close> gives the same bytes again:
  \<open>CreatePublicRoom\<close> finds no entry \<open>AAAAA\<close> and returns that code, and \<open>c1\<close> is
  sent \<open>room-created\<close> with it. Two coded rooms, each with a member that
  references it, now have the code \<open>AAAAA\<close>. In the second run the two halves of
  \<open>CreatePublicRoom\<close> of two connections interleave: both loops read the empty
  table and accept \<open>AAAAA\<close>, then both rooms are stored, the second over the
  first; again two coded rooms with members share the code.
\<close>

theorem C4_two_rooms_one_code:
  "\<exists>h1 h2 h3 g.
     handleMessage example_env [zero_draw] 0 (Some create_room_msg) hub0 = Some h1 \<and>
     handleMessage example_env [] 0 (Some (join_room_msg ''AAAAA'')) h1 = Some h2 \<and>
     map_of (publicRooms h2) ''AAAAA'' = None \<and>
     room_id (room_heap h2 0) = ''AAAAA'' \<and> isPublic (room_heap h2 0) \<and>
     room_clients (room_heap h2 0) = [(''c0'', 0)] \<and> publicRoom (client_heap h2 0) = Some 0 \<and>
     (\<exists>h'. CreatePublicRoom [zero_draw] (Suc 0) h2 = Some (''AAAAA'', h')) \<and>
     handleMessage example_env [zero_draw] (Suc 0) (Some create_room_msg) h2 = Some h3 \<and>
     last (client_send (client_heap h3 (Suc 0))) = NewRoomCreatedMessage ''AAAAA'' \<and>
     room_id (room_heap h3 0) = ''AAAAA'' \<and> isPublic (room_heap h3 0) \<and>
     room_clients (room_heap h3 0) = [(''c0'', 0)] \<and> publicRoom (client_heap h3 0) = Some 0 \<and>
     room_id (room_heap h3 (Suc 0)) = ''AAAAA'' \<and> isPublic (room_heap h3 (Suc 0)) \<and>
     room_clients (room_heap h3 (Suc 0)) = [(''c1'', Suc 0)] \<and>
     publicRoom (client_heap h3 (Suc 0)) = Some (Suc 0) \<and>
     publicRooms h3 = [(''AAAAA'', Suc 0)] \<and> \<not> panicked h3 \<and>
     CreatePublicRoom_loop [zero_draw] hub0 = Some ''AAAAA'' \<and>
     g = CreatePublicRoom_insert ''AAAAA'' (Suc 0) (CreatePublicRoom_insert ''AAAAA'' 0 hub0) \<and>
     room_id (room_heap g 0) = ''AAAAA'' \<and> isPublic (room_heap g 0) \<and>
     room_clients (room_heap g 0) = [(''c0'', 0)] \<and> publicRoom (client_heap g 0) = Some 0 \<and>
     room_id (room_heap g (Suc 0)) = ''AAAAA'' \<and> isPublic (room_heap g (Suc 0)) \<and>
     room_clients (room_heap g (Suc 0)) = [(''c1'', Suc 0)] \<and>
     publicRoom (client_heap g (Suc 0)) = Some (Suc 0) \<and>
     publicRooms g = [(''AAAAA'', Suc 0)]"
proof -
  have create: "\<exists>h'. CreatePublicRoom [zero_draw] (Suc 0) hub_orphan = Some (''AAAAA'', h')"
    by (simp add: CreatePublicRoom_def GenerateRoomCode_zero hub_orphan_def)
  have loop: "CreatePublicRoom_loop [zero_draw] hub0 = Some ''AAAAA''"
    by (simp add: GenerateRoomCode_zero hub0_def)
  have orphan: "map_of (publicRooms hub_orphan) ''AAAAA'' = None"
    "room_id (room_heap hub_orphan 0) = ''AAAAA''" "isPublic (room_heap hub_orphan 0)"
    "room_clients (room_heap hub_orphan 0) = [(''c0'', 0)]"
    "publicRoom (client_heap hub_orphan 0) = Some 0"
    by (simp_all add: hub_orphan_def)
  show ?thesis
    unfolding insert_twice
    using join_own_room create_in_orphan create orphan loop
    by (simp add: create_first)
qed

subsection \<open>A relay to a session that has gone\<close>

lemma create_second:
  "handleMessage example_env [ones_draw] 0 (Some create_room_msg)
     (the (handleMessage example_env [zero_draw] 0 (Some create_room_msg) hub0)) = Some hub_two_rooms"
  unfolding create_first option.sel hub_two_rooms_def
  by (simp add: create_room_msg_def GenerateRoomCode_ones hub_eval)

lemma join_stale:
  "handleMessage example_env [] (Suc 0) (Some (join_room_msg ''AAAAA'')) hub_two_rooms = Some hub_stale"
  unfolding hub_two_rooms_def hub_stale_def
  by (simp add: join_room_msg_def hub_eval)

lemma unregister_c0: "Unregister 0 hub_stale = hub_gone"
  unfolding hub_gone_def hub_stale_def
  by (simp add: Unregister_def hub_eval)

lemma relay_delivered:
  "handleMessage example_env [] (Suc 0) (Some answer_msg) hub_stale =
     Some (hub_stale\<lparr>client_heap := (client_heap hub_stale)
        (0 := (client_heap hub_stale 0)\<lparr>client_send := client_send (client_heap hub_stale 0) @
           [\<lparr>Type = ''answer'', PeerID = ''c1'', TargetID = ''c0'', Payload = Raw ''[1,2]''\<rparr>]\<rparr>)\<rparr>)"
  unfolding hub_stale_def
  by (simp add: answer_msg_def marshalPayload_def hub_eval)

lemma relay_panics:
  "handleMessage example_env [] (Suc 0) (Some answer_msg) hub_gone = Some (hub_gone\<lparr>panicked := True\<rparr>)"
  unfolding hub_gone_def
  by (simp add: answer_msg_def marshalPayload_def hub_eval)

text \<open>
  Claim C1, evaluated on the run in which the relay fails. Session \<open>c0\<close> creates
  two coded rooms, so it stays in the member map of the first, and session \<open>c1\<close>
  joins that first room. While \<open>c0\<close> is connected, an \<open>answer\<close> of \<open>c1\<close> for \<open>c0\<close>
  is relayed as the claim says, with \<open>c1\<close> as \<open>peerId\<close> and the payload marshalled
  again. Then the connection of \<open>c0\<close> ends: \<open>Unregister\<close> takes \<open>c0\<close> out of its
  current coded room only and closes its channel. The same \<open>answer\<close> now finds
  \<open>c0\<close> in the member map of the sender's coded room, the hub sends on the closed
  channel and panics: nothing is delivered, and nothing is logged and dropped
  either.
\<close>

theorem C1_relay_to_closed_session_panics:
  "\<exists>h1 h2 h3 h3' h4 h5.
     handleMessage example_env [zero_draw] 0 (Some create_room_msg) hub0 = Some h1 \<and>
     handleMessage example_env [ones_draw] 0 (Some create_room_msg) h1 = Some h2 \<and>
     handleMessage example_env [] (Suc 0) (Some (join_room_msg ''AAAAA'')) h2 = Some h3 \<and>
     relayable (Type answer_msg) \<and> TargetID answer_msg = ''c0'' \<and>
     handleMessage example_env [] (Suc 0) (Some answer_msg) h3 = Some h3' \<and>
     \<not> panicked h3' \<and>
     client_send (client_heap h3' 0) = client_send (client_heap h3 0) @
       [\<lparr>Type = ''answer'', PeerID = ''c1'', TargetID = ''c0'', Payload = Raw ''[1,2]''\<rparr>] \<and>
     h4 = Unregister 0 h3 \<and>
     \<not> panicked h4 \<and> send_closed (client_heap h4 0) \<and>
     client_id (client_heap h4 0) = ''c0'' \<and>
     publicRoom (client_heap h4 0) = Some (Suc 0) \<and>
     room_clients (room_heap h4 (Suc 0)) = [] \<and>
     client_id (client_heap h4 (Suc 0)) = ''c1'' \<and>
     \<not> send_closed (client_heap h4 (Suc 0)) \<and>
     ipRoom (client_heap h4 (Suc 0)) = None \<and>
     publicRoom (client_heap h4 (Suc 0)) = Some 0 \<and>
     room_clients (room_heap h4 0) = [(''c0'', 0), (''c1'', Suc 0)] \<and>
     relay_target (Suc 0) (TargetID answer_msg) h4 = Some 0 \<and>
     handleMessage example_env [] (Suc 0) (Some answer_msg) h4 = Some h5 \<and>
     panicked h5 \<and>
     client_heap h5 = client_heap h4 \<and> hub_log h5 = hub_log h4"
proof -
  have gone: "\<not> panicked hub_gone" "send_closed (client_heap hub_gone 0)"
    "client_id (client_heap hub_gone 0) = ''c0''"
    "publicRoom (client_heap hub_gone 0) = Some (Suc 0)"
    "room_clients (room_heap hub_gone (Suc 0)) = []"
    "client_id (client_heap hub_gone (Suc 0)) = ''c1''"
    "\<not> send_closed (client_heap hub_gone (Suc 0))"
    "ipRoom (client_heap hub_gone (Suc 0)) = None"
    "publicRoom (client_heap hub_gone (Suc 0)) = Some 0"
    "room_clients (room_heap hub_gone 0) = [(''c0'', 0), (''c1'', Suc 0)]"
    "relay_target (Suc 0) (TargetID answer_msg) hub_gone = Some 0"
    by (simp_all add: hub_gone_def example_client_def relay_target_def member_of_def answer_msg_def)
  have msg: "relayable (Type answer_msg)" "TargetID answer_msg = ''c0''"
    by (simp_all add: relayable_def answer_msg_def)
  have stale: "\<not> panicked hub_stale" by (simp add: hub_stale_def)
  show ?thesis
    using create_second join_stale relay_delivered relay_panics gone msg stale
    by (simp add: create_first unregister_c0)
qed

section \<open>Properties of the peer side: transfers\<close>

subsection \<open>Rejecting a transfer\<close>

lemma ws_send_effect:
  "ws_send t p target w =
     (if isConnected w \<and> ws w = Some OPEN
      then w\<lparr>ws_sent := ws_sent w @
              [\<lparr>msg_type = t, msg_payload = p, msg_targetId = (if target = [] then None else Some target)\<rparr>]\<rparr>
      else w\<lparr>messageQueue := messageQueue w @
              [\<lparr>msg_type = t, msg_payload = p, msg_targetId = (if target = [] then None else Some target)\<rparr>]\<rparr>)"
  by (simp add: ws_send_def Let_def)

lemma map_of_delete_same [simp]: "map_of (AList.delete k al) k = None"
  by (simp add: delete_conv')

text \<open>
  Claim C7. On the recipient, rejecting an incoming transfer it still holds hands
  exactly one message to the signaling channel, a \<open>transfer-response\<close> with
  \<open>accepted = false\<close> addressed to the initiator (sent at once when the channel
  is connected, queued otherwise), deletes the record in the same step and sends
  nothing on any data channel. On the initiator, which holds the outgoing record,
  that response raises \<open>send-rejected\<close> (the record is marked rejected and then
  deleted), sends no chunk frame and hands nothing to the signaling channel, so
  no \<open>relay-chunk\<close> either; and from then on any response naming that transfer,
  accepting or not, changes nothing, since the record is gone.
\<close>

theorem C7_reject_transfer:
  assumes inc: "map_of (incomingTransfers r) tid = Some t"
    and out: "map_of (outgoingTransfers s) tid = Some ot"
  shows "wsManager (rejectTransfer tid r) =
           sendTransferResponse (it_peerId t) tid False (wsManager r) \<and>
         ws_sent (wsManager (rejectTransfer tid r)) @ messageQueue (wsManager (rejectTransfer tid r)) =
           (if isConnected (wsManager r) \<and> ws (wsManager r) = Some OPEN
            then (ws_sent (wsManager r) @
                   [\<lparr>msg_type = ''transfer-response'', msg_payload = Some (TransferResponseP tid False),
                     msg_targetId = (if it_peerId t = [] then None else Some (it_peerId t))\<rparr>]) @
                 messageQueue (wsManager r)
            else ws_sent (wsManager r) @ messageQueue (wsManager r) @
                   [\<lparr>msg_type = ''transfer-response'', msg_payload = Some (TransferResponseP tid False),
                     msg_targetId = (if it_peerId t = [] then None else Some (it_peerId t))\<rparr>]) \<and>
         map_of (incomingTransfers (rejectTransfer tid r)) tid = None \<and>
         channel_sent (rejectTransfer tid r) = channel_sent r \<and>
         events (rejectTransfer tid r) = events r @ [Ev ''receive-rejected'' tid] \<and>
         map_of (outgoingTransfers (handleTransferResponse rtc peerId tid False s)) tid = None \<and>
         events (handleTransferResponse rtc peerId tid False s) = events s @ [Ev ''send-rejected'' tid] \<and>
         channel_sent (handleTransferResponse rtc peerId tid False s) = channel_sent s \<and>
         wsManager (handleTransferResponse rtc peerId tid False s) = wsManager s \<and>
         (\<forall>rtc' peerId' accepted.
            handleTransferResponse rtc' peerId' tid accepted (handleTransferResponse rtc peerId tid False s) =
            handleTransferResponse rtc peerId tid False s)"
proof -
  have gone: "map_of (outgoingTransfers (handleTransferResponse rtc peerId tid False s)) tid = None"
    using out by (simp add: handleTransferResponse_def Let_def dispatchEvent_def)
  have later: "handleTransferResponse rtc' peerId' tid accepted (handleTransferResponse rtc peerId tid False s) =
            handleTransferResponse rtc peerId tid False s" for rtc' peerId' accepted
    using gone by (simp add: handleTransferResponse_def [of rtc' peerId' tid accepted])
  have rej: "wsManager (rejectTransfer tid r) = sendTransferResponse (it_peerId t) tid False (wsManager r)"
    "map_of (incomingTransfers (rejectTransfer tid r)) tid = None"
    "channel_sent (rejectTransfer tid r) = channel_sent r"
    "events (rejectTransfer tid r) = events r @ [Ev ''receive-rejected'' tid]"
    using inc by (simp_all add: rejectTransfer_def Let_def dispatchEvent_def)
  have ini: "events (handleTransferResponse rtc peerId tid False s) = events s @ [Ev ''send-rejected'' tid]"
    "channel_sent (handleTransferResponse rtc peerId tid False s) = channel_sent s"
    "wsManager (handleTransferResponse rtc peerId tid False s) = wsManager s"
    using out by (simp_all add: handleTransferResponse_def Let_def dispatchEvent_def)
  show ?thesis
    unfolding rej ini
    using gone later
    by (simp add: sendTransferResponse_def ws_send_effect)
qed


lemmas ftm_eval =
  ftm0_def WebSocketManager_new_def ws_onopen_def ws_send_def sendTransferRequest_def
  sendTransferResponse_def sendRelayChunk_def sendFiles_def handleTransferRequest_def
  dispatchEvent_def channel_send_def file_info_def file_size_def small_file_def other_file_def
  empty_file_def Let_def

theorem C7_reject_transfer_witness:
  "(\<exists>t. map_of (incomingTransfers
            (handleTransferRequest ''peerA'' ''t1'' [file_info small_file] 3 ftm0)) ''t1'' = Some t \<and>
        it_status t = ''pending'' \<and> it_peerId t = ''peerA'') \<and>
   (\<exists>ot. map_of (outgoingTransfers (sendFiles ''t1'' ''peerB'' [small_file] ftm0)) ''t1'' = Some ot) \<and>
   ws_sent (wsManager (rejectTransfer ''t1''
      (handleTransferRequest ''peerA'' ''t1'' [file_info small_file] 3 ftm0))) =
     [\<lparr>msg_type = ''transfer-response'', msg_payload = Some (TransferResponseP ''t1'' False),
       msg_targetId = Some ''peerA''\<rparr>] \<and>
   messageQueue (wsManager (rejectTransfer ''t1''
      (handleTransferRequest ''peerA'' ''t1'' [file_info small_file] 3 ftm0))) = [] \<and>
   map_of (incomingTransfers (rejectTransfer ''t1''
      (handleTransferRequest ''peerA'' ''t1'' [file_info small_file] 3 ftm0))) ''t1'' = None \<and>
   map_of (outgoingTransfers (handleTransferResponse no_rtc ''peerB'' ''t1'' False
      (sendFiles ''t1'' ''peerB'' [small_file] ftm0))) ''t1'' = None \<and>
   channel_sent (handleTransferResponse no_rtc ''peerB'' ''t1'' False
      (sendFiles ''t1'' ''peerB'' [small_file] ftm0)) = [] \<and>
   wsManager (handleTransferResponse no_rtc ''peerB'' ''t1'' False
      (sendFiles ''t1'' ''peerB'' [small_file] ftm0)) = wsManager (sendFiles ''t1'' ''peerB'' [small_file] ftm0)"
proof -
  let ?R = "handleTransferRequest ''peerA'' ''t1'' [file_info small_file] 3 ftm0"
  let ?S = "sendFiles ''t1'' ''peerB'' [small_file] ftm0"
  obtain t where t: "map_of (incomingTransfers ?R) ''t1'' = Some t" "it_status t = ''pending''"
    "it_peerId t = ''peerA''"
    by (simp add: ftm_eval)
  obtain ot where ot: "map_of (outgoingTransfers ?S) ''t1'' = Some ot"
    by (simp add: ftm_eval)
  have w: "isConnected (wsManager ?R)" "ws (wsManager ?R) = Some OPEN" "ws_sent (wsManager ?R) = []"
    "messageQueue (wsManager ?R) = []" "channel_sent ?S = []"
    by (simp_all add: ftm_eval)
  note c = C7_reject_transfer [OF t(1) ot, of no_rtc "''peerB''"]
  from c have c1: "wsManager (rejectTransfer ''t1'' ?R) =
      sendTransferResponse (it_peerId t) ''t1'' False (wsManager ?R)"
    by blast
  have sent: "ws_sent (wsManager (rejectTransfer ''t1'' ?R)) =
      [\<lparr>msg_type = ''transfer-response'', msg_payload = Some (TransferResponseP ''t1'' False),
        msg_targetId = Some ''peerA''\<rparr>]"
    "messageQueue (wsManager (rejectTransfer ''t1'' ?R)) = []"
    unfolding c1 t(3) using w by (simp_all add: sendTransferResponse_def ws_send_def Let_def)
  from c have c2: "map_of (incomingTransfers (rejectTransfer ''t1'' ?R)) ''t1'' = None"
    "map_of (outgoingTransfers (handleTransferResponse no_rtc ''peerB'' ''t1'' False ?S)) ''t1'' = None"
    "channel_sent (handleTransferResponse no_rtc ''peerB'' ''t1'' False ?S) = channel_sent ?S"
    "wsManager (handleTransferResponse no_rtc ''peerB'' ''t1'' False ?S) = wsManager ?S"
    by blast+
  from sent c2 t ot w(5) show ?thesis
    by auto
qed

subsection \<open>The relay path: what the sender hands over\<close>

declare sendViaDataChannel_chunks.simps [simp del] sendViaDataChannel_files.simps [simp del]
  sendViaRelay_chunks.simps [simp del] sendViaRelay_files.simps [simp del]

lemma CHUNK_SIZE_pos: "0 < CHUNK_SIZE"
  by (simp add: CHUNK_SIZE_def)

lemma ceil_div_less_iff: "0 < c \<Longrightarrow> i < ceil_div n c \<longleftrightarrow> i * c < n"
proof -
  assume c: "0 < c"
  have "i < (n + c - 1) div c \<longleftrightarrow> Suc i \<le> (n + c - 1) div c" by auto
  also have "\<dots> \<longleftrightarrow> Suc i * c \<le> n + c - 1"
    using c by (simp add: less_eq_div_iff_mult_less_eq)
  also have "\<dots> \<longleftrightarrow> i * c < n"
    using c by (cases n) auto
  finally show ?thesis by (simp add: ceil_div_def)
qed

lemma chunk_count_less_iff: "i < chunk_count f \<longleftrightarrow> i * CHUNK_SIZE < file_size f"
  by (simp add: chunk_count_def ceil_div_less_iff CHUNK_SIZE_pos)

lemma ws_handed_ws_send:
  "ws_handed (ws_send t p target w) =
     ws_handed w @ [\<lparr>msg_type = t, msg_payload = p,
                     msg_targetId = (if target = [] then None else Some target)\<rparr>]"
  by (auto simp: ws_handed_def ws_send_def Let_def)

lemma ws_send_conn [simp]:
  "isConnected (ws_send t p target w) = isConnected w"
  "ws (ws_send t p target w) = ws w"
  by (simp_all add: ws_send_def Let_def)

lemma dispatchEvent_proj [simp]:
  "wsManager (dispatchEvent e s) = wsManager s"
  "outgoingTransfers (dispatchEvent e s) = outgoingTransfers s"
  "incomingTransfers (dispatchEvent e s) = incomingTransfers s"
  "channel_sent (dispatchEvent e s) = channel_sent s"
  "downloads (dispatchEvent e s) = downloads s"
  "uncaught (dispatchEvent e s) = uncaught s"
  "events (dispatchEvent e s) = events s @ [e]"
  by (simp_all add: dispatchEvent_def)

lemma channel_send_proj [simp]:
  "wsManager (channel_send p f s) = wsManager s"
  "outgoingTransfers (channel_send p f s) = outgoingTransfers s"
  "incomingTransfers (channel_send p f s) = incomingTransfers s"
  "channel_sent (channel_send p f s) = channel_sent s @ [(p, f)]"
  "downloads (channel_send p f s) = downloads s"
  "uncaught (channel_send p f s) = uncaught s"
  "events (channel_send p f s) = events s"
  by (simp_all add: channel_send_def)

lemma sendViaRelay_chunks_effect:
  assumes "offset = ci * CHUNK_SIZE" and "f = files ! fi"
  shows "ot_id (fst (sendViaRelay_chunks files f fi offset ci (t, s))) = ot_id t \<and>
     ot_peerId (fst (sendViaRelay_chunks files f fi offset ci (t, s))) = ot_peerId t \<and>
     outgoingTransfers (snd (sendViaRelay_chunks files f fi offset ci (t, s))) = outgoingTransfers s \<and>
     incomingTransfers (snd (sendViaRelay_chunks files f fi offset ci (t, s))) = incomingTransfers s \<and>
     channel_sent (snd (sendViaRelay_chunks files f fi offset ci (t, s))) = channel_sent s \<and>
     downloads (snd (sendViaRelay_chunks files f fi offset ci (t, s))) = downloads s \<and>
     isConnected (wsManager (snd (sendViaRelay_chunks files f fi offset ci (t, s)))) =
       isConnected (wsManager s) \<and>
     ws (wsManager (snd (sendViaRelay_chunks files f fi offset ci (t, s)))) = ws (wsManager s) \<and>
     ws_handed (wsManager (snd (sendViaRelay_chunks files f fi offset ci (t, s)))) =
       ws_handed (wsManager s) @
         map (relay_envelope (ot_peerId t) (ot_id t) files fi) [ci..<chunk_count f]"
  using assms
proof (induction files f fi offset ci "(t, s)" arbitrary: t s rule: sendViaRelay_chunks.induct)
  case (1 files f fileIndex offset chunkIndex t s)
  show ?case
  proof (cases "offset < file_size f")
    case False
    then have "\<not> chunkIndex < chunk_count f"
      using 1(2) by (simp add: chunk_count_less_iff)
    with False show ?thesis
      by (simp add: sendViaRelay_chunks.simps)
  next
    case True
    then have lt: "chunkIndex < chunk_count f"
      using 1(2) by (simp add: chunk_count_less_iff)
    define chunk where "chunk = blob_slice (file_data f) offset (offset + CHUNK_SIZE)"
    define t1 where "t1 = t\<lparr>ot_bytesSent := ot_bytesSent t + length chunk\<rparr>"
    define isLast where "isLast \<longleftrightarrow> fileIndex = length files - 1 \<and> offset + CHUNK_SIZE \<ge> file_size f"
    define s1 where "s1 = s\<lparr>wsManager := sendRelayChunk (ot_peerId t) (ot_id t) fileIndex chunkIndex chunk isLast
                                   (wsManager s)\<rparr>"
    define s2 where "s2 = dispatchEvent (Progress ''send-progress'' (ot_id t1) (ot_bytesSent t1) (ot_totalBytes t1)) s1"
    have step: "sendViaRelay_chunks files f fileIndex offset chunkIndex (t, s) =
        sendViaRelay_chunks files f fileIndex (offset + CHUNK_SIZE) (chunkIndex + 1) (t1, s2)"
      using True unfolding chunk_def t1_def isLast_def s1_def s2_def
      by (subst sendViaRelay_chunks.simps) (simp add: Let_def)
    note ih = 1(1) [OF True chunk_def isLast_def s1_def t1_def s2_def]
    have ih': "ot_id (fst (sendViaRelay_chunks files f fileIndex (offset + CHUNK_SIZE) (chunkIndex + 1) (t1, s2))) = ot_id t1 \<and>
     ot_peerId (fst (sendViaRelay_chunks files f fileIndex (offset + CHUNK_SIZE) (chunkIndex + 1) (t1, s2))) = ot_peerId t1 \<and>
     outgoingTransfers (snd (sendViaRelay_chunks files f fileIndex (offset + CHUNK_SIZE) (chunkIndex + 1) (t1, s2))) = outgoingTransfers s2 \<and>
     incomingTransfers (snd (sendViaRelay_chunks files f fileIndex (offset + CHUNK_SIZE) (chunkIndex + 1) (t1, s2))) = incomingTransfers s2 \<and>
     channel_sent (snd (sendViaRelay_chunks files f fileIndex (offset + CHUNK_SIZE) (chunkIndex + 1) (t1, s2))) = channel_sent s2 \<and>
     downloads (snd (sendViaRelay_chunks files f fileIndex (offset + CHUNK_SIZE) (chunkIndex + 1) (t1, s2))) = downloads s2 \<and>
     isConnected (wsManager (snd (sendViaRelay_chunks files f fileIndex (offset + CHUNK_SIZE) (chunkIndex + 1) (t1, s2)))) =
       isConnected (wsManager s2) \<and>
     ws (wsManager (snd (sendViaRelay_chunks files f fileIndex (offset + CHUNK_SIZE) (chunkIndex + 1) (t1, s2)))) = ws (wsManager s2) \<and>
     ws_handed (wsManager (snd (sendViaRelay_chunks files f fileIndex (offset + CHUNK_SIZE) (chunkIndex + 1) (t1, s2)))) =
       ws_handed (wsManager s2) @
         map (relay_envelope (ot_peerId t1) (ot_id t1) files fileIndex) [chunkIndex + 1..<chunk_count f]"
      by (rule ih) (simp_all add: 1(2) 1(3))
    have last_eq: "isLast \<longleftrightarrow> (fileIndex = length files - 1 \<and> Suc chunkIndex = chunk_count (files ! fileIndex))"
    proof -
      have "file_size f \<le> offset + CHUNK_SIZE \<longleftrightarrow> \<not> Suc chunkIndex < chunk_count f"
        using 1(2) by (simp add: chunk_count_less_iff not_less add.commute)
      with lt show ?thesis using 1(3) by (auto simp: isLast_def)
    qed
    have env: "ws_handed (wsManager s2) =
        ws_handed (wsManager s) @ [relay_envelope (ot_peerId t) (ot_id t) files fileIndex chunkIndex]"
      using last_eq
      by (simp add: s2_def s1_def chunk_def sendRelayChunk_def ws_handed_ws_send relay_envelope_def
          chunk_at_def 1(2) 1(3))
    have proj: "ot_id t1 = ot_id t" "ot_peerId t1 = ot_peerId t"
      "outgoingTransfers s2 = outgoingTransfers s" "incomingTransfers s2 = incomingTransfers s"
      "channel_sent s2 = channel_sent s" "downloads s2 = downloads s"
      "isConnected (wsManager s2) = isConnected (wsManager s)" "ws (wsManager s2) = ws (wsManager s)"
      by (simp_all add: t1_def s2_def s1_def sendRelayChunk_def)
    have upt: "[chunkIndex..<chunk_count f] = chunkIndex # [chunkIndex + 1..<chunk_count f]"
      using lt by (simp add: upt_conv_Cons)
    show ?thesis
      unfolding step upt using ih' by (simp add: env proj)
  qed
qed


lemma sendViaRelay_files_effect:
  "ot_id (fst (sendViaRelay_files files fi (t, s))) = ot_id t \<and>
   ot_peerId (fst (sendViaRelay_files files fi (t, s))) = ot_peerId t \<and>
   outgoingTransfers (snd (sendViaRelay_files files fi (t, s))) = outgoingTransfers s \<and>
   incomingTransfers (snd (sendViaRelay_files files fi (t, s))) = incomingTransfers s \<and>
   channel_sent (snd (sendViaRelay_files files fi (t, s))) = channel_sent s \<and>
   downloads (snd (sendViaRelay_files files fi (t, s))) = downloads s \<and>
   isConnected (wsManager (snd (sendViaRelay_files files fi (t, s)))) = isConnected (wsManager s) \<and>
   ws (wsManager (snd (sendViaRelay_files files fi (t, s)))) = ws (wsManager s) \<and>
   ws_handed (wsManager (snd (sendViaRelay_files files fi (t, s)))) =
     ws_handed (wsManager s) @
       concat (map (\<lambda>i. map (relay_envelope (ot_peerId t) (ot_id t) files i) [0..<chunk_count (files ! i)])
                 [fi..<length files])"
proof (induction files fi "(t, s)" arbitrary: t s rule: sendViaRelay_files.induct)
  case (1 files fileIndex t s)
  show ?case
  proof (cases "fileIndex < length files")
    case False
    then show ?thesis by (simp add: sendViaRelay_files.simps)
  next
    case True
    define f where "f = files ! fileIndex"
    define t1 where "t1 = t\<lparr>ot_currentFileIndex := fileIndex\<rparr>"
    define r where "r = sendViaRelay_chunks files f fileIndex 0 0 (t1, s)"
    have step: "sendViaRelay_files files fileIndex (t, s) =
        sendViaRelay_files files (fileIndex + 1) (fst r, snd r)"
      using True unfolding f_def t1_def r_def
      by (subst sendViaRelay_files.simps) (simp add: Let_def)
    have c: "ot_id (fst r) = ot_id t \<and> ot_peerId (fst r) = ot_peerId t \<and>
      outgoingTransfers (snd r) = outgoingTransfers s \<and> incomingTransfers (snd r) = incomingTransfers s \<and>
      channel_sent (snd r) = channel_sent s \<and> downloads (snd r) = downloads s \<and>
      isConnected (wsManager (snd r)) = isConnected (wsManager s) \<and>
      ws (wsManager (snd r)) = ws (wsManager s) \<and>
      ws_handed (wsManager (snd r)) = ws_handed (wsManager s) @
        map (relay_envelope (ot_peerId t) (ot_id t) files fileIndex) [0..<chunk_count (files ! fileIndex)]"
      using sendViaRelay_chunks_effect [of 0 0 f files fileIndex t1 s]
      by (simp add: r_def f_def t1_def)
    have "sendViaRelay_chunks files (files ! fileIndex) fileIndex 0 0
        (t\<lparr>ot_currentFileIndex := fileIndex\<rparr>, s) = (fst r, snd r)"
      by (simp add: r_def f_def t1_def)
    note ih = 1 [OF True refl refl this]
    have upt: "[fileIndex..<length files] = fileIndex # [fileIndex + 1..<length files]"
      using True by (simp add: upt_conv_Cons)
    show ?thesis
      unfolding step upt using ih c by simp
  qed
qed

lemma sendViaRelay_effect:
  "ws_handed (wsManager (sendViaRelay t s)) =
     ws_handed (wsManager s) @ relay_envelopes (ot_peerId t) (ot_id t) (ot_files t) \<and>
   outgoingTransfers (sendViaRelay t s) = AList.delete (ot_id t) (outgoingTransfers s) \<and>
   incomingTransfers (sendViaRelay t s) = incomingTransfers s \<and>
   channel_sent (sendViaRelay t s) = channel_sent s \<and>
   downloads (sendViaRelay t s) = downloads s"
  using sendViaRelay_files_effect [of "ot_files t" 0 "t\<lparr>ot_status := ''transferring''\<rparr>" s]
  by (simp add: sendViaRelay_def Let_def split_beta relay_envelopes_def)


subsection \<open>Arrays with holes\<close>

lemma js_get_js_set: "js_get (js_set xs i v) j = (if j = i then Some v else js_get xs j)"
  by (auto simp: js_get_def js_set_def nth_append)

lemma length_js_set: "length (js_set xs i v) = max (length xs) (Suc i)"
  by (auto simp: js_set_def)

lemma tight_js_set: "tight xs \<Longrightarrow> tight (js_set xs i v)"
proof (cases "i < length xs")
  case False
  then show ?thesis by (simp add: tight_def js_set_def)
next
  case True
  assume "tight xs"
  with True have "last xs \<noteq> None" "xs \<noteq> []" by (auto simp: tight_def)
  then have "last (xs[i := Some v]) \<noteq> None"
    by (cases "i = length xs - 1") (simp_all add: last_list_update)
  with True show ?thesis by (simp add: tight_def js_set_def)
qed

lemma tight_Nil [simp]: "tight []"
  by (simp add: tight_def)

lemma tight_eq_map:
  assumes t: "tight xs"
    and some: "\<And>i. i < n \<Longrightarrow> js_get xs i = Some (g i)"
    and none: "\<And>i. n \<le> i \<Longrightarrow> js_get xs i = None"
  shows "xs = map (\<lambda>i. Some (g i)) [0..<n]"
proof -
  have len: "length xs = n"
  proof (rule antisym)
    show "length xs \<le> n"
    proof (rule ccontr)
      assume "\<not> length xs \<le> n"
      then have n: "n \<le> length xs - 1" "length xs - 1 < length xs" "xs \<noteq> []" by auto
      from none [OF n(1)] n(2) have "xs ! (length xs - 1) = None" by (simp add: js_get_def)
      then have "last xs = None" using n(3) by (simp add: last_conv_nth)
      with t n(3) show False by (simp add: tight_def)
    qed
  next
    show "n \<le> length xs"
    proof (rule ccontr)
      assume "\<not> n \<le> length xs"
      then have "length xs < n" by simp
      from some [OF this] show False by (simp add: js_get_def)
    qed
  qed
  show ?thesis
  proof (rule nth_equalityI)
    show "length xs = length (map (\<lambda>i. Some (g i)) [0..<n])" by (simp add: len)
  next
    fix i assume "i < length xs"
    then have "i < n" by (simp add: len)
    from some [OF this] \<open>i < n\<close> show "xs ! i = map (\<lambda>i. Some (g i)) [0..<n] ! i"
      by (simp add: js_get_def len)
  qed
qed

lemma Blob_map_Some: "Blob (map (\<lambda>i. Some (g i)) is) = concat (map g is)"
  by (simp add: Blob_def comp_def)


lemma list_all_js_set:
  "list_all P xs \<Longrightarrow> P None \<Longrightarrow> P (Some v) \<Longrightarrow> list_all P (js_set xs i v)"
  by (auto simp: js_set_def list_all_iff dest!: set_update_subset_insert [THEN subsetD])

lemma js_get_Nil [simp]: "js_get [] i = None"
  by (simp add: js_get_def)

lemma update_keys_present:
  "map_of al k = Some v \<Longrightarrow> map fst (AList.update k v' al) = map fst al"
  by (induction al) (auto split: if_splits)

subsection \<open>One relay chunk on the receiving side\<close>

lemma handleRelayChunk_not_last:
  assumes "map_of (incomingTransfers s) tid = Some t"
  shows "\<exists>t'. map_of (incomingTransfers (handleRelayChunk p tid fi ci d False s)) tid = Some t' \<and>
     it_id t' = it_id t \<and> it_files t' = it_files t \<and> it_fileChunks t' \<noteq> None \<and>
     it_status t' = ''transferring'' \<and>
     (\<forall>fi' ci'. fc_get t' fi' ci' = (if fi' = fi \<and> ci' = ci then Some d else fc_get t fi' ci')) \<and>
     (tight_chunks t \<longrightarrow> tight_chunks t')"
    and "map fst (incomingTransfers (handleRelayChunk p tid fi ci d False s)) = map fst (incomingTransfers s)"
    and "downloads (handleRelayChunk p tid fi ci d False s) = downloads s"
    and "channel_sent (handleRelayChunk p tid fi ci d False s) = channel_sent s"
    and "wsManager (handleRelayChunk p tid fi ci d False s) = wsManager s"
    and "uncaught (handleRelayChunk p tid fi ci d False s) = uncaught s"
    and "events (handleRelayChunk p tid fi ci d False s) =
           events s @ [Progress ''receive-progress'' (it_id t) (it_bytesReceived t + length d) (it_totalSize t)]"
proof -
  define fc0 where "fc0 = (case it_fileChunks t of None \<Rightarrow> [] | Some fc \<Rightarrow> fc)"
  define inner where "inner = (case js_get fc0 fi of None \<Rightarrow> [] | Some chunks \<Rightarrow> chunks)"
  define t' where "t' = t\<lparr>it_fileChunks := Some (js_set fc0 fi (js_set inner ci d)),
                            it_bytesReceived := it_bytesReceived t + length d,
                            it_status := ''transferring''\<rparr>"
  have h: "handleRelayChunk p tid fi ci d False s =
      dispatchEvent (Progress ''receive-progress'' (it_id t') (it_bytesReceived t') (it_totalSize t'))
        (s\<lparr>incomingTransfers := AList.update tid t' (incomingTransfers s)\<rparr>)"
    using assms by (simp add: handleRelayChunk_def Let_def fc0_def inner_def t'_def)
  have inner_get: "js_get inner ci' = fc_get t fi ci'" for ci'
    by (simp add: inner_def fc0_def fc_get_def split: option.splits)
  have other: "fi' \<noteq> fi \<Longrightarrow> (case js_get fc0 fi' of None \<Rightarrow> None | Some i \<Rightarrow> js_get i ci') = fc_get t fi' ci'"
    for fi' ci'
    by (simp add: fc0_def fc_get_def split: option.splits)
  have get: "fc_get t' fi' ci' = (if fi' = fi \<and> ci' = ci then Some d else fc_get t fi' ci')" for fi' ci'
  proof -
    have t'get: "fc_get t' a b =
        (case js_get (js_set fc0 fi (js_set inner ci d)) a of None \<Rightarrow> None | Some i \<Rightarrow> js_get i b)"
      for a b
      by (simp add: t'_def fc_get_def)
    show ?thesis
    proof (cases "fi' = fi")
      case True
      then show ?thesis by (simp add: t'get js_get_js_set inner_get)
    next
      case False
      then show ?thesis by (simp add: t'get js_get_js_set other)
    qed
  qed
  have tight: "tight_chunks t'" if "tight_chunks t"
  proof -
    have a: "list_all (\<lambda>e. case e of None \<Rightarrow> True | Some inner \<Rightarrow> tight inner) fc0"
      using that by (simp add: tight_chunks_def fc0_def split: option.splits)
    then have "tight inner"
      by (auto simp: inner_def js_get_def list_all_iff split: option.splits if_splits dest: nth_mem)
    then have "tight (js_set inner ci d)" by (rule tight_js_set)
    with a show ?thesis
      by (simp add: tight_chunks_def t'_def list_all_js_set)
  qed
  show "\<exists>t'. map_of (incomingTransfers (handleRelayChunk p tid fi ci d False s)) tid = Some t' \<and>
     it_id t' = it_id t \<and> it_files t' = it_files t \<and> it_fileChunks t' \<noteq> None \<and>
     it_status t' = ''transferring'' \<and>
     (\<forall>fi' ci'. fc_get t' fi' ci' = (if fi' = fi \<and> ci' = ci then Some d else fc_get t fi' ci')) \<and>
     (tight_chunks t \<longrightarrow> tight_chunks t')"
    using get tight by (intro exI [of _ t']) (simp add: h update_conv', simp add: t'_def)
  show "map fst (incomingTransfers (handleRelayChunk p tid fi ci d False s)) = map fst (incomingTransfers s)"
    using assms by (simp add: h update_keys_present)
  show "downloads (handleRelayChunk p tid fi ci d False s) = downloads s"
    "channel_sent (handleRelayChunk p tid fi ci d False s) = channel_sent s"
    "wsManager (handleRelayChunk p tid fi ci d False s) = wsManager s"
    "uncaught (handleRelayChunk p tid fi ci d False s) = uncaught s"
    "events (handleRelayChunk p tid fi ci d False s) =
           events s @ [Progress ''receive-progress'' (it_id t) (it_bytesReceived t + length d) (it_totalSize t)]"
    by (simp_all add: h t'_def)
qed

subsection \<open>The relay path: what the receiver does with chunks that are not last\<close>

lemma receive_relay_snoc: "receive_relay p (ms @ [m]) s = on_relay_chunk p m (receive_relay p ms s)"
  by (simp add: receive_relay_def)

lemma receive_relay_Nil [simp]: "receive_relay p [] s = s"
  by (simp add: receive_relay_def)

text \<open>
  Envelopes of one transfer that are not flagged last, each carrying for its
  file index and chunk index the chunk \<open>D\<close> gives.
\<close>

lemma receive_relay_not_last:
  assumes env: "\<And>m. m \<in> set ms \<Longrightarrow> msg_type m = ''relay-chunk'' \<and>
            (\<exists>fi ci. msg_payload m = Some (RelayChunkP tid fi ci (D fi ci) False))"
    and t: "map_of (incomingTransfers s) tid = Some t"
  shows "(\<exists>t'. map_of (incomingTransfers (receive_relay p ms s)) tid = Some t' \<and>
     it_id t' = it_id t \<and> it_files t' = it_files t \<and>
     (ms \<noteq> [] \<longrightarrow> it_status t' = ''transferring'') \<and>
     (ms = [] \<longrightarrow> t' = t) \<and>
     (\<forall>fi ci. fc_get t' fi ci =
        (if Some (fi, ci) \<in> envelope_key ` set ms then Some (D fi ci) else fc_get t fi ci)) \<and>
     (tight_chunks t \<longrightarrow> tight_chunks t')) \<and>
     map fst (incomingTransfers (receive_relay p ms s)) = map fst (incomingTransfers s) \<and>
     downloads (receive_relay p ms s) = downloads s \<and>
     channel_sent (receive_relay p ms s) = channel_sent s \<and>
     wsManager (receive_relay p ms s) = wsManager s \<and>
     uncaught (receive_relay p ms s) = uncaught s \<and>
     (\<forall>e \<in> set (events (receive_relay p ms s)). e \<in> set (events s) \<or> (\<exists>a b c. e = Progress ''receive-progress'' a b c))"
  using env
proof (induction ms rule: rev_induct)
  case Nil
  then show ?case using t by simp
next
  case (snoc m ms)
  let ?s = "receive_relay p ms s"
  from snoc obtain t1 where t1: "map_of (incomingTransfers ?s) tid = Some t1"
    "it_id t1 = it_id t" "it_files t1 = it_files t"
    "\<And>fi ci. fc_get t1 fi ci =
        (if Some (fi, ci) \<in> envelope_key ` set ms then Some (D fi ci) else fc_get t fi ci)"
    "tight_chunks t \<longrightarrow> tight_chunks t1"
    and fr: "map fst (incomingTransfers ?s) = map fst (incomingTransfers s)"
    "downloads ?s = downloads s" "channel_sent ?s = channel_sent s" "wsManager ?s = wsManager s"
    "uncaught ?s = uncaught s"
    "\<forall>e \<in> set (events ?s). e \<in> set (events s) \<or> (\<exists>a b c. e = Progress ''receive-progress'' a b c)"
    by auto
  from snoc(2) [of m] obtain fi ci where m: "msg_type m = ''relay-chunk''"
    "msg_payload m = Some (RelayChunkP tid fi ci (D fi ci) False)"
    by auto
  have step: "receive_relay p (ms @ [m]) s = handleRelayChunk p tid fi ci (D fi ci) False ?s"
    by (simp add: receive_relay_snoc on_relay_chunk_def m)
  have key: "envelope_key m = Some (fi, ci)"
    by (simp add: envelope_key_def m)
  note hr = handleRelayChunk_not_last [OF t1(1), of p fi ci "D fi ci"]
  from hr(1) obtain t' where t': "map_of (incomingTransfers (receive_relay p (ms @ [m]) s)) tid = Some t'"
    "it_id t' = it_id t1" "it_files t' = it_files t1" "it_status t' = ''transferring''"
    "\<And>fi' ci'. fc_get t' fi' ci' = (if fi' = fi \<and> ci' = ci then Some (D fi ci) else fc_get t1 fi' ci')"
    "tight_chunks t1 \<longrightarrow> tight_chunks t'"
    unfolding step by auto
  have get: "fc_get t' fi' ci' =
        (if Some (fi', ci') \<in> envelope_key ` set (ms @ [m]) then Some (D fi' ci') else fc_get t fi' ci')"
    for fi' ci'
    by (auto simp: t'(5) t1(4) key)
  have ev: "\<forall>e \<in> set (events (receive_relay p (ms @ [m]) s)).
      e \<in> set (events s) \<or> (\<exists>a b c. e = Progress ''receive-progress'' a b c)"
    using fr(6) unfolding step hr(7) by auto
  show ?case
    apply (intro conjI)
          apply (rule exI [of _ t'])
          apply (use t' t1 get in simp)
    using fr ev unfolding step hr by simp_all
qed


lemma in_relay_envelopes:
  "m \<in> set (relay_envelopes peer tid files) \<longleftrightarrow>
     (\<exists>fi < length files. \<exists>ci < chunk_count (files ! fi). m = relay_envelope peer tid files fi ci)"
proof
  assume "m \<in> set (relay_envelopes peer tid files)"
  then obtain fi where "fi \<in> set [0..<length files]"
    and "m \<in> set (map (relay_envelope peer tid files fi) [0..<chunk_count (files ! fi)])"
    unfolding relay_envelopes_def set_concat by auto
  then obtain ci where "fi < length files" "ci < chunk_count (files ! fi)"
    "m = relay_envelope peer tid files fi ci"
    by auto
  then show "\<exists>fi < length files. \<exists>ci < chunk_count (files ! fi). m = relay_envelope peer tid files fi ci"
    by blast
next
  assume "\<exists>fi < length files. \<exists>ci < chunk_count (files ! fi). m = relay_envelope peer tid files fi ci"
  then obtain fi ci where "fi < length files" "ci < chunk_count (files ! fi)"
    "m = relay_envelope peer tid files fi ci"
    by blast
  then have "fi \<in> set [0..<length files]"
    "m \<in> set (map (relay_envelope peer tid files fi) [0..<chunk_count (files ! fi)])"
    by simp_all
  then show "m \<in> set (relay_envelopes peer tid files)"
    unfolding relay_envelopes_def set_concat by (simp del: set_upt) blast
qed

lemma chunk_count_empty: "file_size f = 0 \<Longrightarrow> chunk_count f = 0"
  using chunk_count_less_iff [of 0 f] by simp

text \<open>
  Claim C10. A relay-path send of a transfer whose last file is empty hands to
  the signaling channel exactly the envelopes \<open>relay_envelopes\<close>: none of them is
  for the last file and none carries \<open>isLast = true\<close> (the flag is computed inside
  the chunk loop of the last file, which does not run). A receiver that holds the
  transfer, not yet completed, and processes any of these envelopes, in any
  order and any number of times, saves nothing, still holds the transfer with a
  status other than \<open>completed\<close>, and raises no \<open>receive-complete\<close>.
\<close>

theorem C10_empty_last_file:
  assumes files: "ot_files t \<noteq> []" and empty: "file_size (last (ot_files t)) = 0"
    and rec: "map_of (incomingTransfers r) (ot_id t) = Some it"
    and st: "it_status it \<noteq> ''completed''"
  shows "ws_handed (wsManager (sendViaRelay t s)) =
           ws_handed (wsManager s) @ relay_envelopes (ot_peerId t) (ot_id t) (ot_files t) \<and>
         (\<forall>m \<in> set (relay_envelopes (ot_peerId t) (ot_id t) (ot_files t)).
            \<not> is_last_envelope m \<and>
            (\<forall>ci. envelope_key m \<noteq> Some (length (ot_files t) - 1, ci))) \<and>
         (\<forall>ms. set ms \<subseteq> set (relay_envelopes (ot_peerId t) (ot_id t) (ot_files t)) \<longrightarrow>
            downloads (receive_relay p ms r) = downloads r \<and>
            (\<exists>it'. map_of (incomingTransfers (receive_relay p ms r)) (ot_id t) = Some it' \<and>
                   it_status it' \<noteq> ''completed'') \<and>
            (Ev ''receive-complete'' (ot_id t) \<in> set (events (receive_relay p ms r)) \<longrightarrow>
               Ev ''receive-complete'' (ot_id t) \<in> set (events r)))"
proof -
  let ?files = "ot_files t"
  let ?envs = "relay_envelopes (ot_peerId t) (ot_id t) ?files"
  have not_last: "msg_type m = ''relay-chunk'' \<and>
      (\<exists>fi ci. fi \<noteq> length ?files - 1 \<and>
         msg_payload m = Some (RelayChunkP (ot_id t) fi ci (chunk_at (?files ! fi) ci) False))"
    if "m \<in> set ?envs" for m
  proof -
    from that obtain fi ci where fi: "fi < length ?files" and ci: "ci < chunk_count (?files ! fi)"
      and m: "m = relay_envelope (ot_peerId t) (ot_id t) ?files fi ci"
      by (auto simp: in_relay_envelopes)
    have "fi \<noteq> length ?files - 1"
    proof
      assume "fi = length ?files - 1"
      then have "?files ! fi = last ?files" using files by (simp add: last_conv_nth)
      with ci chunk_count_empty [OF empty] show False by simp
    qed
    then show ?thesis by (auto simp: m relay_envelope_def)
  qed
  have a: "\<forall>m \<in> set ?envs. \<not> is_last_envelope m \<and>
            (\<forall>ci. envelope_key m \<noteq> Some (length ?files - 1, ci))"
  proof
    fix m assume "m \<in> set ?envs"
    from not_last [OF this] show "\<not> is_last_envelope m \<and>
            (\<forall>ci. envelope_key m \<noteq> Some (length ?files - 1, ci))"
      by (auto simp: is_last_envelope_def envelope_key_def)
  qed
  have b: "downloads (receive_relay p ms r) = downloads r \<and>
            (\<exists>it'. map_of (incomingTransfers (receive_relay p ms r)) (ot_id t) = Some it' \<and>
                   it_status it' \<noteq> ''completed'') \<and>
            (Ev ''receive-complete'' (ot_id t) \<in> set (events (receive_relay p ms r)) \<longrightarrow>
               Ev ''receive-complete'' (ot_id t) \<in> set (events r))"
    if "set ms \<subseteq> set ?envs" for ms
  proof -
    have "\<And>m. m \<in> set ms \<Longrightarrow> msg_type m = ''relay-chunk'' \<and>
      (\<exists>fi ci. msg_payload m = Some (RelayChunkP (ot_id t) fi ci (chunk_at (?files ! fi) ci) False))"
      using that not_last by blast
    from receive_relay_not_last [of ms "ot_id t" "\<lambda>fi ci. chunk_at (?files ! fi) ci" r it p, OF this rec]
    show ?thesis using st by (cases "ms = []") auto
  qed
  have c: "ws_handed (wsManager (sendViaRelay t s)) = ws_handed (wsManager s) @ ?envs"
    using sendViaRelay_effect [of t s] by simp
  show ?thesis
    by (intro conjI allI impI a b c) 
qed


lemma example_receiver_entry:
  "map_of (incomingTransfers (example_receiver files)) ''t1'' =
     Some \<lparr>it_id = ''t1'', it_peerId = ''peerA'', it_files = map file_info files,
           it_totalSize = sum_list (map file_size files), it_receivedFiles = [], it_currentFileData = [],
           it_currentFileIndex = 0, it_bytesReceived = 0, it_status = ''accepted'',
           it_currentFileMetadata = None, it_fileChunks = None\<rparr>"
  "downloads (example_receiver files) = []"
  "events (example_receiver files) = [Ev ''receive-request'' ''t1'', Ev ''receive-accepted'' ''t1'']"
  "incomingTransfers (example_receiver files) =
     [(''t1'', \<lparr>it_id = ''t1'', it_peerId = ''peerA'', it_files = map file_info files,
           it_totalSize = sum_list (map file_size files), it_receivedFiles = [], it_currentFileData = [],
           it_currentFileIndex = 0, it_bytesReceived = 0, it_status = ''accepted'',
           it_currentFileMetadata = None, it_fileChunks = None\<rparr>)]"
  by (simp_all add: example_receiver_def acceptTransfer_def handleTransferRequest_def ftm0_def
      dispatchEvent_def Let_def)

lemma chunk_count_small [simp]:
  "chunk_count small_file = 1" "chunk_count other_file = 1" "chunk_count empty_file = 0"
  "chunk_at small_file 0 = [1, 2, 3]" "chunk_at other_file 0 = [4, 5]"
  by (simp_all add: chunk_count_def chunk_at_def ceil_div_def file_size_def small_file_def
      other_file_def empty_file_def CHUNK_SIZE_def blob_slice_def)

lemma ws_handed_ftm0 [simp]: "ws_handed (wsManager ftm0) = []"
  by (simp add: ftm0_def ws_handed_def ws_onopen_def WebSocketManager_new_def)

theorem C10_empty_last_file_witness:
  "ot_files (example_transfer [small_file, empty_file]) \<noteq> [] \<and>
   file_size (last (ot_files (example_transfer [small_file, empty_file]))) = 0 \<and>
   (\<exists>it. map_of (incomingTransfers (example_receiver [small_file, empty_file]))
            (ot_id (example_transfer [small_file, empty_file])) = Some it \<and>
         it_status it \<noteq> ''completed'') \<and>
   ws_handed (wsManager (sendViaRelay (example_transfer [small_file, empty_file]) ftm0)) =
     [\<lparr>msg_type = ''relay-chunk'', msg_payload = Some (RelayChunkP ''t1'' 0 0 [1, 2, 3] False),
       msg_targetId = Some ''peerB''\<rparr>] \<and>
   downloads (receive_relay ''peerA''
       (ws_handed (wsManager (sendViaRelay (example_transfer [small_file, empty_file]) ftm0)))
       (example_receiver [small_file, empty_file])) = [] \<and>
   (\<exists>it'. map_of (incomingTransfers (receive_relay ''peerA''
       (ws_handed (wsManager (sendViaRelay (example_transfer [small_file, empty_file]) ftm0)))
       (example_receiver [small_file, empty_file]))) ''t1'' = Some it' \<and> it_status it' \<noteq> ''completed'') \<and>
   Ev ''receive-complete'' ''t1'' \<notin> set (events (receive_relay ''peerA''
       (ws_handed (wsManager (sendViaRelay (example_transfer [small_file, empty_file]) ftm0)))
       (example_receiver [small_file, empty_file])))"
proof -
  let ?T = "example_transfer [small_file, empty_file]"
  let ?R = "example_receiver [small_file, empty_file]"
  have a: "ot_files ?T \<noteq> []" "file_size (last (ot_files ?T)) = 0"
    by (simp_all add: example_transfer_def file_size_def empty_file_def)
  obtain it where it: "map_of (incomingTransfers ?R) (ot_id ?T) = Some it" "it_status it \<noteq> ''completed''"
    by (simp add: example_receiver_entry example_transfer_def)
  have envs: "relay_envelopes (ot_peerId ?T) (ot_id ?T) (ot_files ?T) =
     [\<lparr>msg_type = ''relay-chunk'', msg_payload = Some (RelayChunkP ''t1'' 0 0 [1, 2, 3] False),
       msg_targetId = Some ''peerB''\<rparr>]"
    by (simp add: relay_envelopes_def relay_envelope_def example_transfer_def upt_rec)
  note c = C10_empty_last_file [OF a it, of ftm0 "''peerA''"]
  from c have h: "ws_handed (wsManager (sendViaRelay ?T ftm0)) =
     [\<lparr>msg_type = ''relay-chunk'', msg_payload = Some (RelayChunkP ''t1'' 0 0 [1, 2, 3] False),
       msg_targetId = Some ''peerB''\<rparr>]"
    by (simp add: envs)
  from c have "\<forall>ms. set ms \<subseteq> set (relay_envelopes (ot_peerId ?T) (ot_id ?T) (ot_files ?T)) \<longrightarrow>
            downloads (receive_relay ''peerA'' ms ?R) = downloads ?R \<and>
            (\<exists>it'. map_of (incomingTransfers (receive_relay ''peerA'' ms ?R)) (ot_id ?T) = Some it' \<and>
                   it_status it' \<noteq> ''completed'') \<and>
            (Ev ''receive-complete'' (ot_id ?T) \<in> set (events (receive_relay ''peerA'' ms ?R)) \<longrightarrow>
               Ev ''receive-complete'' (ot_id ?T) \<in> set (events ?R))"
    by blast
  from this [rule_format, of "ws_handed (wsManager (sendViaRelay ?T ftm0))"]
  have "downloads (receive_relay ''peerA'' (ws_handed (wsManager (sendViaRelay ?T ftm0))) ?R) = []"
    "\<exists>it'. map_of (incomingTransfers (receive_relay ''peerA''
        (ws_handed (wsManager (sendViaRelay ?T ftm0))) ?R)) ''t1'' = Some it' \<and> it_status it' \<noteq> ''completed''"
    "Ev ''receive-complete'' ''t1'' \<notin> set (events (receive_relay ''peerA''
        (ws_handed (wsManager (sendViaRelay ?T ftm0))) ?R))"
    unfolding h envs by (simp_all add: example_receiver_entry example_transfer_def)
  with a it h show ?thesis by blast
qed

subsection \<open>Chunks of a file\<close>

lemma concat_take_drop:
  "concat (map (\<lambda>i. take c (drop (i * c) xs)) [0..<k]) = take (k * c) xs"
proof (induction k)
  case 0
  show ?case by simp
next
  case (Suc k)
  have "Suc k * c = k * c + c" by simp
  then have "take (Suc k * c) xs = take (k * c) xs @ take c (drop (k * c) xs)"
    by (simp only: take_add)
  with Suc show ?case by simp
qed

lemma concat_chunks: "concat (map (chunk_at f) [0..<chunk_count f]) = file_data f"
proof -
  have "\<not> chunk_count f * CHUNK_SIZE < file_size f"
    using chunk_count_less_iff [of "chunk_count f" f] by simp
  then have "take (chunk_count f * CHUNK_SIZE) (file_data f) = file_data f"
    by (simp add: file_size_def)
  moreover have "chunk_at f = (\<lambda>i. take CHUNK_SIZE (drop (i * CHUNK_SIZE) (file_data f)))"
    by (simp add: chunk_at_def blob_slice_def fun_eq_iff)
  ultimately show ?thesis
    by (simp add: concat_take_drop)
qed

lemma length_chunk_at:
  "length (chunk_at f i) = min CHUNK_SIZE (file_size f - i * CHUNK_SIZE)"
  by (simp add: chunk_at_def blob_slice_def file_size_def min.commute)

lemma chunk_count_pos: "0 < file_size f \<Longrightarrow> 0 < chunk_count f"
  using chunk_count_less_iff [of 0 f] by simp

lemma relay_envelopes_last:
  assumes "files \<noteq> []" and "0 < file_size (last files)"
  shows "relay_envelopes peer tid files =
     (concat (map (\<lambda>fi. map (relay_envelope peer tid files fi) [0..<chunk_count (files ! fi)])
               [0..<length files - 1]) @
      map (relay_envelope peer tid files (length files - 1)) [0..<chunk_count (last files) - 1]) @
     [relay_envelope peer tid files (length files - 1) (chunk_count (last files) - 1)]"
proof -
  obtain n where n: "length files = Suc n" using assms(1) by (cases files) auto
  obtain c where c: "chunk_count (last files) = Suc c"
    using chunk_count_pos [OF assms(2)] by (cases "chunk_count (last files)") auto
  have l: "files ! n = last files" using n assms(1) by (simp add: last_conv_nth)
  show ?thesis
    by (simp add: relay_envelopes_def n c l)
qed

lemma relay_envelope_key [simp]:
  "envelope_key (relay_envelope peer tid files fi ci) = Some (fi, ci)"
  by (simp add: envelope_key_def relay_envelope_def)

lemma relay_envelope_inj:
  "relay_envelope peer tid files fi ci = relay_envelope peer tid files fi' ci' \<Longrightarrow> fi = fi' \<and> ci = ci'"
  by (simp add: relay_envelope_def)


subsection \<open>The chunk flagged last\<close>

lemma handleRelayChunk_last:
  assumes "map_of (incomingTransfers s) tid = Some t"
    and "map_of (incomingTransfers (handleRelayChunk p tid fi ci d False s)) tid = Some t'"
  shows "handleRelayChunk p tid fi ci d True s =
           saveAllRelayedFiles tid t' (handleRelayChunk p tid fi ci d False s)"
  using assms by (simp add: handleRelayChunk_def Let_def update_conv')

lemma saveAllRelayedFiles_effect:
  assumes "it_fileChunks t = Some fc" and "it_id t = tid"
  shows "downloads (saveAllRelayedFiles k t s) =
           downloads s @ map (\<lambda>i. (Blob (case js_get fc i of None \<Rightarrow> [] | Some c \<Rightarrow> c),
                                     fi_name (it_files t ! i))) [0..<length (it_files t)]"
    and "map_of (incomingTransfers (saveAllRelayedFiles k t s)) tid = None"
    and "events (saveAllRelayedFiles k t s) = events s @ [Ev ''receive-complete'' tid]"
    and "uncaught (saveAllRelayedFiles k t s) = uncaught s"
  using assms by (simp_all add: saveAllRelayedFiles_def Let_def)

lemma on_relay_chunk_gone:
  "map_of (incomingTransfers s) tid = None \<Longrightarrow>
   msg_payload m = Some (RelayChunkP tid fi ci d l) \<Longrightarrow> on_relay_chunk p m s = s"
  by (simp add: on_relay_chunk_def handleRelayChunk_def)

lemma assembled_file:
  assumes tc: "tight_chunks t" and fc: "it_fileChunks t = Some fc"
    and get: "\<And>ci. fc_get t i ci = (if ci < chunk_count f then Some (chunk_at f ci) else None)"
  shows "Blob (case js_get fc i of None \<Rightarrow> [] | Some c \<Rightarrow> c) = file_data f"
proof -
  define inner where "inner = (case js_get fc i of None \<Rightarrow> [] | Some c \<Rightarrow> c)"
  have "list_all (\<lambda>e. case e of None \<Rightarrow> True | Some inner \<Rightarrow> tight inner) fc"
    using tc fc by (simp add: tight_chunks_def)
  then have t: "tight inner"
    by (auto simp: inner_def js_get_def list_all_iff split: option.splits if_splits dest: nth_mem)
  have g: "js_get inner ci = fc_get t i ci" for ci
    by (simp add: inner_def fc_get_def fc split: option.splits)
  have "inner = map (\<lambda>ci. Some (chunk_at f ci)) [0..<chunk_count f]"
    by (rule tight_eq_map [OF t]) (simp_all add: g get)
  then show ?thesis
    unfolding inner_def [symmetric] by (simp add: Blob_map_Some concat_chunks)
qed


lemma envelope_keys:
  "Some (fi, ci) \<in> envelope_key ` set (relay_envelopes peer tid files) \<longleftrightarrow>
     fi < length files \<and> ci < chunk_count (files ! fi)"
proof
  assume "Some (fi, ci) \<in> envelope_key ` set (relay_envelopes peer tid files)"
  then obtain m where "m \<in> set (relay_envelopes peer tid files)" "envelope_key m = Some (fi, ci)"
    by force
  then show "fi < length files \<and> ci < chunk_count (files ! fi)"
    by (auto simp: in_relay_envelopes)
next
  assume "fi < length files \<and> ci < chunk_count (files ! fi)"
  then have "relay_envelope peer tid files fi ci \<in> set (relay_envelopes peer tid files)"
    unfolding in_relay_envelopes by blast
  then show "Some (fi, ci) \<in> envelope_key ` set (relay_envelopes peer tid files)"
    by (metis image_eqI relay_envelope_key)
qed

lemma map_nth_files:
  "map (\<lambda>i. (file_data (files ! i), fi_name (map file_info files ! i))) [0..<length files] =
   map (\<lambda>f. (file_data f, file_name f)) files"
  by (rule nth_equalityI) (simp_all add: file_info_def)

text \<open>
  Claim C3 (relay-path reassembly), in the form that holds. A receiver holds an
  accepted transfer of the files, with no chunk stored yet, and the last file is not
  empty. The envelopes the sender emits are \<open>relay_envelopes peer tid files\<close>; the
  last of them, and no other, carries \<open>isLast\<close>. Let every other envelope arrive, in
  any order and any number of times, and the \<open>isLast\<close> envelope after them. Then the
  receiver saves every file, in file order, with exactly the sender's bytes and name,
  releases the transfer and announces completion. Envelopes without \<open>isLast\<close> never
  save anything and never release the transfer, whatever their number and order; and
  once the \<open>isLast\<close> envelope has been processed every envelope of the transfer is
  ignored, so that completion is triggered by that envelope and by nothing else.
\<close>

theorem C3_relay_reassembly:
  assumes files: "files \<noteq> []" and nonempty: "0 < file_size (last files)"
    and rec: "map_of (incomingTransfers r) tid = Some it"
    and id: "it_id it = tid"
    and infos: "it_files it = map file_info files"
    and fresh: "it_fileChunks it = None"
    and arrive: "set pre = set (butlast (relay_envelopes peer tid files))"
  shows "is_last_envelope (last (relay_envelopes peer tid files)) \<and>
     (\<forall>m \<in> set (butlast (relay_envelopes peer tid files)). \<not> is_last_envelope m) \<and>
     downloads (receive_relay p (pre @ [last (relay_envelopes peer tid files)]) r) =
       downloads r @ map (\<lambda>f. (file_data f, file_name f)) files \<and>
     map_of (incomingTransfers (receive_relay p (pre @ [last (relay_envelopes peer tid files)]) r)) tid = None \<and>
     last (events (receive_relay p (pre @ [last (relay_envelopes peer tid files)]) r)) =
       Ev ''receive-complete'' tid \<and>
     (\<forall>ms. set ms \<subseteq> set (butlast (relay_envelopes peer tid files)) \<longrightarrow>
        downloads (receive_relay p ms r) = downloads r \<and>
        map_of (incomingTransfers (receive_relay p ms r)) tid \<noteq> None) \<and>
     (\<forall>m \<in> set (relay_envelopes peer tid files).
        on_relay_chunk p m (receive_relay p (pre @ [last (relay_envelopes peer tid files)]) r) =
        receive_relay p (pre @ [last (relay_envelopes peer tid files)]) r)"
proof -
  let ?envs = "relay_envelopes peer tid files"
  let ?D = "\<lambda>fi ci. chunk_at (files ! fi) ci"
  define n where "n = length files - 1"
  define c where "c = chunk_count (last files) - 1"
  define X where "X = concat (map (\<lambda>fi. map (relay_envelope peer tid files fi) [0..<chunk_count (files ! fi)])
               [0..<n]) @ map (relay_envelope peer tid files n) [0..<c]"
  define z where "z = relay_envelope peer tid files n c"
  have envs: "?envs = X @ [z]"
    using relay_envelopes_last [OF files nonempty] by (simp add: X_def z_def n_def c_def)
  have bl: "butlast ?envs = X" "last ?envs = z" by (simp_all add: envs)
  have ln: "files ! n = last files" "n < length files"
    using files by (simp_all add: n_def last_conv_nth)
  have cc: "chunk_count (files ! n) = Suc c"
    using chunk_count_pos [OF nonempty] by (simp add: c_def ln)
  have n1: "length files - 1 = n" by (simp add: n_def)
  have zp: "msg_type z = ''relay-chunk''" "msg_payload z = Some (RelayChunkP tid n c (?D n c) True)"
    unfolding z_def relay_envelope_def n1 by (simp_all add: cc)
  have zl: "is_last_envelope z"
    by (simp add: is_last_envelope_def zp)
  have inX: "msg_type m = ''relay-chunk'' \<and>
      (\<exists>fi ci. msg_payload m = Some (RelayChunkP tid fi ci (?D fi ci) False))" if "m \<in> set X" for m
  proof -
    from that consider fi ci where "fi < n" "m = relay_envelope peer tid files fi ci"
      | ci where "ci < c" "m = relay_envelope peer tid files n ci"
      unfolding X_def by auto
    then show ?thesis
    proof cases
      case 1
      then show ?thesis unfolding relay_envelope_def n1 by auto
    next
      case 2
      then show ?thesis unfolding relay_envelope_def n1 by (auto simp: cc)
    qed
  qed
  have nl: "\<forall>m \<in> set X. \<not> is_last_envelope m"
  proof
    fix m assume "m \<in> set X"
    from inX [OF this] show "\<not> is_last_envelope m" by (auto simp: is_last_envelope_def)
  qed
  have tc0: "tight_chunks it" by (simp add: tight_chunks_def fresh)
  have get0: "fc_get it fi ci = None" for fi ci by (simp add: fc_get_def fresh)
  have part: "downloads (receive_relay p ms r) = downloads r \<and>
        map_of (incomingTransfers (receive_relay p ms r)) tid \<noteq> None" if "set ms \<subseteq> set X" for ms
  proof -
    have "\<And>m. m \<in> set ms \<Longrightarrow> msg_type m = ''relay-chunk'' \<and>
      (\<exists>fi ci. msg_payload m = Some (RelayChunkP tid fi ci (?D fi ci) False))"
      using that inX by blast
    from receive_relay_not_last [of ms tid ?D r it p, OF this rec] show ?thesis by auto
  qed
  let ?s1 = "receive_relay p pre r"
  have "\<And>m. m \<in> set pre \<Longrightarrow> msg_type m = ''relay-chunk'' \<and>
      (\<exists>fi ci. msg_payload m = Some (RelayChunkP tid fi ci (?D fi ci) False))"
    using arrive inX by (simp add: bl)
  note rr = receive_relay_not_last [of pre tid ?D r it p, OF this rec]
  from rr obtain t1 where t1a: "map_of (incomingTransfers ?s1) tid = Some t1"
    "it_id t1 = it_id it" "it_files t1 = it_files it"
    "\<forall>fi ci. fc_get t1 fi ci =
        (if Some (fi, ci) \<in> envelope_key ` set pre then Some (?D fi ci) else fc_get it fi ci)"
    "tight_chunks it \<longrightarrow> tight_chunks t1"
    by blast
  have d1: "downloads ?s1 = downloads r" using rr by blast
  have t1: "it_id t1 = tid" "it_files t1 = map file_info files" "tight_chunks t1"
    using t1a tc0 id infos by simp_all
  have get1: "fc_get t1 fi ci = (if Some (fi, ci) \<in> envelope_key ` set X then Some (?D fi ci) else None)"
    for fi ci
    using t1a(4) by (simp add: get0 arrive bl)
  let ?s2 = "handleRelayChunk p tid n c (?D n c) False ?s1"
  note hh = handleRelayChunk_not_last [OF t1a(1), of p n c "?D n c"]
  from hh(1) obtain t2 where t2a: "map_of (incomingTransfers ?s2) tid = Some t2"
    "it_id t2 = it_id t1" "it_files t2 = it_files t1" "it_fileChunks t2 \<noteq> None"
    "\<forall>fi' ci'. fc_get t2 fi' ci' = (if fi' = n \<and> ci' = c then Some (?D n c) else fc_get t1 fi' ci')"
    "tight_chunks t1 \<longrightarrow> tight_chunks t2"
    by blast
  have d2: "downloads ?s2 = downloads r" using hh(3) d1 by simp
  have t2: "it_id t2 = tid" "it_files t2 = map file_info files" "tight_chunks t2"
    using t2a t1 by simp_all
  obtain fc where fc: "it_fileChunks t2 = Some fc" using t2a(4) by auto
  have final: "receive_relay p (pre @ [z]) r = saveAllRelayedFiles tid t2 ?s2"
    using handleRelayChunk_last [OF t1a(1) t2a(1)]
    by (simp add: receive_relay_snoc on_relay_chunk_def zp)
  note sv = saveAllRelayedFiles_effect [OF fc t2(1), of tid ?s2]
  have get2: "fc_get t2 i ci = (if ci < chunk_count (files ! i) then Some (?D i ci) else None)"
    if "i < length files" for i ci
  proof -
    have "Some (i, ci) \<in> envelope_key ` set ?envs \<longleftrightarrow> Some (i, ci) \<in> envelope_key ` set X \<or> (i = n \<and> ci = c)"
      by (auto simp: envs z_def)
    then have "(Some (i, ci) \<in> envelope_key ` set X \<or> (i = n \<and> ci = c)) \<longleftrightarrow> ci < chunk_count (files ! i)"
      using that by (simp add: envelope_keys)
    then show ?thesis
      using t2a(5) by (auto simp: get1)
  qed
  have blobs: "map (\<lambda>i. (Blob (case js_get fc i of None \<Rightarrow> [] | Some c \<Rightarrow> c), fi_name (it_files t2 ! i)))
        [0..<length (it_files t2)] =
      map (\<lambda>i. (file_data (files ! i), fi_name (map file_info files ! i))) [0..<length files]"
    using assembled_file [OF t2(3) fc] get2
    by (simp add: t2(2))
  have dl: "downloads (receive_relay p (pre @ [z]) r) = downloads r @ map (\<lambda>f. (file_data f, file_name f)) files"
    unfolding final sv(1) blobs map_nth_files d2 ..
  have gone: "map_of (incomingTransfers (receive_relay p (pre @ [z]) r)) tid = None"
    unfolding final by (rule sv(2))
  have ev: "last (events (receive_relay p (pre @ [z]) r)) = Ev ''receive-complete'' tid"
    unfolding final sv(3) by simp
  have ign: "\<forall>m \<in> set ?envs. on_relay_chunk p m (receive_relay p (pre @ [z]) r) = receive_relay p (pre @ [z]) r"
  proof
    fix m assume "m \<in> set ?envs"
    then obtain fi ci where "m = relay_envelope peer tid files fi ci"
      by (auto simp: in_relay_envelopes)
    then have "\<exists>d l. msg_payload m = Some (RelayChunkP tid fi ci d l)"
      by (simp add: relay_envelope_def)
    with gone show "on_relay_chunk p m (receive_relay p (pre @ [z]) r) = receive_relay p (pre @ [z]) r"
      by (auto intro: on_relay_chunk_gone)
  qed
  show ?thesis
    unfolding bl using zl nl dl gone ev part ign by blast
qed


lemma file_infos_small [simp]:
  "file_info small_file = \<lparr>fi_name = ''a.txt'', fi_size = 3, fi_type = ''text/plain''\<rparr>"
  "file_info other_file = \<lparr>fi_name = ''b.txt'', fi_size = 2, fi_type = ''text/plain''\<rparr>"
  by (simp_all add: file_info_def small_file_def other_file_def file_size_def)

text \<open>
  Three one-chunk files; the two envelopes without \<open>isLast\<close> arrive out of index order,
  one of them twice.
\<close>

theorem C3_relay_reassembly_witness:
  "[small_file, other_file, small_file] \<noteq> [] \<and>
   0 < file_size (last [small_file, other_file, small_file]) \<and>
   relay_envelopes ''peerB'' ''t1'' [small_file, other_file, small_file] =
     [\<lparr>msg_type = ''relay-chunk'', msg_payload = Some (RelayChunkP ''t1'' 0 0 [1, 2, 3] False),
       msg_targetId = Some ''peerB''\<rparr>,
      \<lparr>msg_type = ''relay-chunk'', msg_payload = Some (RelayChunkP ''t1'' 1 0 [4, 5] False),
       msg_targetId = Some ''peerB''\<rparr>,
      \<lparr>msg_type = ''relay-chunk'', msg_payload = Some (RelayChunkP ''t1'' 2 0 [1, 2, 3] True),
       msg_targetId = Some ''peerB''\<rparr>] \<and>
   downloads (receive_relay ''peerA''
     [\<lparr>msg_type = ''relay-chunk'', msg_payload = Some (RelayChunkP ''t1'' 1 0 [4, 5] False),
       msg_targetId = Some ''peerB''\<rparr>,
      \<lparr>msg_type = ''relay-chunk'', msg_payload = Some (RelayChunkP ''t1'' 0 0 [1, 2, 3] False),
       msg_targetId = Some ''peerB''\<rparr>,
      \<lparr>msg_type = ''relay-chunk'', msg_payload = Some (RelayChunkP ''t1'' 1 0 [4, 5] False),
       msg_targetId = Some ''peerB''\<rparr>,
      \<lparr>msg_type = ''relay-chunk'', msg_payload = Some (RelayChunkP ''t1'' 2 0 [1, 2, 3] True),
       msg_targetId = Some ''peerB''\<rparr>]
     (example_receiver [small_file, other_file, small_file])) =
     [([1, 2, 3], ''a.txt''), ([4, 5], ''b.txt''), ([1, 2, 3], ''a.txt'')] \<and>
   map_of (incomingTransfers (receive_relay ''peerA''
     [\<lparr>msg_type = ''relay-chunk'', msg_payload = Some (RelayChunkP ''t1'' 1 0 [4, 5] False),
       msg_targetId = Some ''peerB''\<rparr>,
      \<lparr>msg_type = ''relay-chunk'', msg_payload = Some (RelayChunkP ''t1'' 0 0 [1, 2, 3] False),
       msg_targetId = Some ''peerB''\<rparr>,
      \<lparr>msg_type = ''relay-chunk'', msg_payload = Some (RelayChunkP ''t1'' 1 0 [4, 5] False),
       msg_targetId = Some ''peerB''\<rparr>,
      \<lparr>msg_type = ''relay-chunk'', msg_payload = Some (RelayChunkP ''t1'' 2 0 [1, 2, 3] True),
       msg_targetId = Some ''peerB''\<rparr>]
     (example_receiver [small_file, other_file, small_file]))) ''t1'' = None"
proof -
  let ?F = "[small_file, other_file, small_file]"
  let ?R = "example_receiver ?F"
  let ?e0 = "\<lparr>msg_type = ''relay-chunk'', msg_payload = Some (RelayChunkP ''t1'' 0 0 [1, 2, 3] False),
       msg_targetId = Some ''peerB''\<rparr>"
  let ?e1 = "\<lparr>msg_type = ''relay-chunk'', msg_payload = Some (RelayChunkP ''t1'' 1 0 [4, 5] False),
       msg_targetId = Some ''peerB''\<rparr>"
  let ?e2 = "\<lparr>msg_type = ''relay-chunk'', msg_payload = Some (RelayChunkP ''t1'' 2 0 [1, 2, 3] True),
       msg_targetId = Some ''peerB''\<rparr>"
  have a: "?F \<noteq> []" "0 < file_size (last ?F)"
    by (simp_all add: file_size_def small_file_def)
  have envs: "relay_envelopes ''peerB'' ''t1'' ?F = [?e0, ?e1, ?e2]"
    by (simp add: relay_envelopes_def relay_envelope_def upt_rec)
  have pre: "set [?e1, ?e0, ?e1] = set (butlast (relay_envelopes ''peerB'' ''t1'' ?F))"
    unfolding envs by auto
  note c = C3_relay_reassembly [where p = "''peerA''" and peer = "''peerB''" and files = ?F
      and pre = "[?e1, ?e0, ?e1]", OF a example_receiver_entry(1) _ _ _ pre]
  from c have "downloads (receive_relay ''peerA'' ([?e1, ?e0, ?e1] @ [last (relay_envelopes ''peerB'' ''t1'' ?F)]) ?R) =
       downloads ?R @ map (\<lambda>f. (file_data f, file_name f)) ?F"
    "map_of (incomingTransfers (receive_relay ''peerA''
       ([?e1, ?e0, ?e1] @ [last (relay_envelopes ''peerB'' ''t1'' ?F)]) ?R)) ''t1'' = None"
    by simp_all
  then have "downloads (receive_relay ''peerA'' [?e1, ?e0, ?e1, ?e2] ?R) =
       [([1, 2, 3], ''a.txt''), ([4, 5], ''b.txt''), ([1, 2, 3], ''a.txt'')]"
    "map_of (incomingTransfers (receive_relay ''peerA'' [?e1, ?e0, ?e1, ?e2] ?R)) ''t1'' = None"
    unfolding envs by (simp_all add: example_receiver_entry small_file_def other_file_def)
  with a envs show ?thesis by blast
qed

text \<open>
  The same path with the two envelopes of a two-file transfer swapped: the \<open>isLast\<close>
  envelope is processed first, \<open>saveAllRelayedFiles\<close> runs with the first file's chunk
  array still undefined, and the first file is saved empty; the envelope that arrives
  afterwards finds no transfer and is dropped.
\<close>

theorem C3_isLast_first_counterexample:
  "ws_handed (wsManager (sendViaRelay (example_transfer [small_file, other_file]) ftm0)) =
     [\<lparr>msg_type = ''relay-chunk'', msg_payload = Some (RelayChunkP ''t1'' 0 0 [1, 2, 3] False),
       msg_targetId = Some ''peerB''\<rparr>,
      \<lparr>msg_type = ''relay-chunk'', msg_payload = Some (RelayChunkP ''t1'' 1 0 [4, 5] True),
       msg_targetId = Some ''peerB''\<rparr>] \<and>
   map (\<lambda>f. (file_data f, file_name f)) [small_file, other_file] =
     [([1, 2, 3], ''a.txt''), ([4, 5], ''b.txt'')] \<and>
   downloads (receive_relay ''peerA''
     [\<lparr>msg_type = ''relay-chunk'', msg_payload = Some (RelayChunkP ''t1'' 1 0 [4, 5] True),
       msg_targetId = Some ''peerB''\<rparr>,
      \<lparr>msg_type = ''relay-chunk'', msg_payload = Some (RelayChunkP ''t1'' 0 0 [1, 2, 3] False),
       msg_targetId = Some ''peerB''\<rparr>]
     (example_receiver [small_file, other_file])) =
     [([], ''a.txt''), ([4, 5], ''b.txt'')]"
proof -
  let ?F = "[small_file, other_file]"
  have envs: "relay_envelopes ''peerB'' ''t1'' ?F =
     [\<lparr>msg_type = ''relay-chunk'', msg_payload = Some (RelayChunkP ''t1'' 0 0 [1, 2, 3] False),
       msg_targetId = Some ''peerB''\<rparr>,
      \<lparr>msg_type = ''relay-chunk'', msg_payload = Some (RelayChunkP ''t1'' 1 0 [4, 5] True),
       msg_targetId = Some ''peerB''\<rparr>]"
    by (simp add: relay_envelopes_def relay_envelope_def upt_rec)
  have 1: "ws_handed (wsManager (sendViaRelay (example_transfer ?F) ftm0)) =
      relay_envelopes ''peerB'' ''t1'' ?F"
    using sendViaRelay_effect [of "example_transfer ?F" ftm0]
    by (simp add: example_transfer_def)
  have 2: "map (\<lambda>f. (file_data f, file_name f)) ?F = [([1, 2, 3], ''a.txt''), ([4, 5], ''b.txt'')]"
    by (simp add: small_file_def other_file_def)
  have 3: "downloads (receive_relay ''peerA''
     [\<lparr>msg_type = ''relay-chunk'', msg_payload = Some (RelayChunkP ''t1'' 1 0 [4, 5] True),
       msg_targetId = Some ''peerB''\<rparr>,
      \<lparr>msg_type = ''relay-chunk'', msg_payload = Some (RelayChunkP ''t1'' 0 0 [1, 2, 3] False),
       msg_targetId = Some ''peerB''\<rparr>]
     (example_receiver ?F)) = [([], ''a.txt''), ([4, 5], ''b.txt'')]"
    by (simp add: receive_relay_def on_relay_chunk_def handleRelayChunk_def saveAllRelayedFiles_def
        js_set_def js_get_def Blob_def example_receiver_entry dispatchEvent_def Let_def upt_rec)
  show ?thesis unfolding 1 envs using 2 3 by (simp only: envs simp_thms)
qed

subsection \<open>The direct path: what the sender hands over\<close>

lemma sendViaDataChannel_chunks_effect:
  assumes "offset = ci * CHUNK_SIZE"
  shows "ot_id (fst (sendViaDataChannel_chunks f fi offset ci (t, s))) = ot_id t \<and>
     ot_peerId (fst (sendViaDataChannel_chunks f fi offset ci (t, s))) = ot_peerId t \<and>
     outgoingTransfers (snd (sendViaDataChannel_chunks f fi offset ci (t, s))) = outgoingTransfers s \<and>
     incomingTransfers (snd (sendViaDataChannel_chunks f fi offset ci (t, s))) = incomingTransfers s \<and>
     wsManager (snd (sendViaDataChannel_chunks f fi offset ci (t, s))) = wsManager s \<and>
     downloads (snd (sendViaDataChannel_chunks f fi offset ci (t, s))) = downloads s \<and>
     channel_sent (snd (sendViaDataChannel_chunks f fi offset ci (t, s))) =
       channel_sent s @
         map (\<lambda>c. (ot_peerId t, ChunkFrame (fi mod 2 ^ 16) (c mod 2 ^ 32) (chunk_at f c)))
           [ci..<chunk_count f]"
  using assms
proof (induction f fi offset ci "(t, s)" arbitrary: t s rule: sendViaDataChannel_chunks.induct)
  case (1 f fileIndex offset chunkIndex t s)
  show ?case
  proof (cases "offset < file_size f")
    case False
    then have "\<not> chunkIndex < chunk_count f"
      using 1(2) by (simp add: chunk_count_less_iff)
    with False show ?thesis
      by (simp add: sendViaDataChannel_chunks.simps)
  next
    case True
    then have lt: "chunkIndex < chunk_count f"
      using 1(2) by (simp add: chunk_count_less_iff)
    define chunk where "chunk = blob_slice (file_data f) offset (offset + CHUNK_SIZE)"
    define s1 where "s1 = channel_send (ot_peerId t) (createChunkMessage fileIndex chunkIndex chunk) s"
    define t1 where "t1 = t\<lparr>ot_currentChunkIndex := chunkIndex + 1, ot_bytesSent := ot_bytesSent t + length chunk\<rparr>"
    define s2 where "s2 = dispatchEvent (Progress ''send-progress'' (ot_id t1) (ot_bytesSent t1) (ot_totalBytes t1)) s1"
    have step: "sendViaDataChannel_chunks f fileIndex offset chunkIndex (t, s) =
        sendViaDataChannel_chunks f fileIndex (offset + CHUNK_SIZE) (chunkIndex + 1) (t1, s2)"
      using True unfolding chunk_def t1_def s1_def s2_def
      by (subst sendViaDataChannel_chunks.simps) (simp add: Let_def)
    note ih = 1(1) [OF True chunk_def s1_def t1_def s2_def]
    have ih': "ot_id (fst (sendViaDataChannel_chunks f fileIndex (offset + CHUNK_SIZE) (chunkIndex + 1) (t1, s2))) = ot_id t1 \<and>
     ot_peerId (fst (sendViaDataChannel_chunks f fileIndex (offset + CHUNK_SIZE) (chunkIndex + 1) (t1, s2))) = ot_peerId t1 \<and>
     outgoingTransfers (snd (sendViaDataChannel_chunks f fileIndex (offset + CHUNK_SIZE) (chunkIndex + 1) (t1, s2))) = outgoingTransfers s2 \<and>
     incomingTransfers (snd (sendViaDataChannel_chunks f fileIndex (offset + CHUNK_SIZE) (chunkIndex + 1) (t1, s2))) = incomingTransfers s2 \<and>
     wsManager (snd (sendViaDataChannel_chunks f fileIndex (offset + CHUNK_SIZE) (chunkIndex + 1) (t1, s2))) = wsManager s2 \<and>
     downloads (snd (sendViaDataChannel_chunks f fileIndex (offset + CHUNK_SIZE) (chunkIndex + 1) (t1, s2))) = downloads s2 \<and>
     channel_sent (snd (sendViaDataChannel_chunks f fileIndex (offset + CHUNK_SIZE) (chunkIndex + 1) (t1, s2))) =
       channel_sent s2 @
         map (\<lambda>c. (ot_peerId t1, ChunkFrame (fileIndex mod 2 ^ 16) (c mod 2 ^ 32) (chunk_at f c)))
           [chunkIndex + 1..<chunk_count f]"
      by (rule ih) (simp add: 1(2))
    have sent: "channel_sent s2 =
        channel_sent s @ [(ot_peerId t, ChunkFrame (fileIndex mod 2 ^ 16) (chunkIndex mod 2 ^ 32) (chunk_at f chunkIndex))]"
      by (simp add: s2_def s1_def chunk_def createChunkMessage_def chunk_at_def 1(2))
    have proj: "ot_id t1 = ot_id t" "ot_peerId t1 = ot_peerId t"
      "outgoingTransfers s2 = outgoingTransfers s" "incomingTransfers s2 = incomingTransfers s"
      "wsManager s2 = wsManager s" "downloads s2 = downloads s"
      by (simp_all add: t1_def s2_def s1_def)
    have upt: "[chunkIndex..<chunk_count f] = chunkIndex # [chunkIndex + 1..<chunk_count f]"
      using lt by (simp add: upt_conv_Cons)
    show ?thesis
      unfolding step upt using ih' by (simp add: sent proj)
  qed
qed

lemma sendViaDataChannel_files_effect:
  "ot_id (fst (sendViaDataChannel_files files fi (t, s))) = ot_id t \<and>
   ot_peerId (fst (sendViaDataChannel_files files fi (t, s))) = ot_peerId t \<and>
   outgoingTransfers (snd (sendViaDataChannel_files files fi (t, s))) = outgoingTransfers s \<and>
   incomingTransfers (snd (sendViaDataChannel_files files fi (t, s))) = incomingTransfers s \<and>
   wsManager (snd (sendViaDataChannel_files files fi (t, s))) = wsManager s \<and>
   downloads (snd (sendViaDataChannel_files files fi (t, s))) = downloads s \<and>
   channel_sent (snd (sendViaDataChannel_files files fi (t, s))) =
     channel_sent s @
       map (Pair (ot_peerId t)) (concat (map (file_frames (ot_id t) files) [fi..<length files]))"
proof (induction files fi "(t, s)" arbitrary: t s rule: sendViaDataChannel_files.induct)
  case (1 files fileIndex t s)
  show ?case
  proof (cases "fileIndex < length files")
    case False
    then show ?thesis by (simp add: sendViaDataChannel_files.simps)
  next
    case True
    define f where "f = files ! fileIndex"
    define t1 where "t1 = t\<lparr>ot_currentFileIndex := fileIndex\<rparr>"
    define md where "md = \<lparr>md_transferId = ot_id t1, md_fileIndex = fileIndex, md_name = file_name f,
                   md_size = file_size f, md_type = file_type f,
                   md_totalChunks = ceil_div (file_size f) CHUNK_SIZE\<rparr>"
    define s1 where "s1 = channel_send (ot_peerId t1) (createMetadataMessage md) s"
    define r where "r = sendViaDataChannel_chunks f fileIndex 0 0 (t1, s1)"
    have step: "sendViaDataChannel_files files fileIndex (t, s) =
        sendViaDataChannel_files files (fileIndex + 1) (fst r, snd r)"
      using True unfolding f_def t1_def md_def s1_def r_def
      by (subst sendViaDataChannel_files.simps) (simp add: Let_def)
    have c: "ot_id (fst r) = ot_id t \<and> ot_peerId (fst r) = ot_peerId t \<and>
      outgoingTransfers (snd r) = outgoingTransfers s \<and> incomingTransfers (snd r) = incomingTransfers s \<and>
      wsManager (snd r) = wsManager s \<and> downloads (snd r) = downloads s \<and>
      channel_sent (snd r) = channel_sent s @
        map (Pair (ot_peerId t)) (file_frames (ot_id t) files fileIndex)"
      using sendViaDataChannel_chunks_effect [of 0 0 f fileIndex t1 s1]
      by (simp add: r_def s1_def md_def f_def t1_def file_frames_def createMetadataMessage_def
          chunk_count_def comp_def)
    have "sendViaDataChannel_chunks (files ! fileIndex) fileIndex 0 0
        (t\<lparr>ot_currentFileIndex := fileIndex\<rparr>,
         channel_send (ot_peerId (t\<lparr>ot_currentFileIndex := fileIndex\<rparr>))
           (createMetadataMessage
              \<lparr>md_transferId = ot_id (t\<lparr>ot_currentFileIndex := fileIndex\<rparr>), md_fileIndex = fileIndex,
                 md_name = file_name (files ! fileIndex), md_size = file_size (files ! fileIndex),
                 md_type = file_type (files ! fileIndex),
                 md_totalChunks = ceil_div (file_size (files ! fileIndex)) CHUNK_SIZE\<rparr>) s) = (fst r, snd r)"
      by (simp add: r_def s1_def md_def f_def t1_def)
    note ih = 1 [OF True refl refl refl refl this]
    have upt: "[fileIndex..<length files] = fileIndex # [fileIndex + 1..<length files]"
      using True by (simp add: upt_conv_Cons)
    show ?thesis
      unfolding step upt using ih c by simp
  qed
qed

lemma chunk_sizes:
  assumes "ci < chunk_count f"
  shows "length (chunk_at f ci) =
     (if Suc ci < chunk_count f then CHUNK_SIZE
      else if file_size f mod CHUNK_SIZE = 0 then CHUNK_SIZE
      else file_size f mod CHUNK_SIZE)"
proof -
  define r where "r = file_size f - ci * CHUNK_SIZE"
  have lt: "ci * CHUNK_SIZE < file_size f"
    using assms by (simp add: chunk_count_less_iff)
  then have n: "file_size f = ci * CHUNK_SIZE + r" and r: "0 < r"
    by (simp_all add: r_def)
  have len: "length (chunk_at f ci) = min CHUNK_SIZE r"
    by (simp add: length_chunk_at r_def)
  show ?thesis
  proof (cases "Suc ci < chunk_count f")
    case True
    then have "Suc ci * CHUNK_SIZE < file_size f"
      by (simp add: chunk_count_less_iff)
    then have "CHUNK_SIZE < r" by (simp add: r_def)
    with True len show ?thesis by simp
  next
    case False
    then have "\<not> Suc ci * CHUNK_SIZE < file_size f"
      by (simp add: chunk_count_less_iff)
    then have le: "r \<le> CHUNK_SIZE" by (simp add: r_def)
    show ?thesis
    proof (cases "r = CHUNK_SIZE")
      case True
      then have "file_size f mod CHUNK_SIZE = 0" by (simp add: n)
      with False len True show ?thesis by simp
    next
      case ne: False
      with le have "r < CHUNK_SIZE" by simp
      then have "file_size f mod CHUNK_SIZE = r" by (simp add: n)
      with False len r le show ?thesis by simp
    qed
  qed
qed

lemma sendViaDataChannel_effect:
  assumes "channel_open rtc (ot_peerId t)"
  shows "\<exists>s'. sendViaDataChannel rtc t s = Inr s' \<and>
     channel_sent s' = channel_sent s @ map (Pair (ot_peerId t)) (direct_frames (ot_id t) (ot_files t)) \<and>
     outgoingTransfers s' = AList.delete (ot_id t) (outgoingTransfers s) \<and>
     incomingTransfers s' = incomingTransfers s \<and>
     wsManager s' = wsManager s \<and> downloads s' = downloads s \<and>
     events s' \<noteq> [] \<and> last (events s') = Ev ''send-complete'' (ot_id t)"
  using assms sendViaDataChannel_files_effect [of "ot_files t" 0 "t\<lparr>ot_status := ''transferring''\<rparr>" s]
  by (simp add: sendViaDataChannel_def Let_def split_beta direct_frames_def createCompleteMessage_def)


subsection \<open>The direct path: what the receiver saves\<close>

lemma find_update:
  "find P xs = Some (k, v) \<Longrightarrow> P (k, v') \<Longrightarrow> find P (AList.update k v' xs) = Some (k, v')"
  by (induction xs) (auto split: if_splits)

lemma findTransferByPeer_update:
  assumes "findTransferByPeer p s = Some (k, t)"
    and "it_peerId t' = p" and "it_status t' \<noteq> ''completed''"
  shows "findTransferByPeer p (s\<lparr>incomingTransfers := AList.update k t' (incomingTransfers s)\<rparr>) = Some (k, t')"
  using assms unfolding findTransferByPeer_def
  by (simp add: find_update)

lemma findTransferByPeer_peer:
  "findTransferByPeer p s = Some (k, t) \<Longrightarrow> it_peerId t = p \<and> it_status t \<noteq> ''completed''"
  unfolding findTransferByPeer_def by (auto simp: find_Some_iff)

lemma receive_frames_append:
  "receive_frames p (xs @ ys) s = receive_frames p ys (receive_frames p xs s)"
  by (simp add: receive_frames_def)

lemma receive_frames_Nil [simp]: "receive_frames p [] s = s"
  by (simp add: receive_frames_def)

lemma receive_frames_Cons:
  "receive_frames p (x # xs) s = receive_frames p xs (handleBinaryMessage p x s)"
  by (simp add: receive_frames_def)

text \<open>
  After the metadata of a file and its first \<open>j\<close> chunks, fewer than the file
  has, the chunks are collected and nothing is saved.
\<close>

lemma receive_chunks_partial:
  assumes find: "findTransferByPeer p s = Some (tid, t)"
    and entry: "map_of (incomingTransfers s) tid = Some t"
    and md: "it_currentFileMetadata t = Some md" "md_totalChunks md = chunk_count f"
    and data: "it_currentFileData t = []"
    and j: "j < chunk_count f"
  shows "\<exists>t'. findTransferByPeer p (receive_frames p (map (\<lambda>ci. ChunkFrame a (b ci) (chunk_at f ci)) [0..<j]) s) = Some (tid, t') \<and>
     map_of (incomingTransfers (receive_frames p (map (\<lambda>ci. ChunkFrame a (b ci) (chunk_at f ci)) [0..<j]) s)) tid = Some t' \<and>
     it_currentFileMetadata t' = Some md \<and>
     it_currentFileData t' = map (chunk_at f) [0..<j] \<and>
     downloads (receive_frames p (map (\<lambda>ci. ChunkFrame a (b ci) (chunk_at f ci)) [0..<j]) s) = downloads s \<and>
     uncaught (receive_frames p (map (\<lambda>ci. ChunkFrame a (b ci) (chunk_at f ci)) [0..<j]) s) = uncaught s"
  using j
proof (induction j)
  case 0
  show ?case using find entry md data by simp
next
  case (Suc j)
  let ?s = "receive_frames p (map (\<lambda>ci. ChunkFrame a (b ci) (chunk_at f ci)) [0..<j]) s"
  from Suc obtain t1 where t1: "findTransferByPeer p ?s = Some (tid, t1)"
    "map_of (incomingTransfers ?s) tid = Some t1"
    "it_currentFileMetadata t1 = Some md" "it_currentFileData t1 = map (chunk_at f) [0..<j]"
    "downloads ?s = downloads s" "uncaught ?s = uncaught s"
    by auto
  define t2 where "t2 = t1\<lparr>it_currentFileData := it_currentFileData t1 @ [chunk_at f j],
                            it_bytesReceived := it_bytesReceived t1 + length (chunk_at f j)\<rparr>"
  have peer: "it_peerId t2 = p" "it_status t2 \<noteq> ''completed''"
    using findTransferByPeer_peer [OF t1(1)] by (simp_all add: t2_def)
  have step: "handleBinaryMessage p (ChunkFrame a (b j) (chunk_at f j)) ?s =
      dispatchEvent (Progress ''receive-progress'' (it_id t2) (it_bytesReceived t2) (it_totalSize t2))
        (?s\<lparr>incomingTransfers := AList.update tid t2 (incomingTransfers ?s)\<rparr>)"
    using t1 Suc.prems md(2)
    by (simp add: handleBinaryMessage_def handleChunk_def Let_def t2_def)
  have "receive_frames p (map (\<lambda>ci. ChunkFrame a (b ci) (chunk_at f ci)) [0..<Suc j]) s =
      handleBinaryMessage p (ChunkFrame a (b j) (chunk_at f j)) ?s"
    by (simp add: receive_frames_append receive_frames_Cons)
  then show ?case
    unfolding step
    using findTransferByPeer_update [OF t1(1) peer] t1
    by (simp add: update_conv' t2_def findTransferByPeer_def)
qed

text \<open>
  The frames of one file: a file that is not empty is saved when its last chunk
  arrives, with the sender's bytes; of an empty file only the metadata arrives,
  and nothing is saved.
\<close>

lemma receive_file_frames:
  assumes find: "findTransferByPeer p s = Some (tid, t)"
    and entry: "map_of (incomingTransfers s) tid = Some t"
  shows "\<exists>t'. findTransferByPeer p (receive_frames p (file_frames tid' files fi) s) = Some (tid, t') \<and>
     map_of (incomingTransfers (receive_frames p (file_frames tid' files fi) s)) tid = Some t' \<and>
     downloads (receive_frames p (file_frames tid' files fi) s) =
       downloads s @ (if file_size (files ! fi) = 0 then []
                      else [(file_data (files ! fi), file_name (files ! fi))]) \<and>
     uncaught (receive_frames p (file_frames tid' files fi) s) = uncaught s"
proof -
  define f where "f = files ! fi"
  define md where "md = \<lparr>md_transferId = tid', md_fileIndex = fi, md_name = file_name f,
                    md_size = file_size f, md_type = file_type f, md_totalChunks = chunk_count f\<rparr>"
  define t1 where "t1 = t\<lparr>it_currentFileIndex := md_fileIndex md, it_currentFileData := [],
                         it_currentFileMetadata := Some md, it_status := ''transferring''\<rparr>"
  define s1 where "s1 = s\<lparr>incomingTransfers := AList.update tid t1 (incomingTransfers s)\<rparr>"
  define chunks where "chunks = (\<lambda>j. map (\<lambda>ci. ChunkFrame (fi mod 2 ^ 16) (ci mod 2 ^ 32) (chunk_at f ci)) [0..<j])"
  have frames: "file_frames tid' files fi = MetadataFrame md # chunks (chunk_count f)"
    by (simp add: file_frames_def md_def f_def chunks_def)
  have meta: "handleBinaryMessage p (MetadataFrame md) s = s1"
    using find by (simp add: handleBinaryMessage_def handleMetadata_def s1_def t1_def)
  have peer: "it_peerId t1 = p" "it_status t1 \<noteq> ''completed''"
    using findTransferByPeer_peer [OF find] by (simp_all add: t1_def)
  have find1: "findTransferByPeer p s1 = Some (tid, t1)"
    unfolding s1_def by (rule findTransferByPeer_update [OF find peer])
  have entry1: "map_of (incomingTransfers s1) tid = Some t1"
    by (simp add: s1_def update_conv')
  have proj1: "downloads s1 = downloads s" "uncaught s1 = uncaught s"
    by (simp_all add: s1_def)
  show ?thesis
  proof (cases "file_size f = 0")
    case True
    then have "chunk_count f = 0"
      by (simp add: chunk_count_def ceil_div_def CHUNK_SIZE_def)
    then show ?thesis
      unfolding frames receive_frames_Cons meta
      using find1 entry1 proj1 True by (simp add: chunks_def f_def)
  next
    case False
    then have pos: "0 < chunk_count f"
      using chunk_count_less_iff [of 0 f] by simp
    define n where "n = chunk_count f - 1"
    have n: "chunk_count f = Suc n" "n < chunk_count f" using pos by (simp_all add: n_def)
    let ?s = "receive_frames p (chunks n) s1"
    from receive_chunks_partial [OF find1 entry1 _ _ _ n(2), of md "fi mod 2 ^ 16" "\<lambda>ci. ci mod 2 ^ 32"]
    obtain t2 where t2: "findTransferByPeer p ?s = Some (tid, t2)"
      "map_of (incomingTransfers ?s) tid = Some t2"
      "it_currentFileMetadata t2 = Some md" "it_currentFileData t2 = map (chunk_at f) [0..<n]"
      "downloads ?s = downloads s1" "uncaught ?s = uncaught s1"
      by (auto simp: t1_def md_def chunks_def)
    define t3 where "t3 = t2\<lparr>it_currentFileData := it_currentFileData t2 @ [chunk_at f n],
                            it_bytesReceived := it_bytesReceived t2 + length (chunk_at f n)\<rparr>"
    define s3 where "s3 = dispatchEvent (Progress ''receive-progress'' (it_id t3) (it_bytesReceived t3) (it_totalSize t3))
        (?s\<lparr>incomingTransfers := AList.update tid t3 (incomingTransfers ?s)\<rparr>)"
    have blob: "Blob (map Some (it_currentFileData t3)) = file_data f"
    proof -
      have "it_currentFileData t3 = map (chunk_at f) [0..<chunk_count f]"
        by (simp add: t3_def t2(4) n(1))
      then show ?thesis
        by (simp add: Blob_def comp_def concat_chunks)
    qed
    define t4 where "t4 = t3\<lparr>it_receivedFiles := it_receivedFiles t3 @ [(md_name md, file_data f)],
        it_currentFileData := [], it_currentFileMetadata := None\<rparr>"
    have last_step: "handleBinaryMessage p (ChunkFrame (fi mod 2 ^ 16) (n mod 2 ^ 32) (chunk_at f n)) ?s =
        (s3\<lparr>downloads := downloads s3 @ [(file_data f, md_name md)]\<rparr>)
          \<lparr>incomingTransfers := AList.update tid t4 (incomingTransfers s3)\<rparr>"
    proof -
      have len: "length (it_currentFileData t3) = chunk_count f"
        by (simp add: t3_def t2(4) n(1))
      have "handleBinaryMessage p (ChunkFrame (fi mod 2 ^ 16) (n mod 2 ^ 32) (chunk_at f n)) ?s =
          saveReceivedFile tid t3 s3"
        using t2(1) len
        by (simp add: handleBinaryMessage_def handleChunk_def Let_def t3_def [symmetric] s3_def [symmetric])
           (simp add: t3_def t2(3) md_def)
      also have "\<dots> = (s3\<lparr>downloads := downloads s3 @ [(file_data f, md_name md)]\<rparr>)
          \<lparr>incomingTransfers := AList.update tid t4 (incomingTransfers s3)\<rparr>"
        using blob by (simp add: saveReceivedFile_def Let_def t4_def) (simp add: t3_def t2(3) Let_def)
      finally show ?thesis .
    qed
    have all: "receive_frames p (file_frames tid' files fi) s =
        (s3\<lparr>downloads := downloads s3 @ [(file_data f, md_name md)]\<rparr>)
          \<lparr>incomingTransfers := AList.update tid t4 (incomingTransfers s3)\<rparr>"
    proof -
      have "chunks (chunk_count f) = chunks n @ [ChunkFrame (fi mod 2 ^ 16) (n mod 2 ^ 32) (chunk_at f n)]"
        by (simp add: chunks_def n(1))
      then have "receive_frames p (file_frames tid' files fi) s =
          handleBinaryMessage p (ChunkFrame (fi mod 2 ^ 16) (n mod 2 ^ 32) (chunk_at f n)) ?s"
        by (simp only: frames receive_frames_Cons meta receive_frames_append receive_frames_Nil)
      then show ?thesis
        by (simp only: last_step)
    qed
    have peer4: "it_peerId t4 = p" "it_status t4 \<noteq> ''completed''"
      using findTransferByPeer_peer [OF t2(1)] by (simp_all add: t4_def t3_def)
    have find3: "findTransferByPeer p s3 = Some (tid, t3)"
    proof -
      have "it_peerId t3 = p" "it_status t3 \<noteq> ''completed''"
        using findTransferByPeer_peer [OF t2(1)] by (simp_all add: t3_def)
      from findTransferByPeer_update [OF t2(1) this] show ?thesis
        by (simp add: s3_def findTransferByPeer_def)
    qed
    have find4: "findTransferByPeer p ((s3\<lparr>downloads := downloads s3 @ [(file_data f, md_name md)]\<rparr>)
          \<lparr>incomingTransfers := AList.update tid t4 (incomingTransfers s3)\<rparr>) = Some (tid, t4)"
      using findTransferByPeer_update [OF find3 peer4] by (simp add: findTransferByPeer_def)
    show ?thesis
      unfolding all using find4 False
      by (simp add: update_conv' s3_def t2(5,6) proj1 md_def f_def)
  qed
qed


lemma receive_files_prefix:
  assumes find: "findTransferByPeer p s = Some (tid, t)"
    and entry: "map_of (incomingTransfers s) tid = Some t"
    and k: "k \<le> length files"
  shows "\<exists>t'. findTransferByPeer p (receive_frames p (concat (map (file_frames tid' files) [0..<k])) s) = Some (tid, t') \<and>
     map_of (incomingTransfers (receive_frames p (concat (map (file_frames tid' files) [0..<k])) s)) tid = Some t' \<and>
     downloads (receive_frames p (concat (map (file_frames tid' files) [0..<k])) s) =
       downloads s @ map (\<lambda>f. (file_data f, file_name f)) (filter (\<lambda>f. file_size f \<noteq> 0) (take k files)) \<and>
     uncaught (receive_frames p (concat (map (file_frames tid' files) [0..<k])) s) = uncaught s"
  using k
proof (induction k)
  case 0
  show ?case using find entry by simp
next
  case (Suc k)
  let ?s = "receive_frames p (concat (map (file_frames tid' files) [0..<k])) s"
  from Suc obtain t1 where t1: "findTransferByPeer p ?s = Some (tid, t1)"
    "map_of (incomingTransfers ?s) tid = Some t1"
    "downloads ?s = downloads s @ map (\<lambda>f. (file_data f, file_name f))
        (filter (\<lambda>f. file_size f \<noteq> 0) (take k files))"
    "uncaught ?s = uncaught s"
    by auto
  have split: "receive_frames p (concat (map (file_frames tid' files) [0..<Suc k])) s =
      receive_frames p (file_frames tid' files k) ?s"
    by (simp add: receive_frames_append)
  have tk: "take (Suc k) files = take k files @ [files ! k]"
    using Suc.prems by (simp add: take_Suc_conv_app_nth)
  from receive_file_frames [OF t1(1,2), of tid' files k] show ?case
    unfolding split tk by (auto simp: t1(3,4))
qed

lemma receive_direct_frames:
  assumes find: "findTransferByPeer p s = Some (tid, t)"
    and entry: "map_of (incomingTransfers s) tid = Some t"
    and short: "length tid < 256"
  shows "downloads (receive_frames p (direct_frames tid files) s) =
       downloads s @ map (\<lambda>f. (file_data f, file_name f)) (filter (\<lambda>f. file_size f \<noteq> 0) files) \<and>
     map_of (incomingTransfers (receive_frames p (direct_frames tid files) s)) tid = None \<and>
     uncaught (receive_frames p (direct_frames tid files) s) = uncaught s \<and>
     last (events (receive_frames p (direct_frames tid files) s)) = Ev ''receive-complete'' tid"
proof -
  let ?s = "receive_frames p (concat (map (file_frames tid files) [0..<length files])) s"
  from receive_files_prefix [OF find entry order_refl, of tid]
  obtain t1 where t1: "map_of (incomingTransfers ?s) tid = Some t1"
    "downloads ?s = downloads s @ map (\<lambda>f. (file_data f, file_name f))
        (filter (\<lambda>f. file_size f \<noteq> 0) files)"
    "uncaught ?s = uncaught s"
    by auto
  have "receive_frames p (direct_frames tid files) s = handleComplete tid ?s"
    using short
    by (simp add: direct_frames_def receive_frames_append receive_frames_Cons handleBinaryMessage_def)
  then show ?thesis
    using t1 by (simp add: handleComplete_def Let_def delete_conv')
qed

lemma findTransferByPeer_example:
  "findTransferByPeer ''peerA'' (example_receiver files) =
     Some (''t1'', \<lparr>it_id = ''t1'', it_peerId = ''peerA'', it_files = map file_info files,
           it_totalSize = sum_list (map file_size files), it_receivedFiles = [], it_currentFileData = [],
           it_currentFileIndex = 0, it_bytesReceived = 0, it_status = ''accepted'',
           it_currentFileMetadata = None, it_fileChunks = None\<rparr>)"
  by (simp add: findTransferByPeer_def example_receiver_entry(4))

lemma direct_path_200KB:
  "file_size big_file = 204800 \<and> chunk_count big_file = 4 \<and>
   map length (map (chunk_at big_file) [0..<chunk_count big_file]) = [65536, 65536, 65536, 8192] \<and>
   (\<exists>s. sendViaDataChannel open_rtc (example_transfer [big_file]) ftm0 = Inr s \<and>
      map snd (channel_sent s) =
        [MetadataFrame \<lparr>md_transferId = ''t1'', md_fileIndex = 0, md_name = ''big.bin'',
           md_size = 204800, md_type = ''application/octet-stream'', md_totalChunks = 4\<rparr>,
         ChunkFrame 0 0 (chunk_at big_file 0), ChunkFrame 0 1 (chunk_at big_file 1),
         ChunkFrame 0 2 (chunk_at big_file 2), ChunkFrame 0 3 (chunk_at big_file 3),
         CompleteFrame ''t1''] \<and>
      downloads (receive_frames ''peerA'' (map snd (channel_sent s)) (example_receiver [big_file])) =
        [(file_data big_file, ''big.bin'')] \<and>
      length (file_data big_file) = 204800)"
proof -
  have size: "file_size big_file = 204800" by (simp add: file_size_def big_file_def)
  have count: "chunk_count big_file = 4"
    by (simp add: chunk_count_def ceil_div_def size CHUNK_SIZE_def)
  have upt4: "[0..<4] = [0, 1, 2, 3::nat]" by (simp add: upt_rec)
  have lens: "map length (map (chunk_at big_file) [0..<chunk_count big_file]) = [65536, 65536, 65536, 8192]"
    by (simp add: count upt4 length_chunk_at size CHUNK_SIZE_def)
  have frames: "direct_frames ''t1'' [big_file] =
        [MetadataFrame \<lparr>md_transferId = ''t1'', md_fileIndex = 0, md_name = ''big.bin'',
           md_size = 204800, md_type = ''application/octet-stream'', md_totalChunks = 4\<rparr>,
         ChunkFrame 0 0 (chunk_at big_file 0), ChunkFrame 0 1 (chunk_at big_file 1),
         ChunkFrame 0 2 (chunk_at big_file 2), ChunkFrame 0 3 (chunk_at big_file 3),
         CompleteFrame ''t1'']"
    by (simp add: direct_frames_def file_frames_def count size upt4) (simp add: big_file_def)
  have o: "channel_open open_rtc (ot_peerId (example_transfer [big_file]))"
    by (simp add: open_rtc_def)
  from sendViaDataChannel_effect [OF o, of ftm0]
  obtain s where s: "sendViaDataChannel open_rtc (example_transfer [big_file]) ftm0 = Inr s"
    "map snd (channel_sent s) = direct_frames ''t1'' [big_file]"
    by (auto simp: example_transfer_def ftm0_def comp_def)
  have "downloads (receive_frames ''peerA'' (direct_frames ''t1'' [big_file]) (example_receiver [big_file])) =
      [(file_data big_file, ''big.bin'')]"
    using receive_direct_frames [OF findTransferByPeer_example example_receiver_entry(1), of "[big_file]" "[big_file]"]
    by (simp add: example_receiver_entry(2) size) (simp add: big_file_def)
  with s size count lens frames show ?thesis
    by (simp add: file_size_def)
qed

text \<open>
  Claim C2, evaluated on a direct-path transfer of a three-byte file and an empty
  file. The sender does what the claim says: per file one metadata frame with
  \<open>totalChunks = ceil (size / 65536)\<close> and that many chunk frames, for the empty
  file none, and the complete frame at the end. The receiver saves a file when a
  chunk arrives that completes it, so it saves the first file with the sender's
  bytes and never saves the empty one: the transfer is completed and released
  with one file of the two. For every transfer the sender's frames are
  \<open>direct_frames\<close> (\<open>sendViaDataChannel_effect\<close>, with the chunk sizes of
  \<open>chunk_sizes\<close>), and the receiver saves exactly the files that are not empty,
  byte for byte and in order (\<open>receive_direct_frames\<close>); \<open>direct_path_200KB\<close> is
  the claim's example.
\<close>

theorem C2_empty_file_never_saved:
  "\<exists>s. sendViaDataChannel open_rtc (example_transfer [small_file, empty_file]) ftm0 = Inr s \<and>
     map snd (channel_sent s) =
       [MetadataFrame \<lparr>md_transferId = ''t1'', md_fileIndex = 0, md_name = ''a.txt'',
          md_size = 3, md_type = ''text/plain'', md_totalChunks = 1\<rparr>,
        ChunkFrame 0 0 [1, 2, 3],
        MetadataFrame \<lparr>md_transferId = ''t1'', md_fileIndex = 1, md_name = ''empty.txt'',
          md_size = 0, md_type = ''text/plain'', md_totalChunks = 0\<rparr>,
        CompleteFrame ''t1''] \<and>
     map (\<lambda>f. (file_data f, file_name f)) [small_file, empty_file] =
       [([1, 2, 3], ''a.txt''), ([], ''empty.txt'')] \<and>
     downloads (receive_frames ''peerA'' (map snd (channel_sent s))
        (example_receiver [small_file, empty_file])) = [([1, 2, 3], ''a.txt'')] \<and>
     map_of (incomingTransfers (receive_frames ''peerA'' (map snd (channel_sent s))
        (example_receiver [small_file, empty_file]))) ''t1'' = None \<and>
     last (events (receive_frames ''peerA'' (map snd (channel_sent s))
        (example_receiver [small_file, empty_file]))) = Ev ''receive-complete'' ''t1'' \<and>
     uncaught (receive_frames ''peerA'' (map snd (channel_sent s))
        (example_receiver [small_file, empty_file])) = []"
proof -
  let ?F = "[small_file, empty_file]"
  have frames: "direct_frames ''t1'' ?F =
       [MetadataFrame \<lparr>md_transferId = ''t1'', md_fileIndex = 0, md_name = ''a.txt'',
          md_size = 3, md_type = ''text/plain'', md_totalChunks = 1\<rparr>,
        ChunkFrame 0 0 [1, 2, 3],
        MetadataFrame \<lparr>md_transferId = ''t1'', md_fileIndex = 1, md_name = ''empty.txt'',
          md_size = 0, md_type = ''text/plain'', md_totalChunks = 0\<rparr>,
        CompleteFrame ''t1'']"
    by (simp add: direct_frames_def file_frames_def upt_rec)
       (simp add: small_file_def empty_file_def file_size_def)
  have o: "channel_open open_rtc (ot_peerId (example_transfer ?F))"
    by (simp add: open_rtc_def)
  from sendViaDataChannel_effect [OF o, of ftm0]
  obtain s where s: "sendViaDataChannel open_rtc (example_transfer ?F) ftm0 = Inr s"
    "map snd (channel_sent s) = direct_frames ''t1'' ?F"
    by (auto simp: example_transfer_def ftm0_def comp_def)
  have files: "map (\<lambda>f. (file_data f, file_name f)) ?F = [([1, 2, 3], ''a.txt''), ([], ''empty.txt'')]"
    by (simp add: small_file_def empty_file_def)
  have u: "uncaught (example_receiver ?F) = []"
    by (simp add: example_receiver_def acceptTransfer_def handleTransferRequest_def ftm0_def
        dispatchEvent_def Let_def)
  note r = receive_direct_frames [OF findTransferByPeer_example example_receiver_entry(1), of ?F ?F]
  have "downloads (receive_frames ''peerA'' (direct_frames ''t1'' ?F) (example_receiver ?F)) =
      [([1, 2, 3], ''a.txt'')]"
    "map_of (incomingTransfers (receive_frames ''peerA'' (direct_frames ''t1'' ?F) (example_receiver ?F))) ''t1'' = None"
    "last (events (receive_frames ''peerA'' (direct_frames ''t1'' ?F) (example_receiver ?F))) =
       Ev ''receive-complete'' ''t1''"
    "uncaught (receive_frames ''peerA'' (direct_frames ''t1'' ?F) (example_receiver ?F)) = []"
    using r by (simp_all add: example_receiver_entry(2) u)
       (simp_all add: small_file_def empty_file_def file_size_def)
  with s files show ?thesis
    unfolding frames [symmetric] by auto
qed

end
